(* ===== verification/Prelude.thy ===== *)
theory Prelude
  imports Main "HOL-Library.Multiset"
begin

text \<open>
  Shared vocabulary of the yatube development: the identifier types of the entity
  store, the named collections the component theories fill, and generic lemmas on
  lists (slicing into pages, newest-first ordering, join multiplicities, unique
  lookups) that the components use in their proofs.
\<close>

section \<open>Identifiers and named collections\<close>

type_synonym uid = nat   \<comment> \<open>primary key of a \<open>User\<close>\<close>
type_synonym gid = nat   \<comment> \<open>primary key of a \<open>Group\<close>\<close>
type_synonym pid = nat   \<comment> \<open>primary key of a \<open>Post\<close>\<close>
type_synonym cid = nat   \<comment> \<open>primary key of a \<open>Comment\<close>\<close>
type_synonym timestamp = nat  \<comment> \<open>seconds of the server clock\<close>

named_theorems store_simps "equations of the entity store operations"
named_theorems inv_pres "facts that an operation keeps the store invariant"
named_theorems view_simps "equations of the view functions"

section \<open>Slicing a list into pages\<close>

text \<open>
  Python's slice \<open>xs[lo:hi]\<close> of a list, for \<open>0 \<le> lo\<close> and \<open>0 \<le> hi\<close>.
\<close>

definition slice :: "'a list \<Rightarrow> nat \<Rightarrow> nat \<Rightarrow> 'a list" where
  "slice xs lo hi = take (hi - lo) (drop lo xs)"

lemma length_slice [simp]:
  "length (slice xs b t) = min (t - b) (length xs - b)"
  by (simp add: slice_def)

lemma nth_slice [simp]:
  "i < length (slice xs b t) \<Longrightarrow> slice xs b t ! i = xs ! (b + i)"
  by (auto simp: slice_def)

lemma set_slice_subset: "set (slice xs b t) \<subseteq> set xs"
  by (auto simp: slice_def dest: in_set_takeD in_set_dropD)

lemma concat_pages:
  "concat (map (\<lambda>i. slice xs (i * n) (i * n + n)) [0..<k]) = take (k * n) xs"
proof (induction k)
  case 0
  then show ?case by simp
next
  case (Suc k)
  have "take (k * n + n) xs = take (k * n) xs @ take n (drop (k * n) xs)"
    by (rule take_add)
  with Suc show ?case by (simp add: slice_def add.commute)
qed

section \<open>Ceiling division\<close>

definition ceil_div :: "nat \<Rightarrow> nat \<Rightarrow> nat" where
  "ceil_div a b = (a + b - 1) div b"

lemma ceil_div_ge: "0 < b \<Longrightarrow> a \<le> ceil_div a b * b"
proof -
  assume b: "0 < b"
  have "a + b - 1 < (ceil_div a b + 1) * b"
    using b by (simp add: ceil_div_def) (metis dividend_less_div_times)
  then show ?thesis using b by (simp add: algebra_simps)
qed

lemma ceil_div_less: "0 < b \<Longrightarrow> 0 < a \<Longrightarrow> (ceil_div a b - 1) * b < a"
proof -
  assume b: "0 < b" and a: "0 < a"
  have "ceil_div a b * b \<le> a + b - 1"
    by (simp add: ceil_div_def)
  then show ?thesis using a b by (simp add: algebra_simps diff_mult_distrib)
qed

section \<open>Newest-first ordering\<close>

text \<open>
  A query with \<open>ordering = ('-pub_date',)\<close>: a stable sort on the negated key.
  Equal keys keep the order of the underlying table.
\<close>

definition desc_by :: "('a \<Rightarrow> nat) \<Rightarrow> 'a list \<Rightarrow> 'a list" where
  "desc_by f xs = sort_key (\<lambda>x. - int (f x)) xs"

lemma mset_desc_by [simp]: "mset (desc_by f xs) = mset xs"
  by (simp add: desc_by_def)

lemma set_desc_by [simp]: "set (desc_by f xs) = set xs"
  by (simp add: desc_by_def)

lemma length_desc_by [simp]: "length (desc_by f xs) = length xs"
  by (simp add: desc_by_def)

lemma filter_desc_by: "filter P (desc_by f xs) = desc_by f (filter P xs)"
  by (simp add: desc_by_def filter_sort)

lemma desc_by_sorted: "sorted_wrt (\<lambda>x y. f y \<le> f x) (desc_by f xs)"
proof -
  have "sorted (map (\<lambda>x. - int (f x)) (desc_by f xs))"
    by (simp add: desc_by_def)
  then show ?thesis
    by (simp add: sorted_map sorted_wrt_iff_nth_less)
qed

section \<open>Join multiplicities\<close>

text \<open>
  An SQL join yields a row once for every matching row of the joined table:
  \<open>x\<close> is repeated \<open>m x\<close> times.
\<close>

definition join_rows :: "('a \<Rightarrow> nat) \<Rightarrow> 'a list \<Rightarrow> 'a list" where
  "join_rows m xs = concat (map (\<lambda>x. replicate (m x) x) xs)"

lemma set_join_rows [simp]: "set (join_rows m xs) = {x \<in> set xs. 0 < m x}"
  by (auto simp: join_rows_def)

lemma join_rows_01:
  "\<forall>x \<in> set xs. m x \<le> 1 \<Longrightarrow> join_rows m xs = filter (\<lambda>x. 0 < m x) xs"
proof (induction xs)
  case Nil
  then show ?case by (simp add: join_rows_def)
next
  case (Cons x xs)
  then have "m x = 0 \<or> m x = 1" by auto
  with Cons show ?case by (auto simp: join_rows_def)
qed

section \<open>Lookup of a unique row\<close>

text \<open>
  The ORM's \<open>get\<close>: exactly one matching row, or one of two exceptions.
\<close>

datatype 'a get_result = DoesNotExist | Found 'a | MultipleObjectsReturned

definition orm_get :: "('a \<Rightarrow> bool) \<Rightarrow> 'a list \<Rightarrow> 'a get_result" where
  "orm_get P xs = (case filter P xs of
       [] \<Rightarrow> DoesNotExist
     | [x] \<Rightarrow> Found x
     | _ \<Rightarrow> MultipleObjectsReturned)"

lemma orm_get_Found:
  "orm_get P xs = Found x \<longleftrightarrow> filter P xs = [x]"
  by (auto simp: orm_get_def split: list.splits)

lemma orm_get_DoesNotExist:
  "orm_get P xs = DoesNotExist \<longleftrightarrow> (\<forall>x \<in> set xs. \<not> P x)"
proof -
  have "orm_get P xs = DoesNotExist \<longleftrightarrow> filter P xs = []"
    by (auto simp: orm_get_def split: list.splits)
  then show ?thesis by (simp add: filter_empty_conv)
qed

lemma orm_get_Multiple: "2 \<le> length (filter P xs) \<Longrightarrow> orm_get P xs = MultipleObjectsReturned"
  by (auto simp: orm_get_def split: list.splits)

lemma orm_get_unique:
  assumes "distinct (map k xs)" and "x \<in> set xs" and "\<And>y. P y \<longleftrightarrow> k y = k x"
  shows "orm_get P xs = Found x"
proof -
  have "filter P xs = filter (\<lambda>y. k y = k x) xs"
    using assms(3) by presburger
  also have "\<dots> = [x]"
    using assms(1,2)
  proof (induction xs)
    case Nil
    then show ?case by simp
  next
    case (Cons y ys)
    then show ?case
      by (auto simp: filter_empty_conv) (metis image_eqI)
  qed
  finally show ?thesis by (simp add: orm_get_Found)
qed


lemma orm_get_key:
  assumes "distinct (map k xs)"
  shows "orm_get (\<lambda>y. k y = v) xs = (case find (\<lambda>y. k y = v) xs of None \<Rightarrow> DoesNotExist | Some x \<Rightarrow> Found x)"
proof (cases "find (\<lambda>y. k y = v) xs")
  case None
  then have "\<forall>x \<in> set xs. \<not> k x = v" by (simp add: find_None_iff)
  then have "orm_get (\<lambda>y. k y = v) xs = DoesNotExist" by (simp add: orm_get_DoesNotExist)
  with None show ?thesis by simp
next
  case (Some x)
  then have "x \<in> set xs" "k x = v" by (auto simp: find_Some_iff nth_mem)
  with assms have "orm_get (\<lambda>y. k y = v) xs = Found x"
    by (intro orm_get_unique [where k = k]) auto
  with Some show ?thesis by simp
qed

lemma orm_get_key_not_multiple:
  "distinct (map k xs) \<Longrightarrow> orm_get (\<lambda>y. k y = v) xs \<noteq> MultipleObjectsReturned"
  by (simp add: orm_get_key split: option.splits)

lemma orm_get_key_found:
  assumes "distinct (map k xs)"
  shows "orm_get (\<lambda>y. k y = v) xs = Found x \<longleftrightarrow> x \<in> set xs \<and> k x = v"
proof
  assume "orm_get (\<lambda>y. k y = v) xs = Found x"
  then have "filter (\<lambda>y. k y = v) xs = [x]" by (simp add: orm_get_Found)
  then have "x \<in> set (filter (\<lambda>y. k y = v) xs)" by simp
  then show "x \<in> set xs \<and> k x = v" by simp
next
  assume "x \<in> set xs \<and> k x = v"
  with assms show "orm_get (\<lambda>y. k y = v) xs = Found x"
    by (intro orm_get_unique [where k = k]) auto
qed

lemma orm_get_key_none:
  "orm_get (\<lambda>y. k y = v) xs = DoesNotExist \<longleftrightarrow> v \<notin> k ` set xs"
  by (auto simp: orm_get_DoesNotExist)

lemma filter_single_value_distinct:
  "distinct xs \<Longrightarrow> length (filter (\<lambda>y. y = x) xs) \<le> 1"
  by (induction xs) (auto simp: filter_empty_conv)

lemma fresh_key:
  "\<forall>x \<in> set xs. k x < (n::nat) \<Longrightarrow> n \<notin> set (map k xs)"
  by (induction xs) auto

lemma map_key_update:
  "map k (map (\<lambda>q. if k q = k p then p else q) xs) = map k xs"
  by (induction xs) auto

lemma orm_get_Found_mem: "orm_get P xs = Found x \<Longrightarrow> x \<in> set xs \<and> P x"
proof -
  assume "orm_get P xs = Found x"
  then have "filter P xs = [x]" by (simp add: orm_get_Found)
  then have "x \<in> set (filter P xs)" by simp
  then show ?thesis by simp
qed

lemma orm_get_absent:
  "v \<notin> k ` set xs \<Longrightarrow> orm_get (\<lambda>y. k y = v) xs = DoesNotExist"
  by (simp add: orm_get_key_none)

lemma filter_eq_single:
  assumes "length (filter (\<lambda>y. y = x) xs) = 1"
  shows "filter (\<lambda>y. y = x) xs = [x]"
proof -
  obtain z where z: "filter (\<lambda>y. y = x) xs = [z]"
    using assms by (auto simp: length_Suc_conv)
  then have "z \<in> set (filter (\<lambda>y. y = x) xs)" by simp
  then have "z = x" by simp
  with z show ?thesis by simp
qed

lemma count_mset_join_rows: "count (mset (join_rows m xs)) x = count (mset xs) x * m x"
  by (induction xs) (auto simp: join_rows_def)

end
