(* ===== verification/PyText.thy ===== *)
theory PyText
  imports Prelude
begin

text \<open>
  The two Python built-ins the request layer applies to query and form strings:
  \<open>str.strip()\<close> (used by Django's \<open>CharField\<close>) and \<open>int(str)\<close> (used by
  \<open>Paginator.validate_number\<close> on the \<open>page\<close> parameter and by the primary-key lookup
  of \<open>ModelChoiceField\<close>), restricted to ASCII text; and \<open>str(int)\<close>, with the
  round trip \<open>int(str(n)) = n\<close>.
\<close>

section \<open>Characters\<close>

definition py_is_space :: "char \<Rightarrow> bool" where
  \<comment> \<open>\<open>str.isspace\<close> on ASCII: tab, LF, VT, FF, CR, the separators 0x1c-0x1f, space\<close>
  "py_is_space c \<longleftrightarrow> (let n = (of_char c :: nat) in (9 \<le> n \<and> n \<le> 13) \<or> (28 \<le> n \<and> n \<le> 32))"

definition is_digit :: "char \<Rightarrow> bool" where
  "is_digit c \<longleftrightarrow> (let n = (of_char c :: nat) in 48 \<le> n \<and> n \<le> 57)"

definition digit_val :: "char \<Rightarrow> nat" where
  "digit_val c = of_char c - 48"

definition digit_char :: "nat \<Rightarrow> char" where
  "digit_char d = char_of (48 + d)"

section \<open>\<open>str.strip()\<close>\<close>

definition py_strip :: "string \<Rightarrow> string" where
  "py_strip s = rev (dropWhile py_is_space (rev (dropWhile py_is_space s)))"

section \<open>\<open>int(str)\<close>\<close>

text \<open>
  A decimal literal: digits, with single underscores allowed between two digits
  (PEP 515): \<open>1_000\<close> is read, \<open>_1\<close>, \<open>1_\<close> and \<open>1__0\<close> are not.
\<close>

fun no_double_underscore :: "string \<Rightarrow> bool" where
  "no_double_underscore (a # b # r) =
     (\<not> (a = CHR ''_'' \<and> b = CHR ''_'') \<and> no_double_underscore (b # r))"
| "no_double_underscore _ = True"

definition valid_digits :: "string \<Rightarrow> bool" where
  "valid_digits ds \<longleftrightarrow>
     ds \<noteq> [] \<and> list_all (\<lambda>c. is_digit c \<or> c = CHR ''_'') ds \<and>
     is_digit (hd ds) \<and> is_digit (last ds) \<and> no_double_underscore ds"

definition digits_value :: "string \<Rightarrow> nat" where
  "digits_value ds = foldl (\<lambda>acc c. 10 * acc + digit_val c) 0 (filter is_digit ds)"

definition parse_unsigned :: "string \<Rightarrow> nat option" where
  "parse_unsigned ds = (if valid_digits ds then Some (digits_value ds) else None)"

text \<open>\<open>int(s)\<close>: \<open>None\<close> where Python raises \<open>ValueError\<close>.\<close>

definition parse_py_int :: "string \<Rightarrow> int option" where
  "parse_py_int s =
     (case py_strip s of
        [] \<Rightarrow> None
      | c # ds \<Rightarrow>
          if c = CHR ''-'' then map_option (\<lambda>n. - int n) (parse_unsigned ds)
          else if c = CHR ''+'' then map_option int (parse_unsigned ds)
          else map_option int (parse_unsigned (c # ds)))"

section \<open>\<open>str(int)\<close>\<close>

fun nat_digits :: "nat \<Rightarrow> string" where
  "nat_digits n = (if n < 10 then [digit_char n] else nat_digits (n div 10) @ [digit_char (n mod 10)])"

declare nat_digits.simps [simp del]

definition py_str_int :: "int \<Rightarrow> string" where
  "py_str_int i = (if i < 0 then CHR ''-'' # nat_digits (nat (- i)) else nat_digits (nat i))"

section \<open>Round trip\<close>

text \<open>
  The digits printed by \<open>str\<close> are read back by \<open>int\<close>: every integer survives
  being written into a query string and parsed again.
\<close>

lemma digit_char_props:
  assumes "d < 10"
  shows "is_digit (digit_char d)" and "digit_val (digit_char d) = d"
    and "\<not> py_is_space (digit_char d)" and "digit_char d \<noteq> CHR ''_''"
    and "digit_char d \<noteq> CHR ''-''" and "digit_char d \<noteq> CHR ''+''"
proof -
  have o: "(of_char (digit_char d) :: nat) = 48 + d"
    using assms by (simp add: digit_char_def)
  show "is_digit (digit_char d)" using assms o by (simp add: is_digit_def)
  show "digit_val (digit_char d) = d" using o by (simp add: digit_val_def)
  show "\<not> py_is_space (digit_char d)" using o by (simp add: py_is_space_def)
  show "digit_char d \<noteq> CHR ''_''" using o assms by (auto dest: arg_cong[where f = "of_char :: char \<Rightarrow> nat"])
  show "digit_char d \<noteq> CHR ''-''" using o assms by (auto dest: arg_cong[where f = "of_char :: char \<Rightarrow> nat"])
  show "digit_char d \<noteq> CHR ''+''" using o assms by (auto dest: arg_cong[where f = "of_char :: char \<Rightarrow> nat"])
qed

lemma nat_digits_chars: "c \<in> set (nat_digits n) \<Longrightarrow> \<exists>d < 10. c = digit_char d"
proof (induction n rule: nat_digits.induct)
  case (1 n)
  show ?case
  proof (cases "n < 10")
    case True
    with "1.prems" show ?thesis by (auto simp: nat_digits.simps [of n])
  next
    case False
    with "1.prems" have "c \<in> set (nat_digits (n div 10)) \<or> c = digit_char (n mod 10)"
      by (auto simp: nat_digits.simps [of n])
    moreover have "n mod 10 < 10" by simp
    ultimately show ?thesis using "1.IH" False by blast
  qed
qed

lemma nat_digits_ne: "nat_digits n \<noteq> []"
  by (simp add: nat_digits.simps [of n])

lemma hd_nat_digits: "\<exists>d < 10. hd (nat_digits n) = digit_char d"
  using nat_digits_chars [of "hd (nat_digits n)" n] nat_digits_ne [of n] by simp

lemma last_nat_digits: "\<exists>d < 10. last (nat_digits n) = digit_char d"
  using nat_digits_chars [of "last (nat_digits n)" n] nat_digits_ne [of n] by simp

lemma no_double_underscore_free:
  "CHR ''_'' \<notin> set s \<Longrightarrow> no_double_underscore s"
  by (induction s rule: no_double_underscore.induct) auto

lemma digits_value_snoc:
  "is_digit c \<Longrightarrow> digits_value (xs @ [c]) = 10 * digits_value xs + digit_val c"
  by (simp add: digits_value_def)

lemma digits_value_nat_digits: "digits_value (nat_digits n) = n"
proof (induction n rule: nat_digits.induct)
  case (1 n)
  show ?case
  proof (cases "n < 10")
    case True
    then show ?thesis
      by (simp add: nat_digits.simps [of n] digits_value_def digit_char_props)
  next
    case False
    then have "digits_value (nat_digits n) = 10 * (n div 10) + n mod 10"
      using "1.IH" by (simp add: nat_digits.simps [of n] digits_value_snoc digit_char_props)
    then show ?thesis by simp
  qed
qed

lemma valid_nat_digits: "valid_digits (nat_digits n)"
proof -
  have all: "list_all (\<lambda>c. is_digit c \<or> c = CHR ''_'') (nat_digits n)"
    by (auto simp: list_all_iff dest!: nat_digits_chars simp: digit_char_props)
  have "CHR ''_'' \<notin> set (nat_digits n)"
    using nat_digits_chars digit_char_props(4) by metis
  then show ?thesis
    using all nat_digits_ne hd_nat_digits [of n] last_nat_digits [of n]
    by (auto simp: valid_digits_def digit_char_props no_double_underscore_free)
qed

lemma parse_unsigned_nat_digits: "parse_unsigned (nat_digits n) = Some n"
  by (simp add: parse_unsigned_def valid_nat_digits digits_value_nat_digits)

lemma py_strip_no_space:
  "list_all (\<lambda>c. \<not> py_is_space c) s \<Longrightarrow> py_strip s = s"
proof -
  assume a: "list_all (\<lambda>c. \<not> py_is_space c) s"
  have d: "\<And>xs. list_all (\<lambda>c. \<not> py_is_space c) xs \<Longrightarrow> dropWhile py_is_space xs = xs"
    by (case_tac xs) auto
  from a have "list_all (\<lambda>c. \<not> py_is_space c) (rev s)" by (simp add: list_all_iff)
  with a d show ?thesis by (simp add: py_strip_def)
qed

lemma py_str_int_no_space: "list_all (\<lambda>c. \<not> py_is_space c) (py_str_int i)"
proof -
  have "\<not> py_is_space (CHR ''-'')" by (simp add: py_is_space_def)
  moreover have "\<And>n. list_all (\<lambda>c. \<not> py_is_space c) (nat_digits n)"
    by (auto simp: list_all_iff dest!: nat_digits_chars simp: digit_char_props)
  ultimately show ?thesis by (simp add: py_str_int_def)
qed

lemma parse_py_int_py_str_int: "parse_py_int (py_str_int i) = Some i"
proof (cases "i < 0")
  case True
  then show ?thesis
    using py_strip_no_space [OF py_str_int_no_space [of i]]
    by (simp add: parse_py_int_def py_str_int_def parse_unsigned_nat_digits)
next
  case False
  obtain c ds where cd: "nat_digits (nat i) = c # ds"
    using nat_digits_ne by (meson neq_Nil_conv)
  obtain d where "d < 10" "c = digit_char d"
    using hd_nat_digits [of "nat i"] cd by auto
  then have "c \<noteq> CHR ''-''" "c \<noteq> CHR ''+''" by (simp_all add: digit_char_props)
  then show ?thesis
    using False py_strip_no_space [OF py_str_int_no_space [of i]] cd parse_unsigned_nat_digits [of "nat i"]
    by (simp add: parse_py_int_def py_str_int_def)
qed
end
