(* ===== verification/Store.thy ===== *)
theory Store
  imports Prelude
begin

text \<open>
  The entity store: the tables of the \<open>posts\<close> app and of \<open>auth.User\<close> as lists of
  records in insertion order, with one auto-increment sequence per table; the ORM
  queries the views issue (\<open>objects.all()\<close>, the reverse relations \<open>group.posts\<close>,
  \<open>author.posts\<close>, \<open>post.comments\<close>, the join \<open>author__following__user\<close>, \<open>get\<close>,
  \<open>exists\<close>); the writes (\<open>create\<close>, \<open>save\<close>, \<open>delete\<close>), including the
  \<open>on_delete=CASCADE\<close> of \<open>Post.group\<close> set by migration \<open>0003\<close>. Then the store
  invariant (keys unique, foreign keys resolve) and the follow invariant (no
  duplicate and no self follow), and which writes keep them.
\<close>

section \<open>Tables\<close>

record user =
  user_id :: uid
  username :: string

record group =
  group_id :: gid
  title :: string
  slug :: string
  description :: string

record post =
  post_id :: pid
  post_text :: string
  pub_date :: timestamp
  post_author :: uid
  post_group :: "gid option"
  post_image :: "string option"

record comment =
  comment_id :: cid
  comment_post :: pid
  comment_author :: uid
  comment_text :: string
  created :: timestamp

record follow =
  follow_user :: uid
  follow_author :: uid

record db =
  users :: "user list"
  groups :: "group list"
  posts :: "post list"
  comments :: "comment list"
  follows :: "follow list"
  next_uid :: nat
  next_gid :: nat
  next_pid :: nat
  next_cid :: nat

definition empty_db :: db where
  "empty_db = \<lparr>users = [], groups = [], posts = [], comments = [], follows = [],
     next_uid = 1, next_gid = 1, next_pid = 1, next_cid = 1\<rparr>"

datatype store_error = IntegrityError

section \<open>Queries\<close>

definition user_by_name :: "db \<Rightarrow> string \<Rightarrow> user get_result" where
  "user_by_name d name = orm_get (\<lambda>u. username u = name) (users d)"

definition group_by_slug :: "db \<Rightarrow> string \<Rightarrow> group get_result" where
  "group_by_slug d s = orm_get (\<lambda>g. slug g = s) (groups d)"

definition post_by_id :: "db \<Rightarrow> pid \<Rightarrow> post get_result" where
  "post_by_id d i = orm_get (\<lambda>p. post_id p = i) (posts d)"

text \<open>\<open>Post.objects.all()\<close> under \<open>Meta.ordering = ('-pub_date',)\<close>.\<close>

definition all_posts :: "db \<Rightarrow> post list" where
  "all_posts d = desc_by pub_date (posts d)"

text \<open>\<open>group.posts.all()\<close>: the reverse relation \<open>related_name='posts'\<close> of the nullable \<open>Post.group\<close>.\<close>

definition group_posts_qs :: "db \<Rightarrow> gid \<Rightarrow> post list" where
  "group_posts_qs d g = desc_by pub_date (filter (\<lambda>p. post_group p = Some g) (posts d))"

definition author_posts_qs :: "db \<Rightarrow> uid \<Rightarrow> post list" where
  "author_posts_qs d u = desc_by pub_date (filter (\<lambda>p. post_author p = u) (posts d))"

definition post_comments_qs :: "db \<Rightarrow> pid \<Rightarrow> comment list" where
  "post_comments_qs d i = desc_by created (filter (\<lambda>c. comment_post c = i) (comments d))"

definition follow_count :: "db \<Rightarrow> uid \<Rightarrow> uid \<Rightarrow> nat" where
  "follow_count d u a = length (filter (\<lambda>f. follow_user f = u \<and> follow_author f = a) (follows d))"

text \<open>\<open>Follow.objects.filter(user=u, author=a).exists()\<close>.\<close>

definition follow_exists :: "db \<Rightarrow> uid \<Rightarrow> uid \<Rightarrow> bool" where
  "follow_exists d u a \<longleftrightarrow> follow_count d u a \<noteq> 0"

text \<open>
  \<open>Post.objects.filter(author__following__user=u)\<close>: an inner join of \<open>Post\<close> with
  \<open>Follow\<close> on \<open>Follow.author = Post.author\<close>, one row per matching follow.
\<close>

definition feed_qs :: "db \<Rightarrow> uid \<Rightarrow> post list" where
  "feed_qs d u = desc_by pub_date (join_rows (\<lambda>p. follow_count d u (post_author p)) (posts d))"

definition follow_get :: "db \<Rightarrow> uid \<Rightarrow> uid \<Rightarrow> follow get_result" where
  "follow_get d u a = orm_get (\<lambda>f. follow_user f = u \<and> follow_author f = a) (follows d)"

section \<open>Writes\<close>

text \<open>\<open>User.objects.create_user(username=...)\<close>: the username column is unique.\<close>

definition insert_user :: "db \<Rightarrow> string \<Rightarrow> store_error + db \<times> user" where
  "insert_user d name =
     (if list_ex (\<lambda>u. username u = name) (users d) then Inl IntegrityError
      else let u = \<lparr>user_id = next_uid d, username = name\<rparr>
           in Inr (d\<lparr>users := users d @ [u], next_uid := Suc (next_uid d)\<rparr>, u))"

definition insert_group :: "db \<Rightarrow> string \<Rightarrow> string \<Rightarrow> string \<Rightarrow> store_error + db \<times> group" where
  "insert_group d t s descr =
     (if list_ex (\<lambda>g. slug g = s) (groups d) then Inl IntegrityError
      else let g = \<lparr>group_id = next_gid d, title = t, slug = s, description = descr\<rparr>
           in Inr (d\<lparr>groups := groups d @ [g], next_gid := Suc (next_gid d)\<rparr>, g))"

text \<open>\<open>Post(...).save()\<close> of a new post: a fresh key, \<open>pub_date\<close> from \<open>auto_now_add\<close>.\<close>

definition insert_post ::
  "db \<Rightarrow> uid \<Rightarrow> string \<Rightarrow> gid option \<Rightarrow> string option \<Rightarrow> timestamp \<Rightarrow> db \<times> post" where
  "insert_post d a t g img now =
     (let p = \<lparr>post_id = next_pid d, post_text = t, pub_date = now, post_author = a,
               post_group = g, post_image = img\<rparr>
      in (d\<lparr>posts := posts d @ [p], next_pid := Suc (next_pid d)\<rparr>, p))"

text \<open>\<open>post.save()\<close> of an existing post: an \<open>UPDATE\<close> of the row with its key.\<close>

definition update_post :: "db \<Rightarrow> post \<Rightarrow> db" where
  "update_post d p = d\<lparr>posts := map (\<lambda>q. if post_id q = post_id p then p else q) (posts d)\<rparr>"

definition insert_comment :: "db \<Rightarrow> pid \<Rightarrow> uid \<Rightarrow> string \<Rightarrow> timestamp \<Rightarrow> db \<times> comment" where
  "insert_comment d i a t now =
     (let c = \<lparr>comment_id = next_cid d, comment_post = i, comment_author = a,
               comment_text = t, created = now\<rparr>
      in (d\<lparr>comments := comments d @ [c], next_cid := Suc (next_cid d)\<rparr>, c))"

text \<open>\<open>Follow.objects.create(user=u, author=a)\<close>: no constraint of the table refuses a duplicate.\<close>

definition insert_follow :: "db \<Rightarrow> uid \<Rightarrow> uid \<Rightarrow> db" where
  "insert_follow d u a = d\<lparr>follows := follows d @ [\<lparr>follow_user = u, follow_author = a\<rparr>]\<rparr>"

definition delete_follow :: "db \<Rightarrow> follow \<Rightarrow> db" where
  "delete_follow d f = d\<lparr>follows := remove1 f (follows d)\<rparr>"

text \<open>
  Deleting a group: \<open>on_delete=CASCADE\<close> on \<open>Post.group\<close> deletes its posts, and the
  cascade of \<open>Comment.post\<close> deletes their comments.
\<close>

definition delete_group :: "db \<Rightarrow> gid \<Rightarrow> db" where
  "delete_group d g =
     (let gone = map post_id (filter (\<lambda>p. post_group p = Some g) (posts d))
      in d\<lparr>groups := filter (\<lambda>x. group_id x \<noteq> g) (groups d),
           posts := filter (\<lambda>p. post_group p \<noteq> Some g) (posts d),
           comments := filter (\<lambda>c. comment_post c \<notin> set gone) (comments d)\<rparr>)"

text \<open>\<open>post.delete()\<close>: the cascade of \<open>Comment.post\<close> deletes the post's comments.\<close>

definition delete_post :: "db \<Rightarrow> pid \<Rightarrow> db" where
  "delete_post d i =
     d\<lparr>posts := filter (\<lambda>p. post_id p \<noteq> i) (posts d),
       comments := filter (\<lambda>c. comment_post c \<noteq> i) (comments d)\<rparr>"

section \<open>Invariants\<close>

definition uids :: "db \<Rightarrow> uid set" where
  "uids d = user_id ` set (users d)"

definition gids :: "db \<Rightarrow> gid set" where
  "gids d = group_id ` set (groups d)"

definition pids :: "db \<Rightarrow> pid set" where
  "pids d = post_id ` set (posts d)"

definition post_ok :: "db \<Rightarrow> post \<Rightarrow> bool" where
  "post_ok d p \<longleftrightarrow> post_author p \<in> uids d \<and>
     (case post_group p of None \<Rightarrow> True | Some g \<Rightarrow> g \<in> gids d)"

definition store_inv :: "db \<Rightarrow> bool" where
  "store_inv d \<longleftrightarrow>
     distinct (map user_id (users d)) \<and> distinct (map username (users d)) \<and>
     (\<forall>u \<in> set (users d). user_id u < next_uid d) \<and>
     distinct (map group_id (groups d)) \<and> distinct (map slug (groups d)) \<and>
     (\<forall>g \<in> set (groups d). group_id g < next_gid d) \<and>
     distinct (map post_id (posts d)) \<and>
     (\<forall>p \<in> set (posts d). post_id p < next_pid d \<and> post_ok d p) \<and>
     distinct (map comment_id (comments d)) \<and>
     (\<forall>c \<in> set (comments d). comment_id c < next_cid d \<and>
        comment_post c \<in> pids d \<and> comment_author c \<in> uids d) \<and>
     (\<forall>f \<in> set (follows d). follow_user f \<in> uids d \<and> follow_author f \<in> uids d)"

text \<open>
  The follow relation the views keep: at most one row per pair, never a self follow
  (\<open>profile_follow\<close> checks both before it creates a row).
\<close>

definition follow_inv :: "db \<Rightarrow> bool" where
  "follow_inv d \<longleftrightarrow> distinct (follows d) \<and> (\<forall>f \<in> set (follows d). follow_user f \<noteq> follow_author f)"

section \<open>Lookups, the follow join, and the writes that keep the invariants\<close>

lemma follow_match_eq:
  "(follow_user f = u \<and> follow_author f = a) \<longleftrightarrow> f = \<lparr>follow_user = u, follow_author = a\<rparr>"
  by (cases f) auto

lemma follow_count_le1: "follow_inv d \<Longrightarrow> follow_count d u a \<le> 1"
  unfolding follow_count_def follow_inv_def follow_match_eq
  by (blast intro: filter_single_value_distinct)

lemma feed_qs_follow_inv:
  assumes "follow_inv d"
  shows "feed_qs d u = desc_by pub_date (filter (\<lambda>p. follow_exists d u (post_author p)) (posts d))"
proof -
  have "\<forall>p \<in> set (posts d). follow_count d u (post_author p) \<le> 1"
    using follow_count_le1 [OF assms] by blast
  then show ?thesis
    by (simp add: feed_qs_def join_rows_01 follow_exists_def)
qed

lemma post_ok_mono:
  "post_ok d p \<Longrightarrow> uids d \<subseteq> uids d' \<Longrightarrow> gids d \<subseteq> gids d' \<Longrightarrow> post_ok d' p"
  by (auto simp: post_ok_def split: option.splits)

lemmas store_inv_unfold = store_inv_def pids_def uids_def gids_def post_ok_def

lemma insert_post_inv [inv_pres]:
  assumes inv: "store_inv d" and a: "a \<in> uids d"
    and g: "case g of None \<Rightarrow> True | Some x \<Rightarrow> x \<in> gids d"
  shows "store_inv (fst (insert_post d a t g img now))"
proof -
  have "next_pid d \<notin> set (map post_id (posts d))"
    using inv by (intro fresh_key) (simp add: store_inv_def)
  then show ?thesis using inv a g
    by (auto simp: store_inv_unfold insert_post_def Let_def less_SucI split: option.splits)
qed

lemma insert_comment_inv [inv_pres]:
  assumes inv: "store_inv d" and i: "i \<in> pids d" and a: "a \<in> uids d"
  shows "store_inv (fst (insert_comment d i a t now))"
proof -
  have "next_cid d \<notin> set (map comment_id (comments d))"
    using inv by (intro fresh_key) (simp add: store_inv_def)
  then show ?thesis using inv i a
    by (auto simp: store_inv_unfold insert_comment_def Let_def less_SucI split: option.splits)
qed

lemma store_inv_replace_posts:
  assumes inv: "store_inv d" and ids: "map post_id ps = map post_id (posts d)"
    and ok: "\<forall>q \<in> set ps. post_ok d q"
  shows "store_inv (d\<lparr>posts := ps\<rparr>)"
proof -
  have img: "post_id ` set ps = post_id ` set (posts d)"
    by (metis ids set_map)
  have lt: "\<forall>q \<in> set ps. post_id q < next_pid d"
  proof
    fix q assume "q \<in> set ps"
    then have "post_id q \<in> post_id ` set (posts d)" using img by blast
    then show "post_id q < next_pid d" using inv by (auto simp: store_inv_def)
  qed
  have "\<forall>q \<in> set ps. post_ok (d\<lparr>posts := ps\<rparr>) q"
    using ok by (simp add: post_ok_def uids_def gids_def split: option.splits)
  then show ?thesis using inv ids img lt
    by (simp add: store_inv_def pids_def uids_def gids_def)
qed

lemma update_post_inv [inv_pres]:
  assumes inv: "store_inv d" and ok: "post_ok d p"
  shows "store_inv (update_post d p)"
proof -
  have "\<forall>q \<in> set (map (\<lambda>q. if post_id q = post_id p then p else q) (posts d)). post_ok d q"
    using inv ok by (auto simp: store_inv_def)
  then show ?thesis
    unfolding update_post_def using inv by (intro store_inv_replace_posts) (simp_all add: map_key_update)
qed

lemma insert_follow_inv [inv_pres]:
  "store_inv d \<Longrightarrow> u \<in> uids d \<Longrightarrow> a \<in> uids d \<Longrightarrow> store_inv (insert_follow d u a)"
  by (auto simp: store_inv_unfold insert_follow_def split: option.splits)

lemma delete_follow_inv [inv_pres]:
  "store_inv d \<Longrightarrow> store_inv (delete_follow d f)"
  by (auto simp: store_inv_unfold delete_follow_def dest: set_remove1_subset [THEN subsetD] split: option.splits)

lemma insert_user_inv [inv_pres]:
  assumes inv: "store_inv d" and r: "insert_user d n = Inr (d', u)"
  shows "store_inv d'"
proof -
  have d': "d' = d\<lparr>users := users d @ [\<lparr>user_id = next_uid d, username = n\<rparr>], next_uid := Suc (next_uid d)\<rparr>"
    and n: "n \<notin> set (map username (users d))"
    using r by (auto simp: insert_user_def list_ex_iff Let_def split: if_splits)
  have "next_uid d \<notin> set (map user_id (users d))"
    using inv by (intro fresh_key) (simp add: store_inv_def)
  moreover have "\<forall>p \<in> set (posts d). post_ok d' p"
    using inv by (auto simp: store_inv_def d' uids_def gids_def intro: post_ok_mono)
  ultimately show ?thesis using inv n
    by (auto simp: store_inv_def d' pids_def uids_def gids_def less_SucI)
qed

lemma insert_group_inv [inv_pres]:
  assumes inv: "store_inv d" and r: "insert_group d t s descr = Inr (d', g)"
  shows "store_inv d'"
proof -
  have d': "d' = d\<lparr>groups := groups d @ [\<lparr>group_id = next_gid d, title = t, slug = s, description = descr\<rparr>],
      next_gid := Suc (next_gid d)\<rparr>"
    and s: "s \<notin> set (map slug (groups d))"
    using r by (auto simp: insert_group_def list_ex_iff Let_def split: if_splits)
  have "next_gid d \<notin> set (map group_id (groups d))"
    using inv by (intro fresh_key) (simp add: store_inv_def)
  moreover have "\<forall>p \<in> set (posts d). post_ok d' p"
    using inv by (auto simp: store_inv_def d' uids_def gids_def intro: post_ok_mono)
  ultimately show ?thesis using inv s
    by (auto simp: store_inv_def d' pids_def uids_def gids_def less_SucI)
qed

lemma follow_inv_frame: "follows d' = follows d \<Longrightarrow> follow_inv d' = follow_inv d"
  by (simp add: follow_inv_def)

lemma insert_follow_follow_inv [inv_pres]:
  assumes "follow_inv d" and "u \<noteq> a" and "\<not> follow_exists d u a"
  shows "follow_inv (insert_follow d u a)"
proof -
  have "\<lparr>follow_user = u, follow_author = a\<rparr> \<notin> set (follows d)"
    using assms(3) by (auto simp: follow_exists_def follow_count_def filter_empty_conv)
  then show ?thesis using assms(1,2)
    by (simp add: follow_inv_def insert_follow_def)
qed

lemma delete_follow_follow_inv [inv_pres]:
  "follow_inv d \<Longrightarrow> follow_inv (delete_follow d f)"
  by (auto simp: follow_inv_def delete_follow_def dest: set_remove1_subset [THEN subsetD])

lemma delete_group_inv [inv_pres]:
  assumes inv: "store_inv d"
  shows "store_inv (delete_group d g)"
proof -
  let ?d' = "delete_group d g"
  have posts': "set (posts ?d') = {p \<in> set (posts d). post_group p \<noteq> Some g}"
    and groups': "set (groups ?d') = {x \<in> set (groups d). group_id x \<noteq> g}"
    by (auto simp: delete_group_def Let_def)
  have ok: "\<forall>p \<in> set (posts ?d'). post_ok ?d' p"
  proof
    fix p assume p: "p \<in> set (posts ?d')"
    then have "post_ok d p" "post_group p \<noteq> Some g" using inv posts' by (auto simp: store_inv_def)
    then show "post_ok ?d' p"
      by (auto simp: post_ok_def uids_def gids_def delete_group_def Let_def split: option.splits)
  qed
  have cm: "\<forall>c \<in> set (comments ?d'). comment_post c \<in> pids ?d'"
  proof
    fix c assume c: "c \<in> set (comments ?d')"
    then have nogone: "comment_post c \<notin> post_id ` {p \<in> set (posts d). post_group p = Some g}"
      and cd: "c \<in> set (comments d)"
      by (auto simp: delete_group_def Let_def)
    then obtain p where "p \<in> set (posts d)" "post_id p = comment_post c"
      using inv by (auto simp: store_inv_def pids_def)
    with nogone have "post_group p \<noteq> Some g" by (metis (mono_tags, lifting) image_eqI mem_Collect_eq)
    with \<open>p \<in> set (posts d)\<close> have "p \<in> set (posts ?d')" using posts' by auto
    then show "comment_post c \<in> pids ?d'"
      using \<open>post_id p = comment_post c\<close> unfolding pids_def by (metis image_eqI)
  qed
  show ?thesis using inv ok cm
    by (auto simp: store_inv_def delete_group_def Let_def uids_def distinct_map_filter)
qed

lemma delete_post_inv [inv_pres]:
  assumes inv: "store_inv d"
  shows "store_inv (delete_post d i)"
proof -
  have "\<forall>c \<in> set (comments (delete_post d i)). comment_post c \<in> pids (delete_post d i)"
    using inv by (fastforce simp: store_inv_def pids_def delete_post_def)
  moreover have "\<forall>p \<in> set (posts (delete_post d i)). post_ok (delete_post d i) p"
    using inv by (auto simp: store_inv_def post_ok_def uids_def gids_def delete_post_def split: option.splits)
  ultimately show ?thesis using inv
    by (auto simp: store_inv_def delete_post_def uids_def distinct_map_filter)
qed

lemma follow_count_insert:
  "follow_count (insert_follow d u a) u' a' = follow_count d u' a' + (if u' = u \<and> a' = a then 1 else 0)"
  by (simp add: follow_count_def insert_follow_def)

lemma follow_count_self: "follow_inv d \<Longrightarrow> follow_count d u u = 0"
  by (auto simp: follow_inv_def follow_count_def filter_empty_conv)

lemma follow_exists_count: "follow_inv d \<Longrightarrow> follow_exists d u a \<longleftrightarrow> follow_count d u a = 1"
  using follow_count_le1 [of d u a] by (auto simp: follow_exists_def)

lemma follow_get_exists:
  assumes "follow_inv d" "follow_exists d u a"
  shows "follow_get d u a = Found \<lparr>follow_user = u, follow_author = a\<rparr>"
proof -
  have "length (filter (\<lambda>f. f = \<lparr>follow_user = u, follow_author = a\<rparr>) (follows d)) = 1"
    using assms follow_exists_count by (simp add: follow_count_def follow_match_eq)
  then have "filter (\<lambda>f. f = \<lparr>follow_user = u, follow_author = a\<rparr>) (follows d) = [\<lparr>follow_user = u, follow_author = a\<rparr>]"
    by (rule filter_eq_single)
  then show ?thesis by (simp add: follow_get_def orm_get_Found follow_match_eq)
qed

lemma follow_get_not_exists:
  "\<not> follow_exists d u a \<Longrightarrow> follow_get d u a = DoesNotExist"
  by (auto simp: follow_get_def orm_get_DoesNotExist follow_exists_def follow_count_def filter_empty_conv)

lemma follow_get_multiple:
  "2 \<le> follow_count d u a \<Longrightarrow> follow_get d u a = MultipleObjectsReturned"
  unfolding follow_get_def follow_count_def by (rule orm_get_Multiple)

lemma found_user: "user_by_name d name = Found a \<Longrightarrow> a \<in> set (users d)"
  unfolding user_by_name_def by (auto dest: orm_get_Found_mem)

lemma found_post: "post_by_id d i = Found p \<Longrightarrow> p \<in> set (posts d) \<and> post_id p = i"
  unfolding post_by_id_def by (auto dest: orm_get_Found_mem)

lemma user_in_uids: "u \<in> set (users d) \<Longrightarrow> user_id u \<in> uids d"
  by (simp add: uids_def)

lemma follow_exists_insert:
  "follow_exists (insert_follow d u a) u' a' \<longleftrightarrow> follow_exists d u' a' \<or> (u' = u \<and> a' = a)"
  by (auto simp: follow_exists_def follow_count_insert)

lemma follow_exists_delete:
  assumes "follow_inv d"
  shows "follow_exists (delete_follow d \<lparr>follow_user = u, follow_author = a\<rparr>) u' a' \<longleftrightarrow>
         follow_exists d u' a' \<and> \<not> (u' = u \<and> a' = a)"
proof -
  have "remove1 \<lparr>follow_user = u, follow_author = a\<rparr> (follows d) =
        filter (\<lambda>x. x \<noteq> \<lparr>follow_user = u, follow_author = a\<rparr>) (follows d)"
    using assms by (auto simp: follow_inv_def distinct_remove1_removeAll removeAll_filter_not_eq intro!: filter_cong)
  then show ?thesis
    by (auto simp: follow_exists_def follow_count_def delete_follow_def filter_empty_conv follow_match_eq)
qed

lemma set_feed_qs:
  "follow_inv d \<Longrightarrow> set (feed_qs d u) = {p \<in> set (posts d). follow_exists d u (post_author p)}"
  by (simp add: feed_qs_follow_inv set_desc_by)

lemma lookup_found:
  assumes "store_inv d"
  shows "a \<in> set (users d) \<Longrightarrow> user_by_name d (username a) = Found a"
    and "g \<in> set (groups d) \<Longrightarrow> group_by_slug d (slug g) = Found g"
    and "p \<in> set (posts d) \<Longrightarrow> post_by_id d (post_id p) = Found p"
  using assms unfolding store_inv_def user_by_name_def group_by_slug_def post_by_id_def
  by (auto intro: orm_get_unique)

end
