(* ===== verification/Http.thy ===== *)
theory Http
  imports PyText Store
begin

text \<open>
  The request side of the framework as the views see it: the HTTP method, the
  authenticated user (\<open>request.user\<close>, \<open>None\<close> for \<open>AnonymousUser\<close>), the path
  (\<open>request.path\<close>), the query and form dictionaries, the uploaded files;
  \<open>QueryDict.get\<close>; \<open>request.get_full_path()\<close>; and the redirect targets the views
  produce.
\<close>

datatype http_method = GET | HEAD | POST

record upload =
  upload_name :: string
  upload_is_image :: bool   \<comment> \<open>whether Pillow accepts the content as an image\<close>

type_synonym query_dict = "(string \<times> string) list"
type_synonym file_dict = "(string \<times> upload) list"

record request =
  req_user :: "user option"   \<comment> \<open>\<open>request.user\<close>; \<open>None\<close> is \<open>AnonymousUser\<close>\<close>
  req_method :: http_method
  req_path :: string
  req_GET :: query_dict
  req_POST :: query_dict
  req_FILES :: file_dict

text \<open>
  \<open>MultiValueDict.get(key)\<close>: the last value given for the key, \<open>None\<close> when absent.
\<close>

definition qd_get :: "('k \<times> 'v) list \<Rightarrow> 'k \<Rightarrow> 'v option" where
  "qd_get kvs k = map_option snd (find (\<lambda>kv. fst kv = k) (rev kvs))"

text \<open>
  \<open>request.get_full_path()\<close>: the path, then \<open>?\<close> and the query string when there is
  one (its percent-encoding is not modelled).
\<close>

definition query_string :: "query_dict \<Rightarrow> string" where
  "query_string q = tl (concat (map (\<lambda>(k, v). CHR ''&'' # k @ ''='' @ v) q))"

definition full_path :: "request \<Rightarrow> string" where
  "full_path r = req_path r @ (if req_GET r = [] then [] else CHR ''?'' # query_string (req_GET r))"

text \<open>
  The URLs the views redirect to: \<open>posts:profile\<close>, \<open>posts:post_detail\<close>, and the
  login page \<open>settings.LOGIN_URL\<close> with \<open>?next=\<close> the path of the refused request.
\<close>

datatype url = ProfileUrl string | PostDetailUrl pid | LoginUrl string

lemma qd_get_Nil [simp]: "qd_get [] k = None"
  by (simp add: qd_get_def)

lemma full_path_no_query [simp]: "req_GET r = [] \<Longrightarrow> full_path r = req_path r"
  by (simp add: full_path_def)

lemma qd_get_Some_ne: "qd_get kvs k = Some v \<Longrightarrow> kvs \<noteq> []"
  by auto

end
