(* ===== verification/Paginator.thy ===== *)
theory Paginator
  imports Http
begin

text \<open>
  Django's \<open>Paginator\<close> (\<open>django/core/paginator.py\<close>, release 2.2, with its defaults
  \<open>orphans=0\<close> and \<open>allow_empty_first_page=True\<close>) as \<open>core.views.page_paginator\<close> uses
  it: \<open>Paginator(items, per_page).get_page(request.GET.get('page'))\<close>. The lemmas
  show which page is served for every value of the \<open>page\<close> parameter, what the
  page holds, and that the pages partition the list.
\<close>

section \<open>Definitions\<close>

definition orphans :: nat where
  "orphans = 0"

definition allow_empty_first_page :: bool where
  "allow_empty_first_page = True"

record 'a page =
  object_list :: "'a list"
  number :: nat
  page_num_pages :: nat   \<comment> \<open>\<open>page.paginator.num_pages\<close>\<close>

definition num_pages :: "nat \<Rightarrow> nat \<Rightarrow> nat" where
  "num_pages cnt per_page =
     (if cnt = 0 \<and> \<not> allow_empty_first_page then 0
      else ceil_div (max 1 (cnt - orphans)) per_page)"

datatype page_error = PageNotAnInteger | EmptyPage

text \<open>\<open>Paginator.validate_number\<close> on the raw query value (\<open>None\<close> when absent).\<close>

definition validate_number :: "nat \<Rightarrow> nat \<Rightarrow> string option \<Rightarrow> page_error + nat" where
  "validate_number cnt per_page raw =
     (case raw of
        None \<Rightarrow> Inl PageNotAnInteger
      | Some s \<Rightarrow>
          (case parse_py_int s of
             None \<Rightarrow> Inl PageNotAnInteger
           | Some n \<Rightarrow>
               if n < 1 then Inl EmptyPage
               else if n > int (num_pages cnt per_page) then
                 (if n = 1 \<and> allow_empty_first_page then Inr 1 else Inl EmptyPage)
               else Inr (nat n)))"

text \<open>\<open>Paginator.page(number)\<close> for a validated number.\<close>

definition page :: "'a list \<Rightarrow> nat \<Rightarrow> nat \<Rightarrow> 'a page" where
  "page xs per_page n =
     (let cnt = length xs;
          bottom = (n - 1) * per_page;
          top = bottom + per_page;
          top' = (if cnt \<le> top + orphans then cnt else top)
      in \<lparr>object_list = slice xs bottom top', number = n,
          page_num_pages = num_pages cnt per_page\<rparr>)"

definition get_page :: "'a list \<Rightarrow> nat \<Rightarrow> string option \<Rightarrow> 'a page" where
  "get_page xs per_page raw =
     page xs per_page
       (case validate_number (length xs) per_page raw of
          Inr n \<Rightarrow> n
        | Inl PageNotAnInteger \<Rightarrow> 1
        | Inl EmptyPage \<Rightarrow> num_pages (length xs) per_page)"

text \<open>\<open>core.views.page_paginator(request, items, per_page)\<close>.\<close>

definition page_paginator :: "request \<Rightarrow> 'a list \<Rightarrow> nat \<Rightarrow> 'a page" where
  "page_paginator r xs per_page = get_page xs per_page (qd_get (req_GET r) ''page'')"

definition has_next :: "'a page \<Rightarrow> bool" where
  "has_next p \<longleftrightarrow> number p < page_num_pages p"

section \<open>Which page is served, and what it holds\<close>

text \<open>
  With \<open>per_page > 0\<close> there is always at least one page; a parameter that is
  absent or not an integer selects page 1; an integer in \<open>1..num_pages\<close> selects
  itself; any other integer, zero and negative ones included, selects the last
  page. Page \<open>n\<close> holds the items \<open>[(n-1)*per_page, n*per_page)\<close>, and the
  pages \<open>1..num_pages\<close> concatenate to the whole list.
\<close>

lemma num_pages_simp: "num_pages c pp = ceil_div (max 1 c) pp"
  by (simp add: num_pages_def orphans_def allow_empty_first_page_def)

lemma num_pages_pos: "0 < pp \<Longrightarrow> 0 < num_pages c pp"
proof -
  assume pp: "0 < pp"
  have "1 * pp \<le> max 1 c + pp - 1" by simp
  then have "1 \<le> (max 1 c + pp - 1) div pp"
    using less_eq_div_iff_mult_less_eq [OF pp] by blast
  then show ?thesis by (simp add: num_pages_simp ceil_div_def)
qed

lemma less_num_pages_iff:
  assumes pp: "0 < pp" and n: "0 < n"
  shows "n < num_pages c pp \<longleftrightarrow> n * pp < c"
proof -
  have "n < num_pages c pp \<longleftrightarrow> Suc n \<le> (max 1 c + pp - 1) div pp"
    by (simp add: num_pages_simp ceil_div_def Suc_le_eq)
  also have "\<dots> \<longleftrightarrow> Suc n * pp \<le> max 1 c + pp - 1"
    by (rule less_eq_div_iff_mult_less_eq [OF pp])
  also have "\<dots> \<longleftrightarrow> n * pp < c"
    using pp n by (cases "c = 0") auto
  finally show ?thesis .
qed

lemma num_pages_cover: "0 < pp \<Longrightarrow> c \<le> num_pages c pp * pp"
  using ceil_div_ge [of pp "max 1 c"] by (simp add: num_pages_simp)

lemma number_get_page:
  assumes pp: "0 < pp"
  shows "number (get_page xs pp raw) =
     (case Option.bind raw parse_py_int of
        None \<Rightarrow> 1
      | Some k \<Rightarrow> if 1 \<le> k \<and> k \<le> int (num_pages (length xs) pp) then nat k
                  else num_pages (length xs) pp)"
proof (cases "Option.bind raw parse_py_int")
  case None
  then show ?thesis
    by (cases raw) (simp_all add: get_page_def page_def validate_number_def Let_def)
next
  case (Some k)
  then obtain s where "raw = Some s" "parse_py_int s = Some k"
    by (cases raw) auto
  then show ?thesis
    using Some num_pages_pos [OF pp, of "length xs"]
    by (simp add: get_page_def page_def validate_number_def Let_def allow_empty_first_page_def)
qed

lemma number_get_page_bounds:
  assumes "0 < pp"
  shows "1 \<le> number (get_page xs pp raw) \<and> number (get_page xs pp raw) \<le> num_pages (length xs) pp"
  using num_pages_pos [OF assms, of "length xs"]
  by (auto simp: number_get_page [OF assms] split: option.splits)

lemma page_num_pages_get_page [simp]:
  "page_num_pages (get_page xs pp raw) = num_pages (length xs) pp"
  by (simp add: get_page_def page_def Let_def)

lemma object_list_page:
  assumes "1 \<le> n"
  shows "object_list (page xs pp n) = slice xs ((n - 1) * pp) (n * pp)"
proof -
  obtain m where n: "n = Suc m"
    using assms by (cases n) auto
  show ?thesis
    by (simp add: n page_def Let_def orphans_def slice_def min_def add.commute)
qed

lemma length_object_list_page:
  "1 \<le> n \<Longrightarrow> length (object_list (page xs pp n)) \<le> pp"
  by (simp add: object_list_page diff_mult_distrib)

lemma pages_partition:
  assumes pp: "0 < pp"
  shows "concat (map (\<lambda>n. object_list (page xs pp n)) [1..<Suc (num_pages (length xs) pp)]) = xs"
proof -
  let ?k = "num_pages (length xs) pp"
  have "[1..<Suc ?k] = map Suc [0..<?k]"
    by (simp add: map_Suc_upt)
  then have "map (\<lambda>n. object_list (page xs pp n)) [1..<Suc ?k]
      = map (\<lambda>i. slice xs (i * pp) (i * pp + pp)) [0..<?k]"
    by (simp add: object_list_page add.commute)
  then have "concat (map (\<lambda>n. object_list (page xs pp n)) [1..<Suc ?k]) = take (?k * pp) xs"
    by (simp add: concat_pages)
  also have "\<dots> = xs"
    using num_pages_cover [OF pp, of "length xs"] by simp
  finally show ?thesis .
qed

lemma has_next_get_page:
  assumes pp: "0 < pp"
  shows "has_next (get_page xs pp raw) \<longleftrightarrow> number (get_page xs pp raw) * pp < length xs"
  using number_get_page_bounds [OF pp, of xs raw] less_num_pages_iff [OF pp]
  by (simp add: has_next_def)

lemma number_page [simp]: "number (page xs pp n) = n"
  by (simp add: page_def Let_def)

lemma object_list_get_page:
  assumes "0 < pp"
  shows "object_list (get_page xs pp raw) =
           slice xs ((number (get_page xs pp raw) - 1) * pp) (number (get_page xs pp raw) * pp)"
proof -
  obtain n where g: "get_page xs pp raw = page xs pp n"
    by (auto simp: get_page_def)
  then have "1 \<le> n" using number_get_page_bounds [OF assms, of xs raw] by simp
  with g show ?thesis by (simp add: object_list_page)
qed

lemma get_page_str:
  assumes "1 \<le> k" and "k \<le> num_pages (length xs) pp"
  shows "get_page xs pp (Some (py_str_int (int k))) = page xs pp k"
  using assms by (simp add: get_page_def validate_number_def parse_py_int_py_str_int)

lemma get_page_None: "get_page xs pp None = page xs pp 1"
  by (simp add: get_page_def validate_number_def)

lemma length_object_list_first_page:
  "length (object_list (page xs pp 1)) = min pp (length xs)"
  by (simp add: object_list_page slice_def)

end
