(* ===== verification/Forms.thy ===== *)
theory Forms
  imports Http
begin

text \<open>
  The two forms of \<open>posts/forms.py\<close> as Django validates them: \<open>PostForm\<close> (a
  \<open>ModelForm\<close> of \<open>Post\<close> with fields \<open>text\<close>, \<open>group\<close>, \<open>image\<close>) and
  \<open>CommentForm\<close> (field \<open>text\<close>). A form built from \<open>request.POST or None\<close> is
  unbound when nothing was posted; a bound form is valid when every field cleans.
  Each field's \<open>clean\<close> follows the field class: a required \<open>CharField\<close> that strips,
  an optional \<open>ModelChoiceField\<close> over \<open>Group.objects.all()\<close> keyed by primary key,
  an optional \<open>ImageField\<close> with \<open>upload_to='posts/'\<close>.
\<close>

datatype form_error = FieldRequired string | InvalidChoice string | InvalidImage string

datatype 'a bound_form = Unbound | Bound "form_error list + 'a"

definition form_cleaned :: "'a bound_form \<Rightarrow> 'a option" where
  "form_cleaned f = (case f of Bound (Inr x) \<Rightarrow> Some x | _ \<Rightarrow> None)"

definition errors_of :: "form_error + 'a \<Rightarrow> form_error list" where
  "errors_of r = (case r of Inl e \<Rightarrow> [e] | Inr _ \<Rightarrow> [])"

text \<open>A required \<open>CharField(strip=True)\<close>: \<open>None\<close> and blank input are refused.\<close>

definition clean_char :: "string \<Rightarrow> string option \<Rightarrow> form_error + string" where
  "clean_char name v =
     (let t = (case v of None \<Rightarrow> [] | Some s \<Rightarrow> py_strip s)
      in if t = [] then Inl (FieldRequired name) else Inr t)"

text \<open>
  \<open>ModelChoiceField(required=False)\<close>: an empty value is \<open>None\<close>; otherwise the
  value is the primary key, read by \<open>int()\<close>, of an existing group.
\<close>

definition clean_group :: "db \<Rightarrow> string option \<Rightarrow> form_error + gid option" where
  "clean_group d v =
     (case v of
        None \<Rightarrow> Inr None
      | Some s \<Rightarrow>
          if s = [] then Inr None
          else (case parse_py_int s of
                  None \<Rightarrow> Inl (InvalidChoice ''group'')
                | Some n \<Rightarrow>
                    if 0 \<le> n \<and> nat n \<in> gids d then Inr (Some (nat n))
                    else Inl (InvalidChoice ''group'')))"

text \<open>
  \<open>ImageField(required=False)\<close>: no upload keeps the initial file (the instance's
  image, \<open>None\<close> for a new post); an upload must be an image and is stored under
  \<open>posts/\<close>.
\<close>

definition clean_image :: "upload option \<Rightarrow> string option \<Rightarrow> form_error + string option" where
  "clean_image up initial =
     (case up of
        None \<Rightarrow> Inr initial
      | Some f \<Rightarrow>
          if upload_is_image f then Inr (Some (''posts/'' @ upload_name f))
          else Inl (InvalidImage ''image''))"

record post_fields =
  pf_text :: string
  pf_group :: "gid option"
  pf_image :: "string option"

definition clean_post_form ::
  "db \<Rightarrow> query_dict \<Rightarrow> file_dict \<Rightarrow> string option \<Rightarrow> form_error list + post_fields" where
  "clean_post_form d data files initial =
     (let t = clean_char ''text'' (qd_get data ''text'');
          g = clean_group d (qd_get data ''group'');
          i = clean_image (qd_get files ''image'') initial
      in case (t, g, i) of
           (Inr t', Inr g', Inr i') \<Rightarrow> Inr \<lparr>pf_text = t', pf_group = g', pf_image = i'\<rparr>
         | _ \<Rightarrow> Inl (errors_of t @ errors_of g @ errors_of i))"

text \<open>\<open>PostForm(request.POST or None, files=request.FILES or None, instance=...)\<close>.\<close>

definition post_form :: "db \<Rightarrow> request \<Rightarrow> string option \<Rightarrow> post_fields bound_form" where
  "post_form d r initial =
     (if req_POST r = [] \<and> req_FILES r = [] then Unbound
      else Bound (clean_post_form d (req_POST r) (req_FILES r) initial))"

text \<open>
  The classes of \<open>PostForm.fields\<close> as a \<open>ModelForm\<close> derives them from the model:
  \<open>text\<close> (a \<open>TextField\<close>) is a \<open>CharField\<close>, \<open>group\<close> (a \<open>ForeignKey\<close>) a
  \<open>ModelChoiceField\<close>, \<open>image\<close> an \<open>ImageField\<close>; \<open>isinstance\<close> follows the one
  subclass relation among them, \<open>ModelChoiceField(ChoiceField)\<close>.
\<close>

datatype field_class = CharField | ChoiceField | ModelChoiceField | ImageField

definition post_form_fields :: "(string \<times> field_class) list" where
  "post_form_fields = [(''text'', CharField), (''group'', ModelChoiceField), (''image'', ImageField)]"

fun field_isinstance :: "field_class \<Rightarrow> field_class \<Rightarrow> bool" where
  "field_isinstance ModelChoiceField ChoiceField = True"
| "field_isinstance f c = (f = c)"

text \<open>\<open>CommentForm(request.POST or None)\<close>.\<close>

definition comment_form :: "request \<Rightarrow> string bound_form" where
  "comment_form r =
     (if req_POST r = [] then Unbound
      else Bound (case clean_char ''text'' (qd_get (req_POST r) ''text'') of
                    Inl e \<Rightarrow> Inl [e]
                  | Inr t \<Rightarrow> Inr t))"

lemma clean_group_valid:
  "clean_group d v = Inr g \<Longrightarrow> (case g of None \<Rightarrow> True | Some x \<Rightarrow> x \<in> gids d)"
  by (auto simp: clean_group_def split: option.splits if_splits)

lemma post_form_group_valid:
  assumes "form_cleaned (post_form d r init) = Some f"
  shows "case pf_group f of None \<Rightarrow> True | Some x \<Rightarrow> x \<in> gids d"
proof -
  obtain g where "clean_group d (qd_get (req_POST r) ''group'') = Inr g" "pf_group f = g"
    using assms
    by (auto simp: post_form_def form_cleaned_def clean_post_form_def Let_def
        split: if_splits bound_form.splits sum.splits)
  then show ?thesis using clean_group_valid by metis
qed

end
