(* ===== verification/Views.thy ===== *)
theory Views
  imports Paginator Forms
begin

text \<open>
  The view functions of \<open>src/yatube/posts/views.py\<close>, one definition each, in the
  order of the file. A view takes the store (and, when it writes, the clock for
  \<open>auto_now_add\<close>), the request and the URL arguments; a writing view returns the
  new store with the response. The framework pieces they call are explicit:
  \<open>get_object_or_404\<close> (a missing row is \<open>NotFound\<close>, a second matching row an
  uncaught \<open>MultipleObjectsReturned\<close>), \<open>login_required\<close> (an anonymous request
  is redirected to the login page with \<open>next\<close> its own path), \<open>render\<close> (the
  template name and the context), \<open>redirect\<close>.
\<close>

section \<open>Responses\<close>

text \<open>The template contexts, one constructor per shape of context the views build.\<close>

datatype ctx =
    ListCtx "post page" nat                                 \<comment> \<open>\<open>page_obj\<close>, \<open>char_br\<close>\<close>
  | GroupCtx group "post page" nat                          \<comment> \<open>\<open>group\<close>, \<open>page_obj\<close>, \<open>char_br\<close>\<close>
  | ProfileCtx user "post page" nat bool                    \<comment> \<open>\<dots>, \<open>following\<close>\<close>
  | DetailCtx post bool "string bound_form" "comment list"  \<comment> \<open>\<open>post\<close>, \<open>is_edit\<close>, \<open>form\<close>, \<open>comments\<close>\<close>
  | FormCtx "post_fields bound_form" "post option"           \<comment> \<open>\<open>form\<close>; \<open>is_edit\<close> and \<open>post\<close> when editing\<close>
  | LoginCtx string                                         \<comment> \<open>the login page's \<open>next\<close>\<close>

datatype response =
    Render string ctx
  | Redirect url
  | NotFound
  | ServerError string   \<comment> \<open>an exception the view does not catch\<close>

definition get_object_or_404 :: "'a get_result \<Rightarrow> response + 'a" where
  "get_object_or_404 r =
     (case r of
        DoesNotExist \<Rightarrow> Inl NotFound
      | MultipleObjectsReturned \<Rightarrow> Inl (ServerError ''MultipleObjectsReturned'')
      | Found x \<Rightarrow> Inr x)"

definition login_required :: "(user \<Rightarrow> db \<times> response) \<Rightarrow> db \<Rightarrow> request \<Rightarrow> db \<times> response" where
  "login_required view d r =
     (case req_user r of
        None \<Rightarrow> (d, Redirect (LoginUrl (full_path r)))
      | Some u \<Rightarrow> view u)"

section \<open>Constants\<close>

definition POST_ON_PAGE :: nat where "POST_ON_PAGE = 10"
definition POST_ON_PROFILE :: nat where "POST_ON_PROFILE = 10"
definition CHAR_IN_POST :: nat where "CHAR_IN_POST = 200"

section \<open>Views\<close>

text \<open>\<open>index\<close> (its \<open>cache_page\<close> decoration is modelled in theory \<open>Cache\<close>).\<close>

definition index :: "db \<Rightarrow> request \<Rightarrow> response" where
  "index d r =
     Render ''posts/index.html''
       (ListCtx (page_paginator r (all_posts d) POST_ON_PAGE) CHAR_IN_POST)"

definition group_posts :: "db \<Rightarrow> request \<Rightarrow> string \<Rightarrow> response" where
  "group_posts d r s =
     (case get_object_or_404 (group_by_slug d s) of
        Inl e \<Rightarrow> e
      | Inr g \<Rightarrow>
          Render ''posts/group_list.html''
            (GroupCtx g (page_paginator r (group_posts_qs d (group_id g)) POST_ON_PAGE) CHAR_IN_POST))"

definition profile :: "db \<Rightarrow> request \<Rightarrow> string \<Rightarrow> response" where
  "profile d r name =
     (case get_object_or_404 (user_by_name d name) of
        Inl e \<Rightarrow> e
      | Inr a \<Rightarrow>
          (let page_obj = page_paginator r (author_posts_qs d (user_id a)) POST_ON_PROFILE;
               following = (case req_user r of
                              None \<Rightarrow> False
                            | Some u \<Rightarrow> follow_exists d (user_id u) (user_id a))
           in Render ''posts/profile.html'' (ProfileCtx a page_obj CHAR_IN_POST following)))"

definition post_detail :: "db \<Rightarrow> request \<Rightarrow> pid \<Rightarrow> response" where
  "post_detail d r i =
     (case get_object_or_404 (post_by_id d i) of
        Inl e \<Rightarrow> e
      | Inr p \<Rightarrow>
          (let form = comment_form r;
               comments = post_comments_qs d (post_id p);
               is_edit = (case req_user r of None \<Rightarrow> False | Some u \<Rightarrow> post_author p = user_id u)
           in Render ''posts/post_detail.html'' (DetailCtx p is_edit form comments)))"

definition post_create :: "db \<Rightarrow> timestamp \<Rightarrow> request \<Rightarrow> db \<times> response" where
  "post_create d now r = login_required (\<lambda>u.
     if req_method r = POST then
       (let form = post_form d r None
        in case form_cleaned form of
             Some f \<Rightarrow>
               (let (d', p) = insert_post d (user_id u) (pf_text f) (pf_group f) (pf_image f) now
                in (d', Redirect (ProfileUrl (username u))))
           | None \<Rightarrow> (d, Render ''posts/create_post.html'' (FormCtx form None)))
     else (d, Render ''posts/create_post.html'' (FormCtx Unbound None))) d r"

definition post_edit :: "db \<Rightarrow> request \<Rightarrow> pid \<Rightarrow> db \<times> response" where
  "post_edit d r i = login_required (\<lambda>u.
     case get_object_or_404 (post_by_id d i) of
       Inl e \<Rightarrow> (d, e)
     | Inr p \<Rightarrow>
         if post_author p \<noteq> user_id u then (d, Redirect (PostDetailUrl i))
         else
           (let form = post_form d r (post_image p)
            in case (if req_method r = POST then form_cleaned form else None) of
                 Some f \<Rightarrow>
                   (update_post d (p\<lparr>post_text := pf_text f, post_group := pf_group f,
                                      post_image := pf_image f\<rparr>),
                    Redirect (PostDetailUrl i))
               | None \<Rightarrow> (d, Render ''posts/create_post.html'' (FormCtx form (Some p))))) d r"

definition add_comment :: "db \<Rightarrow> timestamp \<Rightarrow> request \<Rightarrow> pid \<Rightarrow> db \<times> response" where
  "add_comment d now r i = login_required (\<lambda>u.
     case get_object_or_404 (post_by_id d i) of
       Inl e \<Rightarrow> (d, e)
     | Inr p \<Rightarrow>
         (case form_cleaned (comment_form r) of
            Some t \<Rightarrow> (fst (insert_comment d (post_id p) (user_id u) t now), Redirect (PostDetailUrl i))
          | None \<Rightarrow> (d, Redirect (PostDetailUrl i)))) d r"

definition follow_index :: "db \<Rightarrow> request \<Rightarrow> db \<times> response" where
  "follow_index d r = login_required (\<lambda>u.
     (d, Render ''posts/follow.html''
           (ListCtx (page_paginator r (feed_qs d (user_id u)) POST_ON_PAGE) CHAR_IN_POST))) d r"

definition profile_follow :: "db \<Rightarrow> request \<Rightarrow> string \<Rightarrow> db \<times> response" where
  "profile_follow d r name = login_required (\<lambda>u.
     case get_object_or_404 (user_by_name d name) of
       Inl e \<Rightarrow> (d, e)
     | Inr a \<Rightarrow>
         (let following_exists = follow_exists d (user_id u) (user_id a)
          in (if user_id u \<noteq> user_id a \<and> \<not> following_exists
              then insert_follow d (user_id u) (user_id a) else d,
              Redirect (ProfileUrl name)))) d r"

definition profile_unfollow :: "db \<Rightarrow> request \<Rightarrow> string \<Rightarrow> db \<times> response" where
  "profile_unfollow d r name = login_required (\<lambda>u.
     case get_object_or_404 (user_by_name d name) of
       Inl e \<Rightarrow> (d, e)
     | Inr a \<Rightarrow>
         (case follow_get d (user_id u) (user_id a) of
            DoesNotExist \<Rightarrow> (d, ServerError ''Follow.DoesNotExist'')
          | MultipleObjectsReturned \<Rightarrow> (d, ServerError ''Follow.MultipleObjectsReturned'')
          | Found f \<Rightarrow> (delete_follow d f, Redirect (ProfileUrl name)))) d r"

text \<open>
  A request is well formed when its authenticated user is a row of the user table
  (the session middleware loads \<open>request.user\<close> from it).
\<close>

definition req_ok :: "db \<Rightarrow> request \<Rightarrow> bool" where
  "req_ok d r \<longleftrightarrow> (case req_user r of None \<Rightarrow> True | Some u \<Rightarrow> u \<in> set (users d))"

section \<open>Branches of the views\<close>

lemma login_required_anon [simp]:
  "req_user r = None \<Longrightarrow> login_required v d r = (d, Redirect (LoginUrl (full_path r)))"
  by (simp add: login_required_def)

lemma login_required_auth [simp]:
  "req_user r = Some u \<Longrightarrow> login_required v d r = v u"
  by (simp add: login_required_def)

lemma get_object_or_404_simps [simp]:
  "get_object_or_404 DoesNotExist = Inl NotFound"
  "get_object_or_404 MultipleObjectsReturned = Inl (ServerError ''MultipleObjectsReturned'')"
  "get_object_or_404 (Found x) = Inr x"
  by (simp_all add: get_object_or_404_def)

lemma length_all_posts [simp]: "length (all_posts d) = length (posts d)"
  by (simp add: all_posts_def)

lemma POST_ON_PAGE_pos: "0 < POST_ON_PAGE"
  by (simp add: POST_ON_PAGE_def)

lemma post_create_inv:
  assumes "store_inv d" and "req_ok d r"
  shows "store_inv (fst (post_create d now r))"
proof (cases "req_user r")
  case (Some u)
  then have u: "user_id u \<in> uids d" using assms(2) by (simp add: req_ok_def user_in_uids)
  show ?thesis
  proof (cases "req_method r = POST \<and> form_cleaned (post_form d r None) \<noteq> None")
    case True
    then obtain f where f: "form_cleaned (post_form d r None) = Some f" by auto
    have "store_inv (fst (insert_post d (user_id u) (pf_text f) (pf_group f) (pf_image f) now))"
      using assms(1) u post_form_group_valid [OF f] by (rule insert_post_inv)
    then show ?thesis using Some True f by (simp add: post_create_def split_def)
  next
    case False
    then show ?thesis using Some assms(1) by (auto simp: post_create_def Let_def)
  qed
qed (simp add: post_create_def assms(1))

lemma post_edit_inv:
  assumes "store_inv d"
  shows "store_inv (fst (post_edit d r i))"
proof (cases "\<exists>u p f. req_user r = Some u \<and> post_by_id d i = Found p \<and> post_author p = user_id u \<and>
                   req_method r = POST \<and> form_cleaned (post_form d r (post_image p)) = Some f")
  case True
  then obtain u p f where h: "req_user r = Some u" "post_by_id d i = Found p" "post_author p = user_id u"
      "req_method r = POST" "form_cleaned (post_form d r (post_image p)) = Some f" by blast
  have "post_ok d p" using assms found_post [OF h(2)] by (auto simp: store_inv_def)
  then have "post_ok d (p\<lparr>post_text := pf_text f, post_group := pf_group f, post_image := pf_image f\<rparr>)"
    using post_form_group_valid [OF h(5)] by (simp add: post_ok_def)
  then show ?thesis using h assms by (simp add: post_edit_def update_post_inv)
next
  case False
  then show ?thesis using assms
    by (auto simp: post_edit_def login_required_def get_object_or_404_def Let_def
        split: option.splits get_result.splits)
qed

lemma add_comment_inv:
  assumes "store_inv d" and "req_ok d r"
  shows "store_inv (fst (add_comment d now r i))"
proof (cases "\<exists>u p t. req_user r = Some u \<and> post_by_id d i = Found p \<and> form_cleaned (comment_form r) = Some t")
  case True
  then obtain u p t where h: "req_user r = Some u" "post_by_id d i = Found p" "form_cleaned (comment_form r) = Some t"
    by blast
  have "post_id p \<in> pids d" using found_post [OF h(2)] unfolding pids_def by blast
  moreover have "user_id u \<in> uids d" using assms(2) h(1) by (simp add: req_ok_def user_in_uids)
  ultimately show ?thesis using h assms(1) by (simp add: add_comment_def insert_comment_inv)
next
  case False
  then show ?thesis using assms(1)
    by (auto simp: add_comment_def login_required_def get_object_or_404_def
        split: option.splits get_result.splits)
qed

lemma profile_follow_inv:
  assumes "store_inv d" and "req_ok d r"
  shows "store_inv (fst (profile_follow d r name))"
proof (cases "\<exists>u a. req_user r = Some u \<and> user_by_name d name = Found a")
  case True
  then obtain u a where h: "req_user r = Some u" "user_by_name d name = Found a" by blast
  have "user_id u \<in> uids d" using assms(2) h(1) by (simp add: req_ok_def user_in_uids)
  moreover have "user_id a \<in> uids d" using found_user [OF h(2)] by (rule user_in_uids)
  ultimately show ?thesis using h assms(1) by (simp add: profile_follow_def Let_def insert_follow_inv)
next
  case False
  then show ?thesis using assms(1)
    by (auto simp: profile_follow_def login_required_def get_object_or_404_def
        split: option.splits get_result.splits)
qed

lemma profile_unfollow_inv:
  assumes "store_inv d"
  shows "store_inv (fst (profile_unfollow d r name))"
  using assms
  by (auto simp: profile_unfollow_def login_required_def get_object_or_404_def delete_follow_inv
      split: option.splits get_result.splits)

lemma profile_follow_follow_inv [inv_pres]:
  "follow_inv d \<Longrightarrow> follow_inv (fst (profile_follow d r name))"
  by (auto simp: profile_follow_def login_required_def get_object_or_404_def Let_def
      insert_follow_follow_inv split: option.splits get_result.splits)

lemma profile_unfollow_follow_inv [inv_pres]:
  "follow_inv d \<Longrightarrow> follow_inv (fst (profile_unfollow d r name))"
  by (auto simp: profile_unfollow_def login_required_def get_object_or_404_def
      delete_follow_follow_inv split: option.splits get_result.splits)

lemma views_keep_follows:
  "follows (fst (post_create d now r)) = follows d"
  "follows (fst (post_edit d r i)) = follows d"
  "follows (fst (add_comment d now r i)) = follows d"
  "fst (follow_index d r) = d"
  by (auto simp: post_create_def post_edit_def add_comment_def follow_index_def login_required_def
      get_object_or_404_def Let_def insert_post_def update_post_def insert_comment_def split_def
      split: option.splits get_result.splits)

lemma index_first_page:
  "qd_get (req_GET r) ''page'' = None \<Longrightarrow>
   index d r = Render ''posts/index.html'' (ListCtx (page (all_posts d) POST_ON_PAGE 1) CHAR_IN_POST)"
  by (simp add: index_def page_paginator_def get_page_None)

text \<open>The follow views once the author is found.\<close>

lemma profile_follow_found:
  "req_user r = Some u \<Longrightarrow> user_by_name d name = Found a \<Longrightarrow>
   profile_follow d r name =
     (if user_id u \<noteq> user_id a \<and> \<not> follow_exists d (user_id u) (user_id a)
      then insert_follow d (user_id u) (user_id a) else d, Redirect (ProfileUrl name))"
  by (simp add: profile_follow_def)

lemma profile_unfollow_found:
  "req_user r = Some u \<Longrightarrow> user_by_name d name = Found a \<Longrightarrow> follow_inv d \<Longrightarrow>
   follow_exists d (user_id u) (user_id a) \<Longrightarrow>
   profile_unfollow d r name =
     (delete_follow d \<lparr>follow_user = user_id u, follow_author = user_id a\<rparr>, Redirect (ProfileUrl name))"
  by (simp add: profile_unfollow_def follow_get_exists)

end
