(* ===== verification/Cache.thy ===== *)
theory Cache
  imports Views
begin

text \<open>
  The decoration \<open>@cache_page(1 * 20, key_prefix='index_page')\<close> of \<open>index\<close>
  (\<open>views.py\<close>, line 15) and the cache it uses. Django's \<open>CacheMiddleware\<close> serves
  \<open>GET\<close> and \<open>HEAD\<close> requests from the cache while an entry is live, renders and
  stores a successful response on a miss, and passes other methods through. The
  key is the prefix, the path and its query (Django hashes the absolute URL). It does
  not depend on the requester: the decorator learns its key from the response as
  \<open>index\<close> returns it, before the outer \<open>SessionMiddleware\<close> adds \<open>Vary: Cookie\<close>,
  so the header list it stores is empty. Django's two-level keys (a header list
  under the URL key, the page under a key built from it) are collapsed into this
  one key; so are its \<open>GET\<close> and \<open>HEAD\<close> keys (a \<open>HEAD\<close> request reads the \<open>GET\<close>
  entry first, and a view renders the same response for both) and the constant
  language suffix of a site with one language. An entry written at time
  \<open>t\<close> with timeout \<open>n\<close> is live while \<open>now < t + n\<close> (the local-memory backend's
  \<open>exp <= time.time()\<close> test for expiry). \<open>cache.clear()\<close> empties the cache.
\<close>

section \<open>The cache\<close>

record cache_entry =
  ce_response :: response
  ce_expires :: timestamp

type_synonym cache_key = "string \<times> string \<times> query_dict"
type_synonym cache = "cache_key \<Rightarrow> cache_entry option"

definition cache_get :: "cache \<Rightarrow> timestamp \<Rightarrow> cache_key \<Rightarrow> response option" where
  "cache_get c now k =
     (case c k of
        None \<Rightarrow> None
      | Some e \<Rightarrow> if now < ce_expires e then Some (ce_response e) else None)"

definition cache_set :: "cache \<Rightarrow> timestamp \<Rightarrow> cache_key \<Rightarrow> response \<Rightarrow> nat \<Rightarrow> cache" where
  "cache_set c now k r timeout = c(k \<mapsto> \<lparr>ce_response = r, ce_expires = now + timeout\<rparr>)"

definition cache_clear :: cache where
  "cache_clear = Map.empty"

section \<open>The decorator\<close>

text \<open>Only a response with status 200 is stored (\<open>UpdateCacheMiddleware\<close>).\<close>

definition status_ok :: "response \<Rightarrow> bool" where
  "status_ok resp \<longleftrightarrow> (case resp of Render _ _ \<Rightarrow> True | _ \<Rightarrow> False)"

definition cache_key_of :: "string \<Rightarrow> request \<Rightarrow> cache_key" where
  "cache_key_of prefix r = (prefix, req_path r, req_GET r)"

definition cache_page ::
  "nat \<Rightarrow> string \<Rightarrow> (request \<Rightarrow> response) \<Rightarrow> cache \<Rightarrow> timestamp \<Rightarrow> request \<Rightarrow> cache \<times> response" where
  "cache_page timeout prefix view c now r =
     (if req_method r \<noteq> GET \<and> req_method r \<noteq> HEAD then (c, view r)
      else
        (let k = cache_key_of prefix r
         in case cache_get c now k of
              Some resp \<Rightarrow> (c, resp)
            | None \<Rightarrow>
                (let resp = view r
                 in (if status_ok resp \<and> 0 < timeout then cache_set c now k resp timeout else c, resp))))"

text \<open>\<open>index\<close> as the URL dispatcher calls it: wrapped by its decorator.\<close>

definition cached_index :: "cache \<Rightarrow> db \<Rightarrow> timestamp \<Rightarrow> request \<Rightarrow> cache \<times> response" where
  "cached_index c d now r = cache_page (1 * 20) ''index_page'' (index d) c now r"

section \<open>Hits, misses and expiry\<close>

lemma cache_get_set_same:
  "cache_get (cache_set c t k resp n) now k = (if now < t + n then Some resp else None)"
  by (simp add: cache_get_def cache_set_def)

lemma cache_get_set_other:
  "k' \<noteq> k \<Longrightarrow> cache_get (cache_set c t k resp n) now k' = cache_get c now k'"
  by (simp add: cache_get_def cache_set_def)

lemma cache_key_of_same_url:
  "req_path r' = req_path r \<Longrightarrow> req_GET r' = req_GET r \<Longrightarrow> cache_key_of pre r' = cache_key_of pre r"
  by (simp add: cache_key_of_def)

lemma cache_get_clear: "cache_get cache_clear now k = None"
  by (simp add: cache_get_def cache_clear_def)

lemma cache_page_hit:
  "req_method r \<noteq> POST \<Longrightarrow> cache_get c now (cache_key_of pre r) = Some resp \<Longrightarrow>
   cache_page n pre view c now r = (c, resp)"
  by (cases "req_method r") (simp_all add: cache_page_def)

lemma cache_page_miss:
  "req_method r \<noteq> POST \<Longrightarrow> cache_get c now (cache_key_of pre r) = None \<Longrightarrow>
   cache_page n pre view c now r =
     (if status_ok (view r) \<and> 0 < n then cache_set c now (cache_key_of pre r) (view r) n else c, view r)"
  by (cases "req_method r") (simp_all add: cache_page_def Let_def)

lemma status_ok_index [simp]: "status_ok (index d r)"
  by (simp add: status_ok_def index_def)

lemma cached_index_miss:
  "req_method r \<noteq> POST \<Longrightarrow> cache_get c now (cache_key_of ''index_page'' r) = None \<Longrightarrow>
   cached_index c d now r = (cache_set c now (cache_key_of ''index_page'' r) (index d r) 20, index d r)"
  by (simp add: cached_index_def cache_page_miss)

lemma cached_index_hit:
  "req_method r \<noteq> POST \<Longrightarrow> cache_get c now (cache_key_of ''index_page'' r) = Some resp \<Longrightarrow>
   cached_index c d now r = (c, resp)"
  by (simp add: cached_index_def cache_page_hit)

end
