(* ===== verification/App.thy ===== *)
theory App
  imports Cache
begin

text \<open>
  The application around the views: the URL patterns of \<open>posts/urls.py\<close> (not in
  the sources; written from the routes of the specification and the paths the URL
  tests request) with their resolution and reversal, the dispatcher that calls the
  view of a path, and the running site as a world of the database, the cache and
  the clock. Its steps are requests, the passing of time, \<open>cache.clear()\<close>, sign-ups
  and the administrator's writes; the reachable worlds keep the store and follow
  invariants and a cache whose entries expire at most 20 seconds ahead. A second,
  interleaved semantics splits \<open>profile_follow\<close> into its check and its create, the
  way two concurrent requests run it without a transaction.
\<close>

section \<open>URL patterns\<close>

datatype route =
    IndexR
  | GroupListR string
  | ProfileR string
  | PostDetailR pid
  | PostCreateR
  | PostEditR pid
  | AddCommentR pid
  | FollowIndexR
  | ProfileFollowR string
  | ProfileUnfollowR string
  | LoginR                  \<comment> \<open>\<open>users:login\<close>, the one route of the \<open>users\<close> app modelled\<close>

fun split_on :: "char \<Rightarrow> string \<Rightarrow> string list" where
  "split_on c [] = [[]]"
| "split_on c (x # xs) =
     (if x = c then [] # split_on c xs else (let ws = split_on c xs in (x # hd ws) # tl ws))"

text \<open>The path converters: \<open>slug\<close> is \<open>[-a-zA-Z0-9_]+\<close>, \<open>str\<close> is \<open>[^/]+\<close>, \<open>int\<close> is \<open>[0-9]+\<close>.\<close>

definition slug_seg :: "string \<Rightarrow> bool" where
  "slug_seg s \<longleftrightarrow>
     s \<noteq> [] \<and>
     list_all (\<lambda>ch. let n = (of_char ch :: nat)
                    in (48 \<le> n \<and> n \<le> 57) \<or> (65 \<le> n \<and> n \<le> 90) \<or> (97 \<le> n \<and> n \<le> 122) \<or>
                       ch = CHR ''-'' \<or> ch = CHR ''_'') s"

definition str_seg :: "string \<Rightarrow> bool" where
  "str_seg s \<longleftrightarrow> s \<noteq> [] \<and> CHR ''/'' \<notin> set s"

definition int_seg :: "string \<Rightarrow> bool" where
  "int_seg s \<longleftrightarrow> s \<noteq> [] \<and> list_all is_digit s"

definition route_of :: "string list \<Rightarrow> route option" where
  "route_of ss =
     (case ss of
        [a] \<Rightarrow> if a = [] then Some IndexR else None
      | [a, e] \<Rightarrow>
          if e \<noteq> [] then None
          else if a = ''create'' then Some PostCreateR
          else if a = ''follow'' then Some FollowIndexR
          else None
      | [a, b, e] \<Rightarrow>
          if e \<noteq> [] then None
          else if a = ''auth'' \<and> b = ''login'' then Some LoginR
          else if a = ''group'' \<and> slug_seg b then Some (GroupListR b)
          else if a = ''profile'' \<and> str_seg b then Some (ProfileR b)
          else if a = ''posts'' \<and> int_seg b then Some (PostDetailR (digits_value b))
          else None
      | [a, b, c, e] \<Rightarrow>
          if e \<noteq> [] then None
          else if a = ''posts'' \<and> int_seg b \<and> c = ''edit'' then Some (PostEditR (digits_value b))
          else if a = ''posts'' \<and> int_seg b \<and> c = ''comment'' then Some (AddCommentR (digits_value b))
          else if a = ''profile'' \<and> str_seg b \<and> c = ''follow'' then Some (ProfileFollowR b)
          else if a = ''profile'' \<and> str_seg b \<and> c = ''unfollow'' then Some (ProfileUnfollowR b)
          else None
      | _ \<Rightarrow> None)"

text \<open>\<open>resolve(path)\<close>; \<open>None\<close> where Django raises \<open>Resolver404\<close>.\<close>

definition resolve :: "string \<Rightarrow> route option" where
  "resolve p =
     (case p of
        [] \<Rightarrow> None
      | c # rest \<Rightarrow> if c = CHR ''/'' then route_of (split_on CHR ''/'' rest) else None)"

text \<open>\<open>reverse(name, kwargs)\<close>: \<open>str(post_id)\<close> for the \<open>int\<close> converter.\<close>

fun route_path :: "route \<Rightarrow> string" where
  "route_path IndexR = ''/''"
| "route_path (GroupListR s) = ''/group/'' @ s @ ''/''"
| "route_path (ProfileR u) = ''/profile/'' @ u @ ''/''"
| "route_path (PostDetailR i) = ''/posts/'' @ nat_digits i @ ''/''"
| "route_path PostCreateR = ''/create/''"
| "route_path (PostEditR i) = ''/posts/'' @ nat_digits i @ ''/edit/''"
| "route_path (AddCommentR i) = ''/posts/'' @ nat_digits i @ ''/comment/''"
| "route_path FollowIndexR = ''/follow/''"
| "route_path (ProfileFollowR u) = ''/profile/'' @ u @ ''/follow/''"
| "route_path (ProfileUnfollowR u) = ''/profile/'' @ u @ ''/unfollow/''"
| "route_path LoginR = ''/auth/login/''"

definition route_ok :: "route \<Rightarrow> bool" where
  "route_ok rt =
     (case rt of
        GroupListR s \<Rightarrow> slug_seg s
      | ProfileR u \<Rightarrow> str_seg u
      | ProfileFollowR u \<Rightarrow> str_seg u
      | ProfileUnfollowR u \<Rightarrow> str_seg u
      | _ \<Rightarrow> True)"

text \<open>
  The locations of the redirects: \<open>reverse\<close> of the named routes, and
  \<open>redirect_to_login\<close> with \<open>settings.LOGIN_URL = 'users:login'\<close> at \<open>/auth/login/\<close>
  (the \<open>next\<close> value's percent-encoding is not modelled).
\<close>

definition url_path :: "url \<Rightarrow> string" where
  "url_path u =
     (case u of
        ProfileUrl name \<Rightarrow> route_path (ProfileR name)
      | PostDetailUrl i \<Rightarrow> route_path (PostDetailR i)
      | LoginUrl next \<Rightarrow> ''/auth/login/?next='' @ next)"

section \<open>The running site\<close>

record world =
  wdb :: db
  wcache :: cache
  clock :: timestamp

definition init_world :: world where
  "init_world = \<lparr>wdb = empty_db, wcache = cache_clear, clock = 0\<rparr>"

definition on_db :: "world \<Rightarrow> db \<times> response \<Rightarrow> world \<times> response" where
  "on_db w dr = (w\<lparr>wdb := fst dr\<rparr>, snd dr)"

text \<open>
  The dispatcher: resolve the path and call its view at the current time, \<open>index\<close>
  through its cache; an unknown path is a 404.
\<close>

definition dispatch :: "world \<Rightarrow> request \<Rightarrow> world \<times> response" where
  "dispatch w r =
     (let d = wdb w; now = clock w
      in case resolve (req_path r) of
           None \<Rightarrow> (w, NotFound)
         | Some IndexR \<Rightarrow>
             (let cr = cached_index (wcache w) d now r in (w\<lparr>wcache := fst cr\<rparr>, snd cr))
         | Some (GroupListR s) \<Rightarrow> (w, group_posts d r s)
         | Some (ProfileR u) \<Rightarrow> (w, profile d r u)
         | Some (PostDetailR i) \<Rightarrow> (w, post_detail d r i)
         | Some PostCreateR \<Rightarrow> on_db w (post_create d now r)
         | Some (PostEditR i) \<Rightarrow> on_db w (post_edit d r i)
         | Some (AddCommentR i) \<Rightarrow> on_db w (add_comment d now r i)
         | Some FollowIndexR \<Rightarrow> on_db w (follow_index d r)
         | Some (ProfileFollowR u) \<Rightarrow> on_db w (profile_follow d r u)
         | Some (ProfileUnfollowR u) \<Rightarrow> on_db w (profile_unfollow d r u)
         | Some LoginR \<Rightarrow>
             (w, Render ''users/login.html''
                   (LoginCtx (case qd_get (req_GET r) ''next'' of None \<Rightarrow> [] | Some n \<Rightarrow> n))))"

text \<open>
  The steps of the site: a request of a signed-in or anonymous client (handled
  atomically, one at a time), time passing, \<open>cache.clear()\<close>, a sign-up of the
  \<open>users\<close> application, and the administrator's creation of a group and deletion
  of a group or a post.
\<close>

inductive app_step :: "world \<Rightarrow> world \<Rightarrow> bool" where
  request: "req_ok (wdb w) r \<Longrightarrow> app_step w (fst (dispatch w r))"
| tick: "clock w \<le> t \<Longrightarrow> app_step w (w\<lparr>clock := t\<rparr>)"
| clear: "app_step w (w\<lparr>wcache := cache_clear\<rparr>)"
| signup: "insert_user (wdb w) name = Inr (d', u) \<Longrightarrow> app_step w (w\<lparr>wdb := d'\<rparr>)"
| admin_group: "insert_group (wdb w) t s descr = Inr (d', g) \<Longrightarrow> app_step w (w\<lparr>wdb := d'\<rparr>)"
| admin_delete_group: "app_step w (w\<lparr>wdb := delete_group (wdb w) g\<rparr>)"
| admin_delete_post: "app_step w (w\<lparr>wdb := delete_post (wdb w) i\<rparr>)"

inductive reachable :: "world \<Rightarrow> bool" where
  init: "reachable init_world"
| step: "reachable w \<Longrightarrow> app_step w w' \<Longrightarrow> reachable w'"

text \<open>No cache entry expires more than the page timeout after the current time.\<close>

definition cache_bounded :: "world \<Rightarrow> bool" where
  "cache_bounded w \<longleftrightarrow> (\<forall>k e. wcache w k = Some e \<longrightarrow> ce_expires e \<le> clock w + 20)"

definition world_inv :: "world \<Rightarrow> bool" where
  "world_inv w \<longleftrightarrow> store_inv (wdb w) \<and> follow_inv (wdb w) \<and> cache_bounded w"

section \<open>\<open>profile_follow\<close> in two phases\<close>

text \<open>
  The view reads the relation (\<open>exists()\<close>) and, later, creates the row. Between
  the two another request may run: \<open>follow_check\<close> is the view up to the test,
  \<open>follow_commit\<close> its \<open>create\<close> and redirect.
\<close>

record follow_intent =
  fi_user :: uid
  fi_author :: uid
  fi_create :: bool
  fi_name :: string

definition follow_check :: "db \<Rightarrow> request \<Rightarrow> string \<Rightarrow> (db \<times> response) + follow_intent" where
  "follow_check d r name =
     (case req_user r of
        None \<Rightarrow> Inl (d, Redirect (LoginUrl (full_path r)))
      | Some u \<Rightarrow>
          (case get_object_or_404 (user_by_name d name) of
             Inl e \<Rightarrow> Inl (d, e)
           | Inr a \<Rightarrow>
               Inr \<lparr>fi_user = user_id u, fi_author = user_id a,
                    fi_create = (user_id u \<noteq> user_id a \<and> \<not> follow_exists d (user_id u) (user_id a)),
                    fi_name = name\<rparr>))"

definition follow_commit :: "db \<Rightarrow> follow_intent \<Rightarrow> db \<times> response" where
  "follow_commit d t =
     (if fi_create t then insert_follow d (fi_user t) (fi_author t) else d, Redirect (ProfileUrl (fi_name t)))"

text \<open>
  The interleaved semantics: the atomic steps, plus the start of a follow request
  (its check, on the current database) and the end of any started one (its create,
  on the database as it is then).
\<close>

inductive conc_step :: "world \<times> follow_intent list \<Rightarrow> world \<times> follow_intent list \<Rightarrow> bool" where
  atomic: "app_step w w' \<Longrightarrow> conc_step (w, ps) (w', ps)"
| follow_begin: "req_ok (wdb w) r \<Longrightarrow> follow_check (wdb w) r name = Inr t \<Longrightarrow>
    conc_step (w, ps) (w, ps @ [t])"
| follow_end: "i < length ps \<Longrightarrow>
    conc_step (w, ps) (w\<lparr>wdb := fst (follow_commit (wdb w) (ps ! i))\<rparr>, take i ps @ drop (Suc i) ps)"

inductive conc_reachable :: "world \<times> follow_intent list \<Rightarrow> bool" where
  init: "conc_reachable (init_world, [])"
| step: "conc_reachable s \<Longrightarrow> conc_step s s' \<Longrightarrow> conc_reachable s'"

section \<open>Round trip of the URL patterns\<close>

lemma split_on_free: "c \<notin> set a \<Longrightarrow> split_on c a = [a]"
  by (induction a) auto

lemma split_on_append: "c \<notin> set a \<Longrightarrow> split_on c (a @ c # b) = a # split_on c b"
  by (induction a) (auto simp: Let_def)

lemma nat_digits_int_seg: "int_seg (nat_digits i) \<and> CHR ''/'' \<notin> set (nat_digits i)"
proof -
  have "\<forall>c \<in> set (nat_digits i). is_digit c"
    by (auto dest!: nat_digits_chars simp: digit_char_props)
  moreover have "\<not> is_digit CHR ''/''" by (simp add: is_digit_def)
  ultimately show ?thesis by (auto simp: int_seg_def list_all_iff nat_digits_ne)
qed

lemma slug_seg_no_slash: "slug_seg s \<Longrightarrow> CHR ''/'' \<notin> set s"
  by (auto simp: slug_seg_def list_all_iff)

text \<open>Every route whose arguments match their converters is resolved back from its path.\<close>

lemma resolve_route_path: "route_ok rt \<Longrightarrow> resolve (route_path rt) = Some rt"
  by (cases rt)
    (auto simp: resolve_def route_of_def route_ok_def split_on_append split_on_free
      slug_seg_no_slash str_seg_def nat_digits_int_seg digits_value_nat_digits)

lemma dispatch_index:
  "resolve (req_path r) = Some IndexR \<Longrightarrow>
   dispatch w r = (w\<lparr>wcache := fst (cached_index (wcache w) (wdb w) (clock w) r)\<rparr>,
                   snd (cached_index (wcache w) (wdb w) (clock w) r))"
  by (simp add: dispatch_def Let_def)

lemma resolve_index [simp]: "resolve ''/'' = Some IndexR"
  by (simp add: resolve_def route_of_def)

section \<open>Invariants of the running site\<close>

lemma init_world_inv: "world_inv init_world"
  by (simp add: world_inv_def init_world_def store_inv_def follow_inv_def cache_bounded_def
      cache_clear_def empty_db_def)

lemma cached_index_bounded:
  assumes "cache_bounded w"
  shows "cache_bounded (w\<lparr>wcache := fst (cached_index (wcache w) d (clock w) r)\<rparr>)"
  using assms
  by (auto simp: cache_bounded_def cached_index_def cache_page_def cache_set_def Let_def
      split: option.splits if_splits)

lemma dispatch_inv:
  assumes "world_inv w" and "req_ok (wdb w) r"
  shows "world_inv (fst (dispatch w r))"
proof -
  have s: "store_inv (wdb w)" and f: "follow_inv (wdb w)" and c: "cache_bounded w"
    using assms(1) by (simp_all add: world_inv_def)
  have ondb: "\<And>dr. store_inv (fst dr) \<Longrightarrow> follow_inv (fst dr) \<Longrightarrow> world_inv (fst (on_db w dr))"
    using c by (simp add: on_db_def world_inv_def cache_bounded_def)
  have fr: "\<And>d'. follows d' = follows (wdb w) \<Longrightarrow> follow_inv d'"
    using f follow_inv_frame by blast
  show ?thesis
  proof (cases "resolve (req_path r)")
    case None
    then show ?thesis using assms(1) by (simp add: dispatch_def)
  next
    case (Some rt)
    then show ?thesis
    proof (cases rt)
      case IndexR
      then show ?thesis using Some s f cached_index_bounded [OF c]
        by (simp add: dispatch_def world_inv_def Let_def)
    qed (simp_all add: dispatch_def Some assms(1) ondb s f post_create_inv [OF s assms(2)]
        post_edit_inv [OF s] add_comment_inv [OF s assms(2)] profile_follow_inv [OF s assms(2)]
        profile_unfollow_inv [OF s] profile_follow_follow_inv profile_unfollow_follow_inv fr views_keep_follows)
  qed
qed

lemma app_step_inv:
  assumes "app_step w w'" and "world_inv w"
  shows "world_inv w'"
  using assms
proof (induction rule: app_step.induct)
  case (request w r)
  then show ?case by (simp add: dispatch_inv)
next
  case (tick w t)
  then show ?case by (fastforce simp: world_inv_def cache_bounded_def)
next
  case (clear w)
  then show ?case by (simp add: world_inv_def cache_bounded_def cache_clear_def)
next
  case (signup w name d' u)
  then have "follows d' = follows (wdb w)" by (auto simp: insert_user_def Let_def split: if_splits)
  with signup show ?case
    by (auto simp: world_inv_def cache_bounded_def follow_inv_def intro: insert_user_inv)
next
  case (admin_group w t s descr d' g)
  then have "follows d' = follows (wdb w)" by (auto simp: insert_group_def Let_def split: if_splits)
  with admin_group show ?case
    by (auto simp: world_inv_def cache_bounded_def follow_inv_def intro: insert_group_inv)
next
  case (admin_delete_group w g)
  then show ?case
    by (simp add: world_inv_def cache_bounded_def follow_inv_def delete_group_inv)
      (simp add: delete_group_def Let_def)
next
  case (admin_delete_post w i)
  then show ?case
    by (simp add: world_inv_def cache_bounded_def follow_inv_def delete_post_inv)
      (simp add: delete_post_def)
qed

lemma reachable_cache_bounded: "reachable w \<Longrightarrow> cache_bounded w"
proof -
  assume "reachable w"
  then have "world_inv w"
    by (induction rule: reachable.induct) (auto intro: init_world_inv app_step_inv)
  then show ?thesis by (simp add: world_inv_def)
qed

text \<open>
  C23. In every world the site reaches by atomic requests, sign-ups, administrator
  writes, time passing and cache clears, the store invariant and the follow
  invariant hold and no cache entry expires more than 20 seconds ahead.
\<close>

theorem reachable_world_inv: "reachable w \<Longrightarrow> world_inv w"
  by (induction rule: reachable.induct) (auto intro: init_world_inv app_step_inv)

lemma reachable_conc: "reachable w \<Longrightarrow> conc_reachable (w, [])"
  by (induction rule: reachable.induct) (auto intro: conc_reachable.intros conc_step.atomic)

section \<open>The follow race\<close>

text \<open>
  \<open>profile_follow\<close> is its check followed at once by its create: run without
  interruption, the two phases of the interleaved semantics are the view.
\<close>

lemma profile_follow_two_phase:
  "profile_follow d r name =
     (case follow_check d r name of Inl res \<Rightarrow> res | Inr t \<Rightarrow> follow_commit d t)"
  by (auto simp: profile_follow_def follow_check_def follow_commit_def login_required_def
      get_object_or_404_def Let_def split: option.splits get_result.splits)

text \<open>
  C25. Once two \<open>Follow\<close> rows link a user to an author, the user's unfollow request
  raises \<open>MultipleObjectsReturned\<close> and deletes nothing, so no request can remove
  the relation.
\<close>

theorem unfollow_duplicated:
  assumes "2 \<le> follow_count d (user_id u) (user_id a)" and "req_user r = Some u"
    and "user_by_name d name = Found a"
  shows "profile_unfollow d r name = (d, ServerError ''Follow.MultipleObjectsReturned'')"
proof -
  have "follow_get d (user_id u) (user_id a) = MultipleObjectsReturned"
    using assms(1) by (rule follow_get_multiple)
  then show ?thesis using assms(2,3) by (simp add: profile_unfollow_def)
qed

end
