(* ===== verification/Fixtures.thy ===== *)
theory Fixtures
  imports Views
begin

text \<open>
  The fixtures of the test suite under \<open>src/yatube/posts/tests/\<close>: the stores that
  each test class's \<open>setUpClass\<close> builds, and the requests of Django's test
  \<open>Client\<close> (\<open>get\<close> and \<open>post\<close>, logged in with \<open>force_login\<close> or anonymous). Keys are
  assigned from 1 in creation order, timestamps increase with creation, and the
  Cyrillic texts of the tests are replaced by ASCII strings of the same role.
\<close>

section \<open>The test client\<close>

definition client_get :: "user option \<Rightarrow> string \<Rightarrow> query_dict \<Rightarrow> request" where
  "client_get u path q =
     \<lparr>req_user = u, req_method = GET, req_path = path, req_GET = q, req_POST = [], req_FILES = []\<rparr>"

definition client_post :: "user option \<Rightarrow> string \<Rightarrow> query_dict \<Rightarrow> file_dict \<Rightarrow> request" where
  "client_post u path data files =
     \<lparr>req_user = u, req_method = POST, req_path = path, req_GET = [], req_POST = data, req_FILES = files\<rparr>"

section \<open>Constants of the test modules\<close>

definition TEST_POST_TEXT :: string where
  "TEST_POST_TEXT = ''Test post of the test user.''"

definition POSTS_ON_PAGE_1 :: nat where "POSTS_ON_PAGE_1 = 10"
definition POSTS_ON_PAGE_2 :: nat where "POSTS_ON_PAGE_2 = 3"
definition POSTS_COUNT :: nat where "POSTS_COUNT = 13"

text \<open>
  The constants of \<open>test_forms.py\<close>; its \<open>TEST_POST_TEXT\<close> is renamed, as
  \<open>test_views.py\<close> has another constant of that name.
\<close>

definition FORMS_TEST_POST_TEXT :: string where
  "FORMS_TEST_POST_TEXT = ''Test post''"

definition TEST_POST_EDIT_TEXT :: string where
  "TEST_POST_EDIT_TEXT = ''Edited test post''"

definition TEST_COMMENT_TEXT :: string where
  "TEST_COMMENT_TEXT = ''Test comment under the test post''"

text \<open>\<open>SimpleUploadedFile(name='small.gif', content=small_gif, content_type='image/gif')\<close>.\<close>

definition small_gif :: upload where
  "small_gif = \<lparr>upload_name = ''small.gif'', upload_is_image = True\<rparr>"

section \<open>Users and groups\<close>

definition test_user :: user where
  "test_user = \<lparr>user_id = 1, username = ''test_user''\<rparr>"

definition test_author :: user where
  "test_author = \<lparr>user_id = 2, username = ''test_author''\<rparr>"

definition test_user_not_author :: user where
  "test_user_not_author = \<lparr>user_id = 2, username = ''test_user_not_author''\<rparr>"

definition test_group :: group where
  "test_group = \<lparr>group_id = 1, title = ''Test group'', slug = ''test-slug'', description = ''Test description''\<rparr>"

definition test_group_1 :: group where
  "test_group_1 = \<lparr>group_id = 1, title = ''Test group 1'', slug = ''test-slug-1'', description = ''Test description 1''\<rparr>"

definition test_group_2 :: group where
  "test_group_2 = \<lparr>group_id = 2, title = ''Test group 2'', slug = ''test-slug-2'', description = ''Test description 2''\<rparr>"

section \<open>Stores of the test classes\<close>

text \<open>\<open>FollowTests.setUpClass\<close>: a user and an author, nothing else.\<close>

definition follow_tests_db :: db where
  "follow_tests_db = empty_db\<lparr>users := [test_user, test_author], next_uid := 3\<rparr>"

text \<open>\<open>PostsViewsTests.setUpClass\<close>: two groups and one post with an image in the first.\<close>

definition views_tests_post :: post where
  "views_tests_post = \<lparr>post_id = 1, post_text = TEST_POST_TEXT, pub_date = 1,
     post_author = 1, post_group = Some 1, post_image = Some ''posts/small.gif''\<rparr>"

definition views_tests_db :: db where
  "views_tests_db = empty_db\<lparr>users := [test_user], groups := [test_group_1, test_group_2],
     posts := [views_tests_post], next_uid := 2, next_gid := 3, next_pid := 2\<rparr>"

text \<open>
  \<open>PaginatorViewsTest.setUpClass\<close>: thirteen posts of one user in one group, post \<open>i\<close>
  with text \<open>f'Test post {i}'\<close> (\<open>bulk_create\<close> numbers them from 1).
\<close>

definition paginator_tests_db :: db where
  "paginator_tests_db = empty_db\<lparr>users := [test_user], groups := [test_group],
     posts := map (\<lambda>i. \<lparr>post_id = i, post_text = ''Test post '' @ py_str_int (int i), pub_date = i, post_author = 1,
                        post_group = Some 1, post_image = None\<rparr>) [1..<Suc POSTS_COUNT],
     next_uid := 2, next_gid := 2, next_pid := 14\<rparr>"

text \<open>
  \<open>PostsFormsTests.setUpClass\<close> and \<open>PostsURLTests.setUpClass\<close>: one post of the
  user in the group (the URL tests add a second user who is not its author).
\<close>

definition forms_tests_post :: post where
  "forms_tests_post = \<lparr>post_id = 1, post_text = ''Test post of the test user in the test group'',
     pub_date = 1, post_author = 1, post_group = Some 1, post_image = None\<rparr>"

definition forms_tests_db :: db where
  "forms_tests_db = empty_db\<lparr>users := [test_user], groups := [test_group],
     posts := [forms_tests_post], next_uid := 2, next_gid := 2, next_pid := 2\<rparr>"

definition urls_tests_db :: db where
  "urls_tests_db = forms_tests_db\<lparr>users := [test_user, test_user_not_author], next_uid := 3\<rparr>"

lemmas fixture_defs = TEST_POST_TEXT_def POSTS_COUNT_def client_get_def client_post_def test_user_def test_author_def
  test_user_not_author_def test_group_def test_group_1_def test_group_2_def empty_db_def
  follow_tests_db_def views_tests_post_def views_tests_db_def paginator_tests_db_def
  forms_tests_post_def forms_tests_db_def urls_tests_db_def

lemma forms_tests_db_inv: "store_inv forms_tests_db"
  by (simp add: store_inv_unfold fixture_defs)

lemma views_tests_db_inv: "store_inv views_tests_db"
  by (simp add: store_inv_unfold fixture_defs)

end
