(* ===== verification/Scenarios.thy ===== *)
theory Scenarios
  imports App Fixtures
begin

text \<open>
  The test methods of \<open>src/yatube/posts/tests/\<close> as runs of the site: each starts
  from the world its test class builds (the store of \<open>setUpClass\<close>, the cache that
  \<open>setUp\<close> clears), sends its requests through the dispatcher, and returns what the
  test asserts on. A response's \<open>content\<close> is the rendering of its template and
  context, so equal responses have equal content and responses whose page objects
  differ have different content.
\<close>

definition world_of :: "db \<Rightarrow> timestamp \<Rightarrow> world" where
  "world_of d now = \<lparr>wdb = d, wcache = cache_clear, clock = now\<rparr>"

definition template_of :: "response \<Rightarrow> string option" where
  "template_of resp = (case resp of Render t _ \<Rightarrow> Some t | _ \<Rightarrow> None)"

section \<open>\<open>PostsViewsTests.test_posts_index_cache\<close>\<close>

text \<open>
  A post is created, the index is requested at \<open>t1\<close>, the post is deleted, the
  index is requested at \<open>t2\<close>, the cache is cleared, and the index is requested at
  \<open>t3\<close>; the three responses.
\<close>

definition test_posts_index_cache ::
  "timestamp \<Rightarrow> timestamp \<Rightarrow> timestamp \<Rightarrow> timestamp \<Rightarrow> response \<times> response \<times> response" where
  "test_posts_index_cache t0 t1 t2 t3 =
     (let w0 = world_of views_tests_db t0;
          (d1, test_post) = insert_post (wdb w0) (user_id test_user) TEST_POST_TEXT
                              (Some (group_id test_group_1)) None (clock w0);
          index_url = client_get (Some test_user) (route_path IndexR) [];
          (w2, response_1) = dispatch (w0\<lparr>wdb := d1, clock := t1\<rparr>) index_url;
          w3 = w2\<lparr>wdb := delete_post (wdb w2) (post_id test_post), clock := t2\<rparr>;
          (w4, response_2) = dispatch w3 index_url;
          w5 = w4\<lparr>wcache := cache_clear, clock := t3\<rparr>;
          (w6, response_3) = dispatch w5 index_url
      in (response_1, response_2, response_3))"

section \<open>\<open>FollowTests\<close>\<close>

definition follow_count_of :: "world \<Rightarrow> user \<Rightarrow> user \<Rightarrow> nat" where
  "follow_count_of w u a = follow_count (wdb w) (user_id u) (user_id a)"

text \<open>\<open>test_posts_follow\<close>: the count before and after a follow request.\<close>

definition test_posts_follow :: "nat \<times> nat" where
  "test_posts_follow =
     (let w = world_of follow_tests_db 0;
          c1 = follow_count_of w test_user test_author;
          w' = fst (dispatch w (client_get (Some test_user) (route_path (ProfileFollowR (username test_author))) []))
      in (c1, follow_count_of w' test_user test_author))"

text \<open>\<open>test_posts_unfollow\<close>: a follow row is created, then the unfollow request.\<close>

definition test_posts_unfollow :: "nat \<times> nat" where
  "test_posts_unfollow =
     (let w = world_of (insert_follow follow_tests_db (user_id test_user) (user_id test_author)) 0;
          c1 = follow_count_of w test_user test_author;
          w' = fst (dispatch w (client_get (Some test_user) (route_path (ProfileUnfollowR (username test_author))) []))
      in (c1, follow_count_of w' test_user test_author))"

text \<open>
  \<open>test_posts_follow_correct_appear\<close>: the author posts; the user's feed before
  and after a follow row is created, and the post.
\<close>

definition page_objects :: "response \<Rightarrow> post list" where
  "page_objects resp =
     (case resp of
        Render _ (ListCtx p _) \<Rightarrow> object_list p
      | Render _ (GroupCtx _ p _) \<Rightarrow> object_list p
      | Render _ (ProfileCtx _ p _ _) \<Rightarrow> object_list p
      | _ \<Rightarrow> [])"

definition test_posts_follow_correct_appear :: "post list \<times> post list \<times> post" where
  "test_posts_follow_correct_appear =
     (let (d, post) = insert_post follow_tests_db (user_id test_author) TEST_POST_TEXT None None 1;
          url = client_get (Some test_user) (route_path FollowIndexR) [];
          r1 = snd (dispatch (world_of d 1) url);
          d' = insert_follow d (user_id test_user) (user_id test_author);
          r2 = snd (dispatch (world_of d' 1) url)
      in (page_objects r1, page_objects r2, post))"

text \<open>\<open>test_posts_follow_yourself\<close>: the author asks to follow themselves.\<close>

definition test_posts_follow_yourself :: "nat \<times> nat" where
  "test_posts_follow_yourself =
     (let w = world_of follow_tests_db 0;
          c1 = follow_count_of w test_author test_author;
          w' = fst (dispatch w (client_get (Some test_author) (route_path (ProfileFollowR (username test_author))) []))
      in (c1, follow_count_of w' test_author test_author))"

section \<open>\<open>PaginatorViewsTest.test_index_correct_paginator_work\<close>\<close>

text \<open>The test client's session: requests sent one after the other through the site.\<close>

fun run_gets :: "world \<Rightarrow> request list \<Rightarrow> response list" where
  "run_gets w [] = []"
| "run_gets w (r # rs) = (let wr = dispatch w r in snd wr # run_gets (fst wr) rs)"

text \<open>For the index, the group and the profile: the page without and with \<open>?page=2\<close>.\<close>

definition paginator_test_requests :: "(request \<times> nat) list" where
  "paginator_test_requests =
     concat (map (\<lambda>url. [(client_get (Some test_user) url [], POSTS_ON_PAGE_1),
                        (client_get (Some test_user) url [(''page'', ''2'')], POSTS_ON_PAGE_2)])
       [route_path IndexR, route_path (GroupListR (slug test_group)), route_path (ProfileR (username test_user))])"

text \<open>The length of each response's \<open>page_obj\<close>, with the length the test expects.\<close>

definition test_index_correct_paginator_work :: "(nat \<times> nat) list" where
  "test_index_correct_paginator_work =
     (let resps = run_gets (world_of paginator_tests_db 0) (map fst paginator_test_requests)
      in zip (map (\<lambda>resp. length (page_objects resp)) resps) (map snd paginator_test_requests))"

section \<open>\<open>PostsFormsTests\<close>\<close>

text \<open>
  \<open>test_posts_create_post\<close>: the post count before, the response to the form
  submission, the page the client is redirected to, the count after, and whether
  a post with the submitted text, group, author and image exists.
\<close>

definition test_posts_create_post :: "nat \<times> response \<times> response \<times> nat \<times> bool" where
  "test_posts_create_post =
     (let w = world_of forms_tests_db 0;
          posts_count = length (posts (wdb w));
          form_data = [(''text'', FORMS_TEST_POST_TEXT), (''group'', py_str_int (int (group_id test_group)))];
          (w1, response) = dispatch w (client_post (Some test_user) (route_path PostCreateR) form_data
                                         [(''image'', small_gif)]);
          followed = (case response of
                        Redirect u \<Rightarrow> snd (dispatch w1 (client_get (Some test_user) (url_path u) []))
                      | _ \<Rightarrow> response)
      in (posts_count, response, followed, length (posts (wdb w1)),
          list_ex (\<lambda>p. post_text p = FORMS_TEST_POST_TEXT \<and> post_group p = Some (group_id test_group) \<and>
                       post_author p = user_id test_user \<and> post_image p = Some ''posts/small.gif'')
            (posts (wdb w1))))"

text \<open>
  \<open>test_posts_edit_post\<close>: the post count before and after the author's edit, and
  the post as \<open>Post.objects.get(pk=...)\<close> then returns it.
\<close>

definition test_posts_edit_post :: "nat \<times> nat \<times> post get_result" where
  "test_posts_edit_post =
     (let w = world_of forms_tests_db 0;
          posts_count = length (posts (wdb w));
          form_data = [(''text'', TEST_POST_EDIT_TEXT), (''group'', py_str_int (int (group_id test_group)))];
          w1 = fst (dispatch w (client_post (Some test_user) (route_path (PostEditR (post_id forms_tests_post)))
                                  form_data []))
      in (posts_count, length (posts (wdb w1)), post_by_id (wdb w1) (post_id forms_tests_post)))"

text \<open>\<open>response.context['comments']\<close> of the post detail page.\<close>

definition detail_comments :: "response \<Rightarrow> comment list" where
  "detail_comments resp = (case resp of Render _ (DetailCtx _ _ _ cs) \<Rightarrow> cs | _ \<Rightarrow> [])"

text \<open>
  \<open>test_posts_comments_by_auth_client\<close>: the comment count, the guest's submission
  and the count after it, the user's submission, the count after it, and the
  page the user is redirected to.
\<close>

definition test_posts_comments_by_auth_client ::
  "nat \<times> response \<times> nat \<times> response \<times> nat \<times> response" where
  "test_posts_comments_by_auth_client =
     (let w = world_of forms_tests_db 0;
          comments_count = length (comments (wdb w));
          page = route_path (AddCommentR (post_id forms_tests_post));
          form_data = [(''text'', TEST_COMMENT_TEXT)];
          (w1, guest_response) = dispatch w (client_post None page form_data []);
          (w2, auth_response) = dispatch w1 (client_post (Some test_user) page form_data []);
          followed = (case auth_response of
                        Redirect u \<Rightarrow> snd (dispatch w2 (client_get (Some test_user) (url_path u) []))
                      | _ \<Rightarrow> auth_response)
      in (comments_count, guest_response, length (comments (wdb w1)), auth_response,
          length (comments (wdb w2)), followed))"

section \<open>\<open>PostsURLTests\<close>\<close>

text \<open>\<open>test_404_error_return_for_unexisting_page\<close>: the guest's and the user's responses.\<close>

definition test_404_error_return_for_unexisting_page :: "response \<times> response" where
  "test_404_error_return_for_unexisting_page =
     (let w = world_of urls_tests_db 0
      in (snd (dispatch w (client_get None ''/something_page/'' [])),
          snd (dispatch w (client_get (Some test_user) ''/something_page/'' []))))"

text \<open>\<open>test_create_post_url_exists\<close>: where the guest is sent, and the user's template.\<close>

definition test_create_post_url_exists :: "response \<times> response" where
  "test_create_post_url_exists =
     (let w = world_of urls_tests_db 0
      in (snd (dispatch w (client_get None ''/create/'' [])),
          snd (dispatch w (client_get (Some test_user) ''/create/'' []))))"

text \<open>\<open>test_urls_uses_correct_template\<close>: the template of each address for the author.\<close>

definition url_template_addresses :: "string list" where
  "url_template_addresses =
     [''/'', ''/group/test-slug/'', ''/profile/test_user/'', ''/posts/1/'', ''/posts/1/edit/'', ''/create/'']"

definition test_urls_uses_correct_template :: "string option list" where
  "test_urls_uses_correct_template =
     map (\<lambda>a. template_of (snd (dispatch (world_of urls_tests_db 0) (client_get (Some test_user) a []))))
       url_template_addresses"

section \<open>The fixtures as reachable worlds\<close>

lemma signup_fixture:
  "insert_user empty_db ''test_user'' = Inr (empty_db\<lparr>users := [test_user], next_uid := 2\<rparr>, test_user)"
  "insert_user (empty_db\<lparr>users := [test_user], next_uid := 2\<rparr>) ''test_author'' = Inr (follow_tests_db, test_author)"
  by (simp_all add: insert_user_def fixture_defs Let_def)

text \<open>\<open>FollowTests.setUpClass\<close> is two sign-ups on the empty site.\<close>

lemma follow_tests_reachable: "reachable (world_of follow_tests_db 0)"
proof -
  have "reachable (init_world\<lparr>wdb := empty_db\<lparr>users := [test_user], next_uid := 2\<rparr>\<rparr>)"
    using reachable.step [OF reachable.init app_step.signup] signup_fixture(1) by (simp add: init_world_def)
  then show ?thesis
    using reachable.step [OF _ app_step.signup] signup_fixture(2)
    by (fastforce simp: init_world_def world_of_def)
qed

end
