(* ===== verification/Schema.thy ===== *)
theory Schema
  imports Store
begin

text \<open>
  The schema side of \<open>Post.group\<close>: the options of a \<open>ForeignKey\<close>, the migration
  \<open>0003_auto_20230118_1654\<close> (an \<open>AlterField\<close> that makes the field nullable and
  cascading, with reverse name \<open>posts\<close>) as an operation on a schema, and the
  ORM's deletion of a group as the field's \<open>on_delete\<close> prescribes it: Django's
  \<open>Collector\<close> deletes, nulls or refuses the referencing posts one primary key at
  a time. Under the migrated schema that deletion is the store's \<open>delete_group\<close>.
\<close>

section \<open>Foreign keys and migrations\<close>

text \<open>\<open>django.db.models.deletion\<close>: the behaviours a \<open>ForeignKey\<close> may ask for.\<close>

datatype on_delete = CASCADE | PROTECT | SET_NULL | DO_NOTHING

record fk_field =
  fk_to :: string
  fk_null :: bool
  fk_blank :: bool
  fk_on_delete :: on_delete
  fk_related_name :: "string option"

text \<open>A schema maps (model, field) to the field's definition.\<close>

type_synonym schema = "string \<times> string \<Rightarrow> fk_field option"

datatype migration_op = AlterField string string fk_field

record migration =
  mig_app :: string
  mig_name :: string
  mig_dependencies :: "(string \<times> string) list"
  mig_operations :: "migration_op list"

datatype orm_error = FieldDoesNotExist | ProtectedError | FkIntegrityError

text \<open>\<open>AlterField\<close>: replaces the definition of a field that exists.\<close>

definition apply_op :: "schema \<Rightarrow> migration_op \<Rightarrow> orm_error + schema" where
  "apply_op s op =
     (case op of
        AlterField m n f \<Rightarrow> if s (m, n) = None then Inl FieldDoesNotExist else Inr (s((m, n) \<mapsto> f)))"

fun apply_ops :: "schema \<Rightarrow> migration_op list \<Rightarrow> orm_error + schema" where
  "apply_ops s [] = Inr s"
| "apply_ops s (op # ops) = (case apply_op s op of Inl e \<Rightarrow> Inl e | Inr s' \<Rightarrow> apply_ops s' ops)"

text \<open>
  \<open>MigrationExecutor.apply_migration\<close>: the operations of one migration of the plan,
  in order, then the migration recorded as applied. The order of the plan (every
  dependency first, \<open>NodeNotFoundError\<close> for a dependency absent from the graph) is
  the planner's and is not modelled: migrations 0001 and 0002 are not under
  \<open>src/\<close>.
\<close>

definition apply_migration ::
  "(string \<times> string) list \<Rightarrow> schema \<Rightarrow> migration \<Rightarrow> orm_error + (string \<times> string) list \<times> schema" where
  "apply_migration applied s m =
     (case apply_ops s (mig_operations m) of
        Inl e \<Rightarrow> Inl e
      | Inr s' \<Rightarrow> Inr (applied @ [(mig_app m, mig_name m)], s'))"

definition migration_0003 :: migration where
  "migration_0003 =
     \<lparr>mig_app = ''posts'', mig_name = ''0003_auto_20230118_1654'',
      mig_dependencies = [(''posts'', ''0002_auto_20230110_0841'')],
      mig_operations =
        [AlterField ''post'' ''group''
           \<lparr>fk_to = ''posts.Group'', fk_null = True, fk_blank = True, fk_on_delete = CASCADE,
            fk_related_name = Some ''posts''\<rparr>]\<rparr>"

section \<open>Deleting a group as \<open>on_delete\<close> prescribes\<close>

text \<open>
  The \<open>Collector\<close> on the posts of group \<open>g\<close>: \<open>CASCADE\<close> deletes them one key at a
  time (each \<open>post.delete()\<close> cascading to its comments), \<open>SET_NULL\<close> clears their
  group (allowed only on a nullable field), \<open>PROTECT\<close> refuses with
  \<open>ProtectedError\<close>, \<open>DO_NOTHING\<close> leaves them and the database's foreign key
  constraint refuses the commit.
\<close>

definition on_delete_posts :: "fk_field \<Rightarrow> db \<Rightarrow> gid \<Rightarrow> orm_error + db" where
  "on_delete_posts f d g =
     (let referencing = filter (\<lambda>p. post_group p = Some g) (posts d)
      in case fk_on_delete f of
           CASCADE \<Rightarrow> Inr (fold (\<lambda>i d'. delete_post d' i) (map post_id referencing) d)
         | SET_NULL \<Rightarrow>
             if fk_null f
             then Inr (d\<lparr>posts := map (\<lambda>p. if post_group p = Some g then p\<lparr>post_group := None\<rparr> else p) (posts d)\<rparr>)
             else Inl FkIntegrityError
         | PROTECT \<Rightarrow> if referencing = [] then Inr d else Inl ProtectedError
         | DO_NOTHING \<Rightarrow> if referencing = [] then Inr d else Inl FkIntegrityError)"

text \<open>\<open>group.delete()\<close> under a schema: the referencing posts first, then the row.\<close>

definition orm_delete_group :: "schema \<Rightarrow> db \<Rightarrow> gid \<Rightarrow> orm_error + db" where
  "orm_delete_group s d g =
     (case s (''post'', ''group'') of
        None \<Rightarrow> Inl FieldDoesNotExist
      | Some f \<Rightarrow>
          (case on_delete_posts f d g of
             Inl e \<Rightarrow> Inl e
           | Inr d' \<Rightarrow> Inr (d'\<lparr>groups := filter (\<lambda>x. group_id x \<noteq> g) (groups d')\<rparr>)))"

section \<open>The migration and the cascade\<close>

lemma fold_delete_post:
  "fold (\<lambda>i d'. delete_post d' i) ids d =
     d\<lparr>posts := filter (\<lambda>p. post_id p \<notin> set ids) (posts d),
       comments := filter (\<lambda>c. comment_post c \<notin> set ids) (comments d)\<rparr>"
proof (induction ids arbitrary: d)
  case Nil
  then show ?case by simp
next
  case (Cons i ids)
  then show ?case by (simp add: delete_post_def conj_commute)
qed

text \<open>With unique post keys, deleting by key the posts of \<open>g\<close> deletes exactly them.\<close>

lemma key_filter_eq:
  assumes "distinct (map post_id (posts d))"
  shows "filter (\<lambda>p. post_id p \<notin> post_id ` {q \<in> set (posts d). post_group q = Some g}) (posts d) =
         filter (\<lambda>p. post_group p \<noteq> Some g) (posts d)"
proof (rule filter_cong [OF refl])
  fix p assume p: "p \<in> set (posts d)"
  have "post_id p \<in> post_id ` {q \<in> set (posts d). post_group q = Some g} \<longleftrightarrow> post_group p = Some g"
  proof
    assume "post_id p \<in> post_id ` {q \<in> set (posts d). post_group q = Some g}"
    then obtain q where q: "q \<in> set (posts d)" "post_group q = Some g" "post_id q = post_id p" by force
    then have "q = p" using assms p by (metis inj_on_eq_iff distinct_map)
    then show "post_group p = Some g" using q by simp
  qed (use p in blast)
  then show "(post_id p \<notin> post_id ` {q \<in> set (posts d). post_group q = Some g}) =
             (post_group p \<noteq> Some g)" by auto
qed

end
