(* ===== verification/Responses.thy ===== *)
theory Responses
  imports App
begin

text \<open>
  Properties of every response the site sends, indexed by the route its path
  resolves to: a path that resolves to no route is a 404, a rendered page uses the
  template of its route's view and hands it the context that template reads
  (\<open>response_fits\<close>); each listing page is within the paginator's bounds
  (\<open>listing_ok\<close>). Both hold of every view, and a generic lemma carries any such
  property through the dispatcher and the cache to every world the site reaches.
\<close>

section \<open>Well-formed responses\<close>

fun template_ok :: "string \<Rightarrow> ctx \<Rightarrow> bool" where
  "template_ok t (ListCtx _ _) \<longleftrightarrow> t = ''posts/index.html'' \<or> t = ''posts/follow.html''"
| "template_ok t (GroupCtx _ _ _) \<longleftrightarrow> t = ''posts/group_list.html''"
| "template_ok t (ProfileCtx _ _ _ _) \<longleftrightarrow> t = ''posts/profile.html''"
| "template_ok t (DetailCtx _ _ _ _) \<longleftrightarrow> t = ''posts/post_detail.html''"
| "template_ok t (FormCtx _ _) \<longleftrightarrow> t = ''posts/create_post.html''"
| "template_ok t (LoginCtx _) \<longleftrightarrow> t = ''users/login.html''"

text \<open>
  The template each route's view renders (the \<open>render\<close> calls of \<open>views.py\<close> and the
  login view); the comment and follow routes only redirect.
\<close>

fun route_template :: "route \<Rightarrow> string option" where
  "route_template IndexR = Some ''posts/index.html''"
| "route_template (GroupListR _) = Some ''posts/group_list.html''"
| "route_template (ProfileR _) = Some ''posts/profile.html''"
| "route_template (PostDetailR _) = Some ''posts/post_detail.html''"
| "route_template PostCreateR = Some ''posts/create_post.html''"
| "route_template (PostEditR _) = Some ''posts/create_post.html''"
| "route_template FollowIndexR = Some ''posts/follow.html''"
| "route_template LoginR = Some ''users/login.html''"
| "route_template (AddCommentR _) = None"
| "route_template (ProfileFollowR _) = None"
| "route_template (ProfileUnfollowR _) = None"

text \<open>The routes whose views are decorated with \<open>@login_required\<close>.\<close>

fun login_route :: "route \<Rightarrow> bool" where
  "login_route PostCreateR = True"
| "login_route (PostEditR _) = True"
| "login_route (AddCommentR _) = True"
| "login_route FollowIndexR = True"
| "login_route (ProfileFollowR _) = True"
| "login_route (ProfileUnfollowR _) = True"
| "login_route _ = False"

definition response_fits :: "route option \<Rightarrow> response \<Rightarrow> bool" where
  "response_fits rt resp \<longleftrightarrow>
     (case rt of
        None \<Rightarrow> resp = NotFound
      | Some R \<Rightarrow> (case resp of Render t c \<Rightarrow> route_template R = Some t \<and> template_ok t c | _ \<Rightarrow> True))"

text \<open>
  A page of a listing: its number is between 1 and the number of pages, it holds at
  most \<open>per_page\<close> objects, and exactly \<open>per_page\<close> unless it is the last.
\<close>

definition page_ok :: "'a page \<Rightarrow> nat \<Rightarrow> bool" where
  "page_ok p per_page \<longleftrightarrow>
     1 \<le> number p \<and> number p \<le> page_num_pages p \<and> length (object_list p) \<le> per_page \<and>
     (number p < page_num_pages p \<longrightarrow> length (object_list p) = per_page)"

definition listing_ok :: "response \<Rightarrow> bool" where
  "listing_ok resp \<longleftrightarrow>
     (case resp of
        Render _ (ListCtx p _) \<Rightarrow> page_ok p POST_ON_PAGE
      | Render _ (GroupCtx _ p _) \<Rightarrow> page_ok p POST_ON_PAGE
      | Render _ (ProfileCtx _ p _ _) \<Rightarrow> page_ok p POST_ON_PROFILE
      | _ \<Rightarrow> True)"

text \<open>Only the index is cached: every stored response is one of the index route.\<close>

definition cache_holds :: "(route option \<Rightarrow> response \<Rightarrow> bool) \<Rightarrow> world \<Rightarrow> bool" where
  "cache_holds Q w \<longleftrightarrow> (\<forall>k e. wcache w k = Some e \<longrightarrow> Q (Some IndexR) (ce_response e))"

text \<open>
  The interface between the views and the site: a property of a route's responses
  that each view has at its route, that \<open>404\<close> has where no route matches, and that
  the login page has at its route.
\<close>

abbreviation views_respect :: "(route option \<Rightarrow> response \<Rightarrow> bool) \<Rightarrow> bool" where
  "views_respect Q \<equiv>
     (\<forall>d r s n i now. Q (Some IndexR) (index d r) \<and> Q (Some (GroupListR s)) (group_posts d r s) \<and>
        Q (Some (ProfileR n)) (profile d r n) \<and> Q (Some (PostDetailR i)) (post_detail d r i) \<and>
        Q (Some PostCreateR) (snd (post_create d now r)) \<and> Q (Some (PostEditR i)) (snd (post_edit d r i)) \<and>
        Q (Some (AddCommentR i)) (snd (add_comment d now r i)) \<and> Q (Some FollowIndexR) (snd (follow_index d r)) \<and>
        Q (Some (ProfileFollowR n)) (snd (profile_follow d r n)) \<and>
        Q (Some (ProfileUnfollowR n)) (snd (profile_unfollow d r n))) \<and>
     Q None NotFound \<and> (\<forall>n. Q (Some LoginR) (Render ''users/login.html'' (LoginCtx n)))"

section \<open>From the views to the site\<close>

lemma get_page_ok:
  assumes pp: "0 < pp"
  shows "page_ok (get_page xs pp raw) pp"
proof -
  let ?n = "number (get_page xs pp raw)"
  have b: "1 \<le> ?n" "?n \<le> num_pages (length xs) pp" using number_get_page_bounds [OF pp] by auto
  have w: "?n * pp - (?n - 1) * pp = pp"
    using b(1) by (cases ?n) simp_all
  have "length (object_list (get_page xs pp raw)) = min pp (length xs - (?n - 1) * pp)"
    by (simp only: object_list_get_page [OF pp] length_slice w)
  moreover have "?n < num_pages (length xs) pp \<Longrightarrow> pp \<le> length xs - (?n - 1) * pp"
    using has_next_get_page [OF pp, of xs raw] w by (simp add: has_next_def)
  ultimately show ?thesis using b by (simp add: page_ok_def)
qed

text \<open>The views' responses, one lemma per property and view group.\<close>

lemma views_response_fits:
  "response_fits (Some IndexR) (index d r)" "response_fits (Some (GroupListR s)) (group_posts d r s)"
  "response_fits (Some (ProfileR n)) (profile d r n)" "response_fits (Some (PostDetailR i)) (post_detail d r i)"
  "response_fits (Some PostCreateR) (snd (post_create d now r))"
  "response_fits (Some (PostEditR i)) (snd (post_edit d r i))"
  "response_fits (Some (AddCommentR i)) (snd (add_comment d now r i))"
  "response_fits (Some FollowIndexR) (snd (follow_index d r))"
  "response_fits (Some (ProfileFollowR n)) (snd (profile_follow d r n))"
  "response_fits (Some (ProfileUnfollowR n)) (snd (profile_unfollow d r n))"
  by (auto simp: response_fits_def index_def group_posts_def profile_def post_detail_def post_create_def
      post_edit_def add_comment_def follow_index_def profile_follow_def profile_unfollow_def
      login_required_def get_object_or_404_def Let_def split_def
      split: option.splits get_result.splits response.splits)

lemma views_listing_ok:
  "listing_ok (index d r)" "listing_ok (group_posts d r s)" "listing_ok (profile d r n)"
  "listing_ok (post_detail d r i)" "listing_ok (snd (post_create d now r))"
  "listing_ok (snd (post_edit d r i))" "listing_ok (snd (add_comment d now r i))"
  "listing_ok (snd (follow_index d r))" "listing_ok (snd (profile_follow d r n))"
  "listing_ok (snd (profile_unfollow d r n))"
  by (auto simp: listing_ok_def index_def group_posts_def profile_def post_detail_def post_create_def
      post_edit_def add_comment_def follow_index_def profile_follow_def profile_unfollow_def
      login_required_def get_object_or_404_def Let_def split_def page_paginator_def
      get_page_ok POST_ON_PAGE_def POST_ON_PROFILE_def
      split: option.splits get_result.splits response.splits)

text \<open>
  A property the views respect holds of every response the dispatcher sends and of
  every response it stores in the cache.
\<close>

lemma dispatch_other_cache:
  "resolve (req_path r) \<noteq> Some IndexR \<Longrightarrow> wcache (fst (dispatch w r)) = wcache w"
  by (simp add: dispatch_def on_db_def Let_def split: option.splits route.splits)

lemma dispatch_other_response:
  assumes vr: "views_respect Q"
  shows "resolve (req_path r) \<noteq> Some IndexR \<Longrightarrow> Q (resolve (req_path r)) (snd (dispatch w r))"
  using vr by (simp add: dispatch_def on_db_def Let_def split: option.splits route.splits)

lemma cached_index_keeps:
  assumes index: "\<And>d r. Q (Some IndexR) (index d r)" and c: "cache_holds Q w"
  shows "Q (Some IndexR) (snd (cached_index (wcache w) (wdb w) (clock w) r)) \<and>
         cache_holds Q (w\<lparr>wcache := fst (cached_index (wcache w) (wdb w) (clock w) r)\<rparr>)"
proof -
  have c': "\<And>k e. wcache w k = Some e \<Longrightarrow> Q (Some IndexR) (ce_response e)"
    using c unfolding cache_holds_def by blast
  show ?thesis
  proof (cases "req_method r = POST")
    case True
    then show ?thesis using index c by (simp add: cached_index_def cache_page_def)
  next
    case False
    show ?thesis
    proof (cases "cache_get (wcache w) (clock w) (cache_key_of ''index_page'' r)")
      case None
      show ?thesis
        unfolding cached_index_miss [OF False None] cache_holds_def
        using index c' by (simp add: cache_set_def)
    next
      case (Some resp)
      then obtain e where e: "wcache w (cache_key_of ''index_page'' r) = Some e" "resp = ce_response e"
        by (auto simp: cache_get_def split: option.splits if_splits)
      then have "Q (Some IndexR) resp" using c' [OF e(1)] by simp
      then show ?thesis using c unfolding cached_index_hit [OF False Some] by (simp add: cache_holds_def)
    qed
  qed
qed

lemma dispatch_keeps:
  assumes vr: "views_respect Q"
    and c: "cache_holds Q w"
  shows "Q (resolve (req_path r)) (snd (dispatch w r)) \<and> cache_holds Q (fst (dispatch w r))"
proof (cases "resolve (req_path r) = Some IndexR")
  case True
  then show ?thesis
    using cached_index_keeps [of Q w r] vr c by (simp add: dispatch_index)
next
  case False
  then show ?thesis
    using dispatch_other_cache [OF False, of w] dispatch_other_response [OF vr False, of w] c
    by (simp add: cache_holds_def)
qed

lemma reachable_cache_holds:
  assumes vr: "views_respect Q"
  shows "reachable w \<Longrightarrow> cache_holds Q w"
proof (induction rule: reachable.induct)
  case init
  then show ?case by (simp add: cache_holds_def init_world_def cache_clear_def)
next
  case (step w w')
  have same: "\<And>w'. wcache w' = wcache w \<Longrightarrow> cache_holds Q w'"
    using step.IH unfolding cache_holds_def by simp
  from step.hyps(2) show ?case
  proof (cases rule: app_step.cases)
    case (request r)
    then show ?thesis using dispatch_keeps [OF vr step.IH, of r] by simp
  next
    case clear
    then show ?thesis by (simp add: cache_holds_def cache_clear_def)
  qed (simp_all add: same)
qed

lemma response_fits_respected: "views_respect response_fits"
proof -
  have "response_fits None NotFound" "\<And>n. response_fits (Some LoginR) (Render ''users/login.html'' (LoginCtx n))"
    by (simp_all add: response_fits_def)
  then show ?thesis by (simp add: views_response_fits)
qed

lemma listing_ok_respected: "views_respect (\<lambda>_. listing_ok)"
proof -
  have "listing_ok NotFound" "\<And>n. listing_ok (Render ''users/login.html'' (LoginCtx n))"
    by (simp_all add: listing_ok_def)
  then show ?thesis by (simp add: views_listing_ok)
qed

text \<open>An anonymous request for a protected route is sent to the login page and changes nothing.\<close>

lemma dispatch_login_route:
  assumes ok: "route_ok R" and lr: "login_route R" and anon: "req_user r = None"
    and path: "req_path r = route_path R" and q: "req_GET r = []"
  shows "dispatch w r = (w, Redirect (LoginUrl (route_path R)))"
proof -
  have res: "resolve (req_path r) = Some R" using resolve_route_path [OF ok] path by simp
  have fp: "full_path r = route_path R" using q path by simp
  show ?thesis
    using lr res fp anon
    by (cases R) (simp_all add: dispatch_def on_db_def Let_def post_create_def post_edit_def
        add_comment_def follow_index_def profile_follow_def profile_unfollow_def)
qed

end
