(* ===== verification/TestRuns.thy ===== *)
theory TestRuns
  imports Scenarios Client
begin

text \<open>
  The remaining test methods of \<open>PostsURLTests\<close>, \<open>PostsViewsTests\<close> and
  \<open>PaginatorViewsTest\<close> as runs of the site, in the style of \<open>Scenarios\<close>: the
  requests of one test share one world (one cache), a \<open>follow=True\<close> request goes
  through the client's redirect loop, and \<open>assertRedirects\<close> fetches the location
  with the same client after the test's requests. Related objects
  (\<open>post.author\<close>, \<open>post.group\<close>) are read from the store by key; a model
  instance compares equal to another by primary key.
\<close>

section \<open>Related objects\<close>

definition related_author :: "db \<Rightarrow> post \<Rightarrow> user option" where
  "related_author d p = find (\<lambda>u. user_id u = post_author p) (users d)"

definition related_group :: "db \<Rightarrow> post \<Rightarrow> group option" where
  "related_group d p =
     (case post_group p of None \<Rightarrow> None | Some g \<Rightarrow> find (\<lambda>x. group_id x = g) (groups d))"

section \<open>\<open>PostsURLTests\<close>\<close>

text \<open>
  \<open>test_urls_exists\<close>: for each address, the guest's status after following
  redirects and the user's status; a \<open>RedirectCycleError\<close> ends the test with its
  message.
\<close>

fun urls_exists_run :: "world \<Rightarrow> string list \<Rightarrow> (string + nat \<times> nat) list" where
  "urls_exists_run w [] = []"
| "urls_exists_run w (address # rest) =
     (case client_get_follow w None address [] of
        Inl (RedirectCycleError msg _ _) \<Rightarrow> [Inl msg]
      | Inr (w1, guest_response, _) \<Rightarrow>
          (let (w2, auth_response) = dispatch w1 (client_get (Some test_user) address [])
           in Inr (status_code guest_response, status_code auth_response) # urls_exists_run w2 rest))"

definition test_urls_exists :: "(string + nat \<times> nat) list" where
  "test_urls_exists =
     urls_exists_run (world_of urls_tests_db 0)
       [''/'', ''/group/'' @ slug test_group @ ''/'', ''/profile/'' @ username test_user @ ''/'',
        ''/posts/'' @ py_str_int (int (post_id forms_tests_post)) @ ''/'']"

text \<open>
  \<open>test_post_edit_url_exists\<close>: the guest's response, the status of its location
  fetched by \<open>assertRedirects\<close>, the author's status and the other user's response.
\<close>

definition test_post_edit_url_exists :: "response \<times> nat \<times> nat \<times> response" where
  "test_post_edit_url_exists =
     (let w0 = world_of urls_tests_db 0;
          address = route_path (PostEditR (post_id forms_tests_post));
          (w1, guest_response) = dispatch w0 (client_get None address []);
          (w2, auth_response) = dispatch w1 (client_get (Some test_user) address []);
          (w3, auth_not_author_response) = dispatch w2 (client_get (Some test_user_not_author) address []);
          fetched = (case guest_response of Redirect t \<Rightarrow> status_code (snd (get_location w3 None t)) | _ \<Rightarrow> 0)
      in (guest_response, fetched, status_code auth_response, auth_not_author_response))"

section \<open>\<open>PostsViewsTests\<close>\<close>

text \<open>\<open>test_posts_urls_uses_correct_templates\<close>: the template of each address for the user.\<close>

definition test_posts_urls_uses_correct_templates :: "string option list" where
  "test_posts_urls_uses_correct_templates =
     map template_of
       (run_gets (world_of views_tests_db 0)
          (map (\<lambda>u. client_get (Some test_user) u [])
             [route_path IndexR, route_path (GroupListR (slug test_group_1)),
              route_path (ProfileR (username test_user)), route_path (PostDetailR (post_id views_tests_post)),
              route_path PostCreateR, route_path (PostEditR (post_id views_tests_post))]))"

text \<open>
  The post a page shows: \<open>response.context['post']\<close> on the detail page,
  \<open>response.context['page_obj'][0]\<close> elsewhere (an \<open>IndexError\<close>, here \<open>None\<close>, on an
  empty page).
\<close>

definition context_post :: "response \<Rightarrow> post option" where
  "context_post resp =
     (case resp of
        Render _ (DetailCtx p _ _ _) \<Rightarrow> Some p
      | _ \<Rightarrow> (case page_objects resp of [] \<Rightarrow> None | p # _ \<Rightarrow> Some p))"

text \<open>
  \<open>test_posts_main_pages_show_correct_context\<close>: for the index, the first group,
  the profile and the detail page, the post shown with its author's name, its
  group's title and its author's post count; and \<open>Post.objects.count()\<close>.
\<close>

definition test_posts_main_pages_show_correct_context ::
  "(post option \<times> string option \<times> string option \<times> nat option) list \<times> nat" where
  "test_posts_main_pages_show_correct_context =
     (let w = world_of views_tests_db 0;
          d = wdb w;
          post_count = length (posts d);
          resps = run_gets w
                    (map (\<lambda>u. client_get (Some test_user) u [])
                       [route_path IndexR, route_path (GroupListR (slug test_group_1)),
                        route_path (ProfileR (username test_user)),
                        route_path (PostDetailR (post_id views_tests_post))])
      in (map (\<lambda>resp.
                 case context_post resp of
                   None \<Rightarrow> (None, None, None, None)
                 | Some p \<Rightarrow>
                     (Some p, map_option username (related_author d p), map_option title (related_group d p),
                      map_option (\<lambda>a. length (author_posts_qs d (user_id a))) (related_author d p)))
            resps,
          post_count))"

text \<open>
  \<open>response.context.get('form').fields.get(value)\<close>: a field of the form a page
  renders (\<open>None\<close> where the page has no form or the form no such field).
\<close>

definition form_field :: "response \<Rightarrow> string \<Rightarrow> field_class option" where
  "form_field resp name = (case resp of Render _ (FormCtx _ _) \<Rightarrow> map_of post_form_fields name | _ \<Rightarrow> None)"

text \<open>
  \<open>test_posts_create_edit_pages_show_correct_context\<close>: on the create and the
  edit page, whether \<open>text\<close> is a \<open>CharField\<close> and \<open>group\<close> a \<open>ChoiceField\<close>.
\<close>

definition test_posts_create_edit_pages_show_correct_context :: "bool list" where
  "test_posts_create_edit_pages_show_correct_context =
     concat
       (map (\<lambda>resp.
               map (\<lambda>(value, expected).
                      case form_field resp value of None \<Rightarrow> False | Some f \<Rightarrow> field_isinstance f expected)
                 [(''text'', CharField), (''group'', ChoiceField)])
          (run_gets (world_of views_tests_db 0)
             (map (\<lambda>u. client_get (Some test_user) u [])
                [route_path PostCreateR, route_path (PostEditR (post_id views_tests_post))])))"

text \<open>
  \<open>test_posts_correct_appear\<close> and \<open>test_posts_correct_not_appear\<close>: whether the
  post (by primary key) is on the index, the first group and the profile, and on
  the second group.
\<close>

definition test_posts_correct_appear :: "bool list" where
  "test_posts_correct_appear =
     map (\<lambda>resp. list_ex (\<lambda>p. post_id p = post_id views_tests_post) (page_objects resp))
       (run_gets (world_of views_tests_db 0)
          (map (\<lambda>u. client_get (Some test_user) u [])
             [route_path IndexR, route_path (GroupListR (slug test_group_1)),
              route_path (ProfileR (username test_user))]))"

definition test_posts_correct_not_appear :: bool where
  "test_posts_correct_not_appear =
     list_ex (\<lambda>p. post_id p = post_id views_tests_post)
       (page_objects (snd (dispatch (world_of views_tests_db 0)
          (client_get (Some test_user) (route_path (GroupListR (slug test_group_2))) []))))"

section \<open>\<open>PaginatorViewsTest.test_paginator_show_correct_context\<close>\<close>

text \<open>
  For every post on the first page of the index and of the group: its author's
  name, its group's title and its text, beside the values the test expects.
\<close>

definition test_paginator_show_correct_context ::
  "((string option \<times> string option \<times> string) \<times> string \<times> string \<times> string) list" where
  "test_paginator_show_correct_context =
     (let w = world_of paginator_tests_db 0;
          d = wdb w;
          resps = run_gets w
                    (map (\<lambda>u. client_get (Some test_user) u [])
                       [route_path IndexR, route_path (GroupListR (slug test_group))])
      in concat
           (map (\<lambda>resp.
                   map (\<lambda>p. ((map_option username (related_author d p), map_option title (related_group d p),
                               post_text p),
                              (''test_user'', ''Test group'', ''Test post '' @ py_str_int (int (post_id p)))))
                     (page_objects resp))
              resps))"

end
