(* ===== verification/Spec2Isabelle.thy ===== *)
theory Spec2Isabelle
  imports Scenarios Schema Client Responses TestRuns
begin

text \<open>
  \<^bold>\<open>A verification library for yatube's \<open>posts\<close> app.\<close>

  \<^bold>\<open>The program.\<close> yatube is a Django blog. The code under \<open>src/\<close> is the view
  module \<open>src/yatube/posts/views.py\<close> (eleven views: the listings \<open>index\<close>,
  \<open>group_posts\<close>, \<open>profile\<close> and \<open>follow_index\<close>, the detail page \<open>post_detail\<close>,
  and the writing views \<open>post_create\<close>, \<open>post_edit\<close>, \<open>add_comment\<close>,
  \<open>profile_follow\<close>, \<open>profile_unfollow\<close>), the migration
  \<open>migrations/0003_auto_20230118_1654.py\<close> (the nullable, cascading \<open>Post.group\<close>),
  and three test modules under \<open>tests/\<close>. The views call the ORM (models
  \<open>User\<close>, \<open>Group\<close>, \<open>Post\<close>, \<open>Comment\<close>, \<open>Follow\<close>), Django's forms
  (\<open>PostForm\<close>, \<open>CommentForm\<close>), the paginator helper \<open>core.views.page_paginator\<close>,
  \<open>login_required\<close>, \<open>get_object_or_404\<close>, \<open>render\<close>, \<open>redirect\<close> and \<open>cache_page\<close>.
  Those collaborators are not under \<open>src/\<close>; they are modelled from the spec and
  from Django 2.2's documented behaviour, and marked so in the manifest.

  \<^bold>\<open>The theories.\<close>
  \<^item> \<open>Prelude\<close>: identifier types, the named collections \<open>store_simps\<close>,
    \<open>inv_pres\<close>, \<open>view_simps\<close>, and list lemmas: Python slices and their
    concatenation into pages, ceiling division, the stable newest-first sort
    \<open>desc_by\<close>, join multiplicities \<open>join_rows\<close>, and the ORM's \<open>get\<close> as
    \<open>orm_get\<close> with its three outcomes.
  \<^item> \<open>PyText\<close>: \<open>str.strip\<close> and \<open>int(str)\<close> on ASCII (with PEP 515 underscores), and
    \<open>str(int)\<close>; lemma \<open>parse_py_int_py_str_int\<close> is the round trip.
  \<^item> \<open>Store\<close>: the tables as records in lists (\<open>db\<close>), the queries the views issue,
    the writes, the cascade of migration 0003 (\<open>delete_group\<close>); the invariants
    \<open>store_inv\<close> (unique keys, resolving foreign keys) and \<open>follow_inv\<close> (no duplicate,
    no self follow) with one preservation lemma per write (collection \<open>inv_pres\<close>).
  \<^item> \<open>Http\<close>: the request record (\<open>request.user\<close>, method, path, \<open>GET\<close>,
    \<open>POST\<close>, \<open>FILES\<close>), \<open>QueryDict.get\<close> (last value wins),
    \<open>get_full_path\<close> (the login redirect's \<open>next\<close>), redirect targets.
  \<^item> \<open>Paginator\<close>: \<open>Paginator.validate_number\<close>, \<open>page\<close>, \<open>get_page\<close>,
    \<open>page_paginator\<close>: which page every \<open>?page=\<close> value selects, its slice, and that
    the pages partition the list.
  \<^item> \<open>Forms\<close>: \<open>PostForm\<close> and \<open>CommentForm\<close> binding and field cleaning (required
    stripped text, group by primary key, image upload) and the classes of
    \<open>PostForm\<close>'s fields.
  \<^item> \<open>Views\<close>: one definition per view of \<open>views.py\<close>, with \<open>get_object_or_404\<close>
    and \<open>login_required\<close> made explicit; responses are \<open>Render template context\<close>,
    \<open>Redirect url\<close>, \<open>NotFound\<close>, \<open>ServerError\<close> (an uncaught exception). The
    lemmas take each view through its branches and show that the writing views keep
    \<open>store_inv\<close> for well-formed requests (\<open>req_ok\<close>).
  \<^item> \<open>Fixtures\<close>: the constants of the test modules, the stores built by the
    tests' \<open>setUpClass\<close> and the test client's requests; the witnesses below
    evaluate the theorems on them.
  \<^item> \<open>Cache\<close>: the \<open>@cache_page(1 * 20, key_prefix='index_page')\<close> decoration of
    \<open>index\<close> (\<open>views.py\<close> line 15) as \<open>cached_index\<close>: Django's cache middleware
    (\<open>GET\<close>/\<open>HEAD\<close> only, successful responses stored) over a cache keyed by the
    prefix, the path and the query; not by the viewer, as the decorator learns its
    key before \<open>SessionMiddleware\<close> adds \<open>Vary: Cookie\<close>. Entries are live while
    \<open>now < stored + 20\<close>; \<open>cache.clear()\<close> empties the cache.
  \<^item> \<open>App\<close>: the URL patterns of the \<open>posts\<close> app (\<open>resolve\<close>, their reversal
    \<open>route_path\<close>, the redirect locations \<open>url_path\<close>), the dispatcher \<open>dispatch\<close>
    calling each view on a \<open>world\<close> of database, cache and clock, the steps of the
    running site as the inductive relation \<open>app_step\<close> (requests handled one at a
    time, time passing, cache clears, sign-ups, the administrator's writes) with
    its \<open>reachable\<close> worlds, and an interleaved semantics \<open>conc_step\<close> in which
    \<open>profile_follow\<close> runs as its check (\<open>follow_check\<close>) and, later, its create
    (\<open>follow_commit\<close>), as two concurrent requests run it.
  \<^item> \<open>Scenarios\<close>: the test methods \<open>test_posts_index_cache\<close>,
    \<open>test_index_correct_paginator_work\<close>, the three tests of \<open>PostsFormsTests\<close>,
    the four of \<open>FollowTests\<close> and three of \<open>PostsURLTests\<close> as runs of the dispatcher from the
    test classes' worlds, returning what each test asserts on; and the
    \<open>FollowTests\<close> world as a reachable one (two sign-ups). Each run starts with
    an empty cache, as \<open>setUp\<close> clears it (\<open>PostsFormsTests\<close> does not, but never
    requests the index, the only cached page).
  \<^item> \<open>Schema\<close>: migration 0003 as an operation on a schema (\<open>apply_migration\<close>,
    Django's \<open>MigrationExecutor.apply_migration\<close>: its \<open>AlterField\<close> applied, then the
    migration recorded as applied) and \<open>Group.delete()\<close> under
    each \<open>on_delete\<close> option as Django's \<open>Collector\<close> performs it
    (\<open>orm_delete_group\<close>), deleting referencing posts one primary key at a time.
  \<^item> \<open>Client\<close>: the test client's \<open>follow=True\<close> loop \<open>handle_redirects\<close>
    (\<open>Client._handle_redirects\<close>), with its \<open>RedirectCycleError\<close> on a repeated
    location or a chain longer than 20, and the status codes the tests read.
  \<^item> \<open>Responses\<close>: what a response promises, indexed by the route its path
    resolves to (\<open>response_fits\<close>: an unresolved path is a 404; a rendered page uses
    the template of its route's view, \<open>route_template\<close>, with the context that
    template reads, \<open>template_ok\<close>), what a listing page promises its reader
    (\<open>listing_ok\<close>), the routes behind \<open>@login_required\<close> (\<open>login_route\<close>), and the
    interface \<open>views_respect Q\<close>: a route-indexed predicate on responses that every
    view respects at its route is respected by \<open>dispatch\<close> in every reachable world,
    cached responses included (\<open>Responses.dispatch_keeps\<close>).
  \<^item> \<open>TestRuns\<close>: the remaining test methods (\<open>test_urls_exists\<close> with
    \<open>follow=True\<close>, \<open>test_post_edit_url_exists\<close> with the location
    \<open>assertRedirects\<close> fetches, the five context and template tests of
    \<open>PostsViewsTests\<close>, \<open>test_paginator_show_correct_context\<close>), each as one world
    threaded through the test's requests. These runs and those of \<open>Scenarios\<close> are
    evaluated in the section on the repository's tests below, as a check of the
    model against the tests' own expectations; the claims are general statements
    that the tests instantiate.

  \<^bold>\<open>State and effects.\<close> A view is a function of the store, the request and the URL
  arguments; a writing view also takes the clock (for \<open>auto_now_add\<close>) and returns
  the new store with its response. Exceptions are values: \<open>get_result\<close> for the
  ORM's \<open>get\<close>, \<open>response + 'a\<close> for \<open>get_object_or_404\<close>, \<open>form_error list + 'a\<close>
  for form cleaning, \<open>store_error + 'a\<close> for unique constraints. Every definition is
  executable; the witnesses evaluate them with \<open>simp\<close> or \<open>code_simp\<close>. No recursion of the model
  needs fuel: the recursive functions (\<open>nat_digits\<close>, \<open>no_double_underscore\<close>,
  \<open>split_on\<close>, \<open>route_path\<close>, \<open>run_gets\<close>) terminate by \<open>fun\<close>'s own measure, and
  the client's redirect loop \<open>handle_redirects\<close>, which need not be structural, by
  the measure \<open>21 - length chain\<close>: every hop lengthens the chain, and a chain of
  more than 20 stops the loop. The running
  site is a world record (\<open>wdb\<close>, \<open>wcache\<close>, \<open>clock\<close>); requests read the clock,
  and time only moves forward (\<open>tick\<close>). Timestamps are seconds as \<open>nat\<close>; the
  cache timeout is the decorator's \<open>1 * 20\<close>.

  \<^bold>\<open>What the theorems below show.\<close> The follow relation the views maintain stays a
  set without self loops (C1, C2), and the feed is the posts of followed authors
  (C3); unfollowing an author not followed is an uncaught exception (C4),
  unfollowing a followed one removes the relation (C5); a follow and then an
  unfollow change the feed by exactly that author's posts (C26) and set and clear
  the profile's \<open>following\<close> flag (C32). Protected views redirect anonymous users
  (C6), and a guest following such a link lands once on the login page whose
  \<open>next\<close> leads back (C28); the public pages render for everyone (C27).
  Comments are added or silently dropped (C7, C8); only authors edit (C9), and an
  author's edit changes the post in place (C30); a new post is listed where it
  belongs and nowhere else (C10). The index serves the requested page and its slice
  (C11), offers a next page exactly when posts remain (C12), and its pages
  concatenate back to all posts (C13); the group page shows its group's posts
  (C29). Unknown objects give 404 (C14); \<open>is_edit\<close> marks the author (C15); every
  writing view and the group cascade keep the store invariant (C16, C18). The index
  cache returns the stored page unchanged for 20 seconds whatever happens to the
  data (C19), renders again after that (C20), serves the page stored for one viewer
  to every viewer of the URL (C21), and \<open>test_posts_index_cache\<close> passes whenever
  its two first requests are less than 20 seconds apart (C22). Every reachable
  world of the site keeps both invariants and a cache bounded by the timeout (C23,
  rule induction over \<open>app_step\<close>); but with follow requests interleaved the
  check-then-create of \<open>profile_follow\<close> lets two requests create the same row
  (C24), after which the relation can never be unfollowed (C25) and the feed lists
  the author's posts twice (C17). Under the schema migration 0003 produces, the
  ORM's group deletion is the store's \<open>delete_group\<close> (C31, a refinement). The
  client's \<open>follow=True\<close> loop returns on every response of the site after at most two
  redirects (C33). In every reachable world each response fits its route, its
  template and its context (C34), each listing page is numbered within its range
  and holds at most 10 posts, exactly 10 unless last (C35), and 20 seconds after any
  moment an index request is rendered from the current database (C36).
  \<open>App.resolve_route_path\<close> shows that the URL patterns resolve what they reverse
  to, and \<open>App.profile_follow_two_phase\<close> that the two phases of the interleaved
  semantics, run without interruption, are the view.

  \<^bold>\<open>Modelling choices.\<close> Ties in \<open>-pub_date\<close> keep table order (the database leaves
  them unspecified). Comments are listed newest first (\<open>Comment.Meta\<close> is not in
  the sources). \<open>Follow\<close> has no unique constraint in the model: the spec leaves
  it to an unseen schema, and the views' own check is what the theorems rely on.
  Strings are ASCII: \<open>str.strip\<close> and \<open>int\<close> read ASCII whitespace and digits only.
  The image field's clear checkbox and storage renaming on name clashes are not
  modelled; an upload is an image or not.

  \<^bold>\<open>Not modelled.\<close> Template rendering (a response is its template and context;
  equal contexts give equal content), sessions and authentication (a request
  carries its user), file storage, the admin site beyond creating and deleting
  rows, the \<open>users\<close> and \<open>about\<close> apps beyond sign-up and the login location,
  \<open>APPEND_SLASH\<close> redirects, percent-encoding of URLs, and the database's
  transactions (the interleaved semantics has none, as the views use none).
  The URL patterns, the cache middleware and the ORM are not under \<open>src/\<close> and
  are modelled from the spec and Django's documented behaviour. Migrations 0001
  and 0002 are not under \<open>src/\<close>: their schema is the one the store models, and
  migration 0003 is applied to any schema that has \<open>Post.group\<close>; the migration
  planner (dependency order, \<open>NodeNotFoundError\<close>) is not modelled. Only the one
  writing view whose check-then-act race the spec names, \<open>profile_follow\<close>, is split into phases
  in the interleaved semantics; the other writing views (each one write after its
  reads, e.g. \<open>add_comment\<close>'s post lookup before its insert) run atomically there.
\<close>

text \<open>
  C1. A follow request never breaks the follow invariant: after \<open>profile_follow\<close> there is still at most one \<open>Follow\<close> row per (user, author) pair and no row with user = author.
\<close>

theorem profile_follow_keeps_follow_inv:
  "follow_inv d \<Longrightarrow> follow_inv (fst (profile_follow d r name))"
  by (auto simp: profile_follow_def login_required_def get_object_or_404_def Let_def
      insert_follow_follow_inv split: option.splits get_result.splits)

text \<open>
  C2. After an authenticated follow request for an existing author, the number of \<open>Follow(user, author)\<close> rows is exactly 1, or 0 when the user asked to follow themselves: a repeated follow does not add a row and a self follow is refused.
\<close>

theorem profile_follow_count:
  assumes "follow_inv d" and "req_user r = Some u" and "user_by_name d name = Found a"
  shows "follow_count (fst (profile_follow d r name)) (user_id u) (user_id a) =
           (if user_id u = user_id a then 0 else 1)"
  using assms follow_count_self [OF assms(1)] follow_exists_count [OF assms(1)]
  by (auto simp: profile_follow_def Let_def follow_count_insert follow_exists_def)

text \<open>
  C3. While the follow invariant holds, the follow feed \<open>follow_index\<close> renders the requested page of exactly the posts whose author the requesting user follows, newest first: the join \<open>author__following__user\<close> refines the abstract selection.
\<close>

theorem follow_index_shows_followed:
  assumes "follow_inv d" and "req_user r = Some u"
  shows "follow_index d r =
           (d, Render ''posts/follow.html''
                 (ListCtx (page_paginator r
                    (desc_by pub_date (filter (\<lambda>p. follow_exists d (user_id u) (post_author p)) (posts d)))
                    POST_ON_PAGE) CHAR_IN_POST))"
  using assms by (simp add: follow_index_def feed_qs_follow_inv)

text \<open>
  C4. Unfollowing an author the user does not follow is an uncaught \<open>Follow.DoesNotExist\<close> (a server error), and the store is unchanged: \<open>profile_unfollow\<close> does not guard the lookup.
\<close>

theorem profile_unfollow_not_following:
  assumes "req_user r = Some u" and "user_by_name d name = Found a"
    and "\<not> follow_exists d (user_id u) (user_id a)"
  shows "profile_unfollow d r name = (d, ServerError ''Follow.DoesNotExist'')"
  using assms by (simp add: profile_unfollow_def follow_get_not_exists)

text \<open>
  C5. Unfollowing a followed author deletes that one relation, removes it from the store and redirects to the author's profile.
\<close>

theorem profile_unfollow_following:
  assumes "follow_inv d" and "req_user r = Some u" and "user_by_name d name = Found a"
    and "follow_exists d (user_id u) (user_id a)"
  shows "snd (profile_unfollow d r name) = Redirect (ProfileUrl name) \<and>
         \<not> follow_exists (fst (profile_unfollow d r name)) (user_id u) (user_id a) \<and>
         length (follows (fst (profile_unfollow d r name))) = length (follows d) - 1"
proof -
  let ?f = "\<lparr>follow_user = user_id u, follow_author = user_id a\<rparr>"
  have g: "follow_get d (user_id u) (user_id a) = Found ?f"
    using assms(1,4) by (rule follow_get_exists)
  have mem: "?f \<in> set (follows d)"
    using assms(4) by (auto simp: follow_exists_def follow_count_def follow_match_eq filter_empty_conv)
  have "distinct (follows d)" using assms(1) by (simp add: follow_inv_def)
  then have "?f \<notin> set (remove1 ?f (follows d))" by simp
  then have "\<not> follow_exists (delete_follow d ?f) (user_id u) (user_id a)"
    by (auto simp: follow_exists_def follow_count_def delete_follow_def follow_match_eq filter_empty_conv)
  then show ?thesis
    using assms(2,3) g mem by (simp add: profile_unfollow_def delete_follow_def length_remove1)
qed

text \<open>
  C6. Every view decorated with \<open>login_required\<close> answers an anonymous request with a redirect to the login page whose \<open>next\<close> is the request's own path, and changes nothing.
\<close>

theorem protected_views_redirect_anonymous:
  assumes "req_user r = None"
  shows "post_create d now r = (d, Redirect (LoginUrl (full_path r))) \<and>
         post_edit d r i = (d, Redirect (LoginUrl (full_path r))) \<and>
         add_comment d now r i = (d, Redirect (LoginUrl (full_path r))) \<and>
         follow_index d r = (d, Redirect (LoginUrl (full_path r))) \<and>
         profile_follow d r name = (d, Redirect (LoginUrl (full_path r))) \<and>
         profile_unfollow d r name = (d, Redirect (LoginUrl (full_path r)))"
  using assms
  by (simp add: post_create_def post_edit_def add_comment_def follow_index_def
      profile_follow_def profile_unfollow_def)

text \<open>
  C7. An authenticated comment with non-blank text on an existing post appends exactly one comment, with the stripped text, the requesting user as author, the post and the current time, and redirects to the post detail page.
\<close>

theorem add_comment_creates_comment:
  assumes "req_user r = Some u" and "post_by_id d i = Found p"
    and "qd_get (req_POST r) ''text'' = Some t" and "py_strip t \<noteq> []"
  shows "add_comment d now r i =
           (d\<lparr>comments := comments d @ [\<lparr>comment_id = next_cid d, comment_post = i,
                 comment_author = user_id u, comment_text = py_strip t, created = now\<rparr>],
               next_cid := Suc (next_cid d)\<rparr>,
            Redirect (PostDetailUrl i))"
proof -
  have "post_id p = i"
    using assms(2) unfolding post_by_id_def by (auto dest: orm_get_Found_mem)
  moreover have "form_cleaned (comment_form r) = Some (py_strip t)"
    using assms(3,4) qd_get_Some_ne [OF assms(3)]
    by (simp add: comment_form_def form_cleaned_def clean_char_def Let_def)
  ultimately show ?thesis
    using assms(1,2) by (simp add: add_comment_def insert_comment_def Let_def)
qed

text \<open>
  C8. An authenticated comment submission whose form does not validate is dropped silently: the store is unchanged and the response is the same redirect to the post detail page.
\<close>

theorem add_comment_invalid_dropped:
  assumes "req_user r = Some u" and "post_by_id d i = Found p"
    and "form_cleaned (comment_form r) = None"
  shows "add_comment d now r i = (d, Redirect (PostDetailUrl i))"
  using assms by (simp add: add_comment_def)

text \<open>
  C9. A user who is not the author of a post and requests its edit page is redirected to the post detail page, and the store is unchanged.
\<close>

theorem post_edit_non_author:
  assumes "req_user r = Some u" and "post_by_id d i = Found p" and "post_author p \<noteq> user_id u"
  shows "post_edit d r i = (d, Redirect (PostDetailUrl i))"
  using assms by (simp add: post_edit_def)

text \<open>
  C10. A valid post submission creates a new post of the requesting user, redirects to the user's profile, and the new post appears in the index listing, in the author's listing, and in the listing of its group and of no other group.
\<close>

theorem post_create_visible:
  assumes "store_inv d" and "req_user r = Some u" and "req_method r = POST"
    and "form_cleaned (post_form d r None) = Some f"
  shows "snd (post_create d now r) = Redirect (ProfileUrl (username u)) \<and>
         (\<exists>p. p \<notin> set (posts d) \<and> post_text p = pf_text f \<and>
              p \<in> set (all_posts (fst (post_create d now r))) \<and>
              p \<in> set (author_posts_qs (fst (post_create d now r)) (user_id u)) \<and>
              (\<forall>g. p \<in> set (group_posts_qs (fst (post_create d now r)) g) \<longleftrightarrow> pf_group f = Some g))"
proof -
  let ?p = "snd (insert_post d (user_id u) (pf_text f) (pf_group f) (pf_image f) now)"
  have create: "post_create d now r = (fst (insert_post d (user_id u) (pf_text f) (pf_group f) (pf_image f) now),
                   Redirect (ProfileUrl (username u)))"
    using assms by (simp add: post_create_def insert_post_def Let_def)
  have "next_pid d \<notin> set (map post_id (posts d))"
    using assms(1) by (intro fresh_key) (simp add: store_inv_def)
  show ?thesis
  proof (intro conjI exI)
    show "snd (post_create d now r) = Redirect (ProfileUrl (username u))" using create by simp
  qed (use create \<open>next_pid d \<notin> set (map post_id (posts d))\<close> in
        \<open>auto simp: insert_post_def Let_def all_posts_def author_posts_qs_def group_posts_qs_def
             dest: imageI [where f = post_id]\<close>)
qed

text \<open>
  C11. The index view renders the page the \<open>page\<close> parameter selects: page 1 when it is absent or not an integer, itself when it lies in \<open>1..num_pages\<close>, the last page otherwise (zero and negative numbers included); the page holds the posts at positions \<open>[(n-1)*10, n*10)\<close> of the newest-first list.
\<close>

theorem index_serves_requested_page:
  "let pg = page_paginator r (all_posts d) POST_ON_PAGE; np = num_pages (length (posts d)) POST_ON_PAGE
   in index d r = Render ''posts/index.html'' (ListCtx pg CHAR_IN_POST) \<and>
      number pg = (case Option.bind (qd_get (req_GET r) ''page'') parse_py_int of
                     None \<Rightarrow> 1
                   | Some k \<Rightarrow> if 1 \<le> k \<and> k \<le> int np then nat k else np) \<and>
      object_list pg = slice (all_posts d) ((number pg - 1) * POST_ON_PAGE) (number pg * POST_ON_PAGE)"
  using number_get_page [OF POST_ON_PAGE_pos, of "all_posts d"]
    object_list_get_page [OF POST_ON_PAGE_pos, of "all_posts d"]
  unfolding length_all_posts Let_def by (simp add: index_def page_paginator_def)

text \<open>
  C12. The page the index renders offers a next page exactly when posts remain after it: \<open>page_obj.has_next\<close> holds iff the newest-first list of all posts goes on past the page's last position.
\<close>

theorem index_has_next:
  "case index d r of
     Render _ (ListCtx pg _) \<Rightarrow> (has_next pg \<longleftrightarrow> drop (number pg * POST_ON_PAGE) (all_posts d) \<noteq> [])
   | _ \<Rightarrow> False"
  using has_next_get_page [OF POST_ON_PAGE_pos, of "all_posts d"]
  by (simp add: index_def page_paginator_def not_le)

text \<open>
  C13. Requesting \<open>?page=1\<close> up to \<open>?page=num_pages\<close> from the index (the page number printed by \<open>str\<close> and read back by \<open>int\<close>) and concatenating the pages gives back all posts, newest first, each exactly once.
\<close>

theorem index_pages_roundtrip:
  "concat (map (\<lambda>k. case index d (r\<lparr>req_GET := [(''page'', py_str_int (int k))]\<rparr>) of
                       Render _ (ListCtx pg _) \<Rightarrow> object_list pg | _ \<Rightarrow> [])
     [1..<Suc (num_pages (length (posts d)) POST_ON_PAGE)]) = all_posts d"
proof -
  let ?xs = "all_posts d"
  have "map (\<lambda>k. case index d (r\<lparr>req_GET := [(''page'', py_str_int (int k))]\<rparr>) of
                   Render _ (ListCtx pg _) \<Rightarrow> object_list pg | _ \<Rightarrow> [])
          [1..<Suc (num_pages (length (posts d)) POST_ON_PAGE)]
      = map (\<lambda>k. object_list (page ?xs POST_ON_PAGE k)) [1..<Suc (num_pages (length ?xs) POST_ON_PAGE)]"
  proof (rule map_cong)
    fix k assume "k \<in> set [1..<Suc (num_pages (length ?xs) POST_ON_PAGE)]"
    then have "1 \<le> k" "k \<le> num_pages (length ?xs) POST_ON_PAGE" by auto
    then show "(case index d (r\<lparr>req_GET := [(''page'', py_str_int (int k))]\<rparr>) of
                   Render _ (ListCtx pg _) \<Rightarrow> object_list pg | _ \<Rightarrow> [])
               = object_list (page ?xs POST_ON_PAGE k)"
      by (simp add: index_def page_paginator_def qd_get_def get_page_str)
  qed simp
  also have "concat \<dots> = ?xs"
    by (rule pages_partition [OF POST_ON_PAGE_pos])
  finally show ?thesis .
qed

text \<open>
  C14. An unknown group slug, username or post id makes the group listing, the profile and the post detail answer 404, and makes post editing and commenting answer 404 without changing the store.
\<close>

theorem unknown_objects_not_found:
  "(s \<notin> slug ` set (groups d) \<longrightarrow> group_posts d r s = NotFound) \<and>
   (name \<notin> username ` set (users d) \<longrightarrow> profile d r name = NotFound) \<and>
   (i \<notin> pids d \<longrightarrow> post_detail d r i = NotFound \<and> fst (post_edit d r i) = d \<and>
       (req_user r \<noteq> None \<longrightarrow> snd (post_edit d r i) = NotFound \<and> add_comment d now r i = (d, NotFound)))"
  by (auto simp: group_posts_def profile_def post_detail_def post_edit_def add_comment_def
      login_required_def group_by_slug_def user_by_name_def post_by_id_def pids_def
      orm_get_absent [where k = slug] orm_get_absent [where k = username]
      orm_get_absent [where k = post_id] split: option.splits)

text \<open>
  C15. The post detail page of an existing post shows the post, its comments newest first and the comment form, with \<open>is_edit\<close> true exactly when the requesting user is the post's author.
\<close>

theorem post_detail_is_edit:
  assumes "post_by_id d i = Found p"
  shows "\<exists>e. post_detail d r i = Render ''posts/post_detail.html''
                 (DetailCtx p e (comment_form r) (post_comments_qs d i)) \<and>
             (e \<longleftrightarrow> (\<exists>u. req_user r = Some u \<and> user_id u = post_author p))"
proof -
  have "post_id p = i"
    using assms unfolding post_by_id_def by (auto dest: orm_get_Found_mem)
  then show ?thesis
    using assms by (auto simp: post_detail_def Let_def split: option.splits)
qed

text \<open>
  C16. Every view that writes (create, edit, comment, follow, unfollow) keeps the store invariant: keys stay unique and every foreign key still names an existing row.
\<close>

theorem writing_views_keep_store_inv:
  assumes "store_inv d" and "req_ok d r"
  shows "store_inv (fst (post_create d now r)) \<and> store_inv (fst (post_edit d r i)) \<and>
         store_inv (fst (add_comment d now r i)) \<and> store_inv (fst (profile_follow d r name)) \<and>
         store_inv (fst (profile_unfollow d r name))"
  using post_create_inv [OF assms] post_edit_inv [OF assms(1)] add_comment_inv [OF assms]
    profile_follow_inv [OF assms] profile_unfollow_inv [OF assms(1)]
  by blast

text \<open>
  C17. The feed query joins posts with follow rows without \<open>distinct()\<close>, so the race of C24 shows in the feed: from the state \<open>FollowTests\<close> starts in, after the author creates a post and two concurrent follow requests of the user both create their row, the user's feed page lists that one post twice.
\<close>

theorem feed_duplicates_after_race:
  "\<exists>w ps p. conc_reachable (w, ps) \<and> post_author p = user_id test_author \<and>
     page_objects (snd (follow_index (wdb w) (client_get (Some test_user) ''/follow/'' []))) = [p, p]"
proof -
  define r0 where "r0 = client_post (Some test_author) ''/create/'' [(''text'', ''A post'')] []"
  define w2 where "w2 = world_of follow_tests_db 0"
  define p where "p = \<lparr>post_id = 1, post_text = ''A post'', pub_date = 0, post_author = 2,
                       post_group = None, post_image = None\<rparr>"
  define d1 where "d1 = follow_tests_db\<lparr>posts := [p], next_pid := 2\<rparr>"
  define r where "r = client_get (Some test_user) ''/profile/test_author/follow/'' []"
  define t where "t = \<lparr>fi_user = 1, fi_author = 2, fi_create = True, fi_name = ''test_author''\<rparr>"
  define d4 where "d4 = insert_follow (insert_follow d1 1 2) 1 2"
  have s2: "conc_reachable (w2, [])"
    unfolding w2_def by (rule reachable_conc [OF follow_tests_reachable])
  have ok0: "req_ok (wdb w2) r0" by (simp add: w2_def world_of_def r0_def req_ok_def fixture_defs)
  have res: "resolve (req_path r0) = Some PostCreateR"
    using resolve_route_path [of PostCreateR] by (simp add: r0_def client_post_def route_ok_def)
  have "wdb (fst (dispatch w2 r0)) = d1"
    unfolding w2_def r0_def d1_def p_def by code_simp
  then have e0: "fst (dispatch w2 r0) = w2\<lparr>wdb := d1\<rparr>"
    using res by (simp add: dispatch_def on_db_def Let_def)
  have s3: "conc_reachable (w2\<lparr>wdb := d1\<rparr>, [])"
    using conc_reachable.step [OF s2 conc_step.atomic [OF app_step.request [OF ok0]]] e0 by simp
  have ok: "req_ok d1 r" by (simp add: d1_def r_def req_ok_def fixture_defs)
  have chk: "follow_check d1 r ''test_author'' = Inr t"
    by (simp add: d1_def r_def t_def follow_check_def user_by_name_def orm_get_def
        follow_exists_def follow_count_def fixture_defs)
  have s4: "conc_reachable (w2\<lparr>wdb := d1\<rparr>, [t, t])"
    using conc_reachable.step [OF conc_reachable.step [OF s3 conc_step.follow_begin] conc_step.follow_begin] ok chk
    by simp
  have s5: "conc_reachable (w2\<lparr>wdb := insert_follow d1 1 2\<rparr>, [t])"
    using conc_reachable.step [OF s4 conc_step.follow_end [of 0]]
    by (simp add: t_def follow_commit_def)
  have s6: "conc_reachable (w2\<lparr>wdb := d4\<rparr>, [])"
    using conc_reachable.step [OF s5 conc_step.follow_end [of 0]]
    by (simp add: t_def follow_commit_def d4_def)
  have "page_objects (snd (follow_index d4 (client_get (Some test_user) ''/follow/'' []))) = [p, p]"
    unfolding d4_def d1_def p_def by code_simp
  moreover have "post_author p = user_id test_author" by (simp add: p_def fixture_defs)
  ultimately show ?thesis using s6 by fastforce
qed

text \<open>
  C18. Deleting a group (the \<open>on_delete=CASCADE\<close> of \<open>Post.group\<close> from migration 0003) deletes exactly the posts of that group and the comments on them, and keeps the store invariant.
\<close>

theorem delete_group_cascade:
  assumes "store_inv d"
  shows "store_inv (delete_group d g) \<and> g \<notin> gids (delete_group d g) \<and>
         set (posts (delete_group d g)) = {p \<in> set (posts d). post_group p \<noteq> Some g} \<and>
         set (comments (delete_group d g)) =
           {c \<in> set (comments d). \<forall>p \<in> set (posts d). post_id p = comment_post c \<longrightarrow> post_group p \<noteq> Some g}"
proof -
  have "set (comments (delete_group d g)) =
          {c \<in> set (comments d). \<forall>p \<in> set (posts d). post_id p = comment_post c \<longrightarrow> post_group p \<noteq> Some g}"
    by (auto simp: delete_group_def Let_def image_iff)
  then show ?thesis
    using delete_group_inv [OF assms] by (auto simp: delete_group_def Let_def gids_def)
qed


text \<open>
  C20. From 20 seconds after the index page was rendered and stored, the same request renders the page again from the current database.
\<close>

theorem index_cache_expires:
  assumes m: "req_method r \<noteq> POST"
    and miss: "cache_get c t0 (cache_key_of ''index_page'' r) = None"
    and first: "cached_index c d t0 r = (c1, resp1)"
    and t: "t0 + 20 \<le> t1"
  shows "snd (cached_index c1 d' t1 r) = index d' r"
proof -
  have "(c1, resp1) = (cache_set c t0 (cache_key_of ''index_page'' r) (index d r) 20, index d r)"
    using first cached_index_miss [OF m miss, of d] by argo
  then have c1: "c1 = cache_set c t0 (cache_key_of ''index_page'' r) (index d r) 20"
    by auto
  have "cache_get c1 t1 (cache_key_of ''index_page'' r) = None"
    using t by (simp add: c1 cache_get_set_same)
  then show ?thesis
    by (simp add: cached_index_miss [OF m])
qed

text \<open>
  C21. The cached index page is shared by every viewer of its URL: within 20 seconds of the request that rendered and stored it, any request for the same path and query, by another user or by an anonymous visitor, gets that stored response, rendered from the database of the first request, and the cache is left as it was.
\<close>

theorem index_cache_shared:
  assumes m: "req_method r \<noteq> POST" and m': "req_method r' \<noteq> POST"
    and miss: "cache_get c t0 (cache_key_of ''index_page'' r) = None"
    and first: "cached_index c d t0 r = (c1, resp1)"
    and url: "req_path r' = req_path r" "req_GET r' = req_GET r"
    and t: "t0 \<le> t1" "t1 < t0 + 20"
  shows "resp1 = index d r \<and> cached_index c1 d' t1 r' = (c1, resp1)"
proof -
  have "(c1, resp1) = (cache_set c t0 (cache_key_of ''index_page'' r) (index d r) 20, index d r)"
    using first cached_index_miss [OF m miss, of d] by argo
  then have c1: "c1 = cache_set c t0 (cache_key_of ''index_page'' r) (index d r) 20" and r1: "resp1 = index d r"
    by auto
  have "cache_get c1 t1 (cache_key_of ''index_page'' r') = Some (index d r)"
    using t by (simp add: c1 cache_key_of_same_url [OF url] cache_get_set_same)
  then show ?thesis
    by (simp add: r1 cached_index_hit [OF m'])
qed

text \<open>
  C22. \<open>test_posts_index_cache\<close> passes whenever its second request comes less than 20 seconds after its first: the first two responses are equal although the post was deleted between them, and the response after \<open>cache.clear()\<close> differs.
\<close>

theorem test_posts_index_cache_passes:
  assumes "t1 \<le> t2" and "t2 < t1 + 20"
  shows "case test_posts_index_cache t0 t1 t2 t3 of (r1, r2, r3) \<Rightarrow> r1 = r2 \<and> r2 \<noteq> r3"
proof -
  let ?rq = "client_get (Some test_user) ''/'' []"
  let ?k = "cache_key_of ''index_page'' ?rq"
  obtain d1 p where ins: "insert_post views_tests_db (user_id test_user) TEST_POST_TEXT
                              (Some (group_id test_group_1)) None t0 = (d1, p)" by fastforce
  let ?d2 = "delete_post d1 (post_id p)"
  have m: "req_method ?rq \<noteq> POST" and rs: "resolve (req_path ?rq) = Some IndexR"
    and q: "qd_get (req_GET ?rq) ''page'' = None" by (simp_all add: client_get_def)
  have r1: "cached_index cache_clear d1 t1 ?rq = (cache_set cache_clear t1 ?k (index d1 ?rq) 20, index d1 ?rq)"
    by (rule cached_index_miss [OF m cache_get_clear])
  have hit: "cache_get (cache_set cache_clear t1 ?k (index d1 ?rq) 20) t2 ?k = Some (index d1 ?rq)"
    using assms by (simp add: cache_get_set_same)
  have r2: "cached_index (cache_set cache_clear t1 ?k (index d1 ?rq) 20) ?d2 t2 ?rq =
     (cache_set cache_clear t1 ?k (index d1 ?rq) 20, index d1 ?rq)"
    by (rule cached_index_hit [OF m hit])
  have r3: "cached_index cache_clear ?d2 t3 ?rq = (cache_set cache_clear t3 ?k (index ?d2 ?rq) 20, index ?d2 ?rq)"
    by (rule cached_index_miss [OF m cache_get_clear])
  have l1: "length (posts d1) = 2" and l2: "length (posts ?d2) = 1"
    using ins by (auto simp: insert_post_def delete_post_def fixture_defs Let_def)
  have "length (object_list (page (all_posts d1) POST_ON_PAGE 1)) \<noteq>
        length (object_list (page (all_posts ?d2) POST_ON_PAGE 1))"
    using l1 l2 unfolding length_object_list_first_page by (simp add: POST_ON_PAGE_def)
  then have ne: "index d1 ?rq \<noteq> index ?d2 ?rq"
    by (auto simp: index_first_page [OF q])
  show ?thesis
    using ins ne by (simp add: test_posts_index_cache_def world_of_def dispatch_index [OF rs] r1 r2 r3 Let_def)
qed

text \<open>
  C24. Run concurrently, two follow requests of the same user for the same author both pass the existence check before either creates its row: from the state \<open>FollowTests\<close> starts in, the interleaved site reaches a database with two identical \<open>Follow\<close> rows, which breaks the follow invariant, and from then on the user's unfollow request fails with \<open>MultipleObjectsReturned\<close>.
\<close>

theorem follow_race:
  "\<exists>w ps. conc_reachable (w, ps) \<and> \<not> follow_inv (wdb w) \<and>
     follow_count (wdb w) (user_id test_user) (user_id test_author) = 2 \<and>
     profile_unfollow (wdb w) (client_get (Some test_user) ''/profile/test_author/unfollow/'' []) ''test_author''
       = (wdb w, ServerError ''Follow.MultipleObjectsReturned'')"
proof -
  define r where "r = client_get (Some test_user) ''/profile/test_author/follow/'' []"
  define t where "t = \<lparr>fi_user = 1, fi_author = 2, fi_create = True, fi_name = ''test_author''\<rparr>"
  define w2 where "w2 = world_of follow_tests_db 0"
  define d4 where "d4 = insert_follow (insert_follow follow_tests_db 1 2) 1 2"
  have s2: "conc_reachable (w2, [])"
    unfolding w2_def by (rule reachable_conc [OF follow_tests_reachable])
  have ok: "req_ok (wdb w2) r" by (simp add: w2_def world_of_def r_def req_ok_def fixture_defs)
  have chk: "follow_check (wdb w2) r ''test_author'' = Inr t"
    by (simp add: w2_def world_of_def r_def t_def follow_check_def user_by_name_def orm_get_def
        follow_exists_def follow_count_def fixture_defs)
  have s3: "conc_reachable (w2, [t])"
    using conc_reachable.step [OF s2 conc_step.follow_begin [OF ok chk]] by simp
  have s4: "conc_reachable (w2, [t, t])"
    using conc_reachable.step [OF s3 conc_step.follow_begin [OF ok chk]] by simp
  have s5: "conc_reachable (w2\<lparr>wdb := insert_follow follow_tests_db 1 2\<rparr>, [t])"
    using conc_reachable.step [OF s4 conc_step.follow_end [of 0]]
    by (simp add: w2_def world_of_def t_def follow_commit_def)
  have s6: "conc_reachable (w2\<lparr>wdb := d4\<rparr>, [])"
    using conc_reachable.step [OF s5 conc_step.follow_end [of 0]]
    by (simp add: t_def follow_commit_def d4_def)
  have cnt: "follow_count d4 (user_id test_user) (user_id test_author) = 2"
    by (simp add: d4_def follow_count_def insert_follow_def fixture_defs)
  have "\<not> follow_inv d4"
    by (simp add: d4_def follow_inv_def insert_follow_def fixture_defs)
  moreover have "follow_get d4 (user_id test_user) (user_id test_author) = MultipleObjectsReturned"
    using cnt by (simp add: follow_get_multiple)
  then have "profile_unfollow d4 (client_get (Some test_user) ''/profile/test_author/unfollow/'' []) ''test_author''
       = (d4, ServerError ''Follow.MultipleObjectsReturned'')"
    by (simp add: profile_unfollow_def client_get_def d4_def insert_follow_def user_by_name_def
        orm_get_def fixture_defs)
  ultimately show ?thesis using s6 cnt by fastforce
qed

text \<open>
  C26. Following and then unfollowing an author changes the user's feed by exactly that author's posts: after a follow request of a signed-in user for another user, the feed holds the posts it held before and all posts of that author; after the unfollow request that follows it, the feed holds the posts it held before except that author's.
\<close>

theorem follow_unfollow_feed:
  assumes inv: "store_inv d" and fi: "follow_inv d"
    and u: "u \<in> set (users d)" and a: "a \<in> set (users d)" and ne: "user_id u \<noteq> user_id a"
    and ru: "req_user r = Some u"
  shows "set (feed_qs (fst (profile_follow d r (username a))) (user_id u)) =
           set (feed_qs d (user_id u)) \<union> {p \<in> set (posts d). post_author p = user_id a} \<and>
         set (feed_qs (fst (profile_unfollow (fst (profile_follow d r (username a))) r (username a))) (user_id u)) =
           {p \<in> set (feed_qs d (user_id u)). post_author p \<noteq> user_id a}"
proof -
  let ?d1 = "fst (profile_follow d r (username a))"
  have ua: "user_by_name d (username a) = Found a" using lookup_found(1) [OF inv a] .
  have fi1: "follow_inv ?d1" using fi by (rule profile_follow_follow_inv)
  have same1: "users ?d1 = users d" "posts ?d1 = posts d"
    by (simp_all add: profile_follow_found [OF ru ua] insert_follow_def)
  have ex1: "follow_exists ?d1 (user_id u) x \<longleftrightarrow> follow_exists d (user_id u) x \<or> x = user_id a" for x
    using ne by (auto simp: profile_follow_found [OF ru ua] follow_exists_insert)
  have ua1: "user_by_name ?d1 (username a) = Found a" using ua by (simp add: user_by_name_def same1)
  let ?d2 = "fst (profile_unfollow ?d1 r (username a))"
  have d2: "?d2 = delete_follow ?d1 \<lparr>follow_user = user_id u, follow_author = user_id a\<rparr>"
    using profile_unfollow_found [OF ru ua1 fi1] ex1 by simp
  have fi2: "follow_inv ?d2" using fi1 by (rule profile_unfollow_follow_inv)
  have ex2: "follow_exists ?d2 (user_id u) x \<longleftrightarrow> follow_exists d (user_id u) x \<and> x \<noteq> user_id a" for x
    using ex1 follow_exists_delete [OF fi1] by (auto simp: d2)
  have "posts ?d2 = posts d" by (simp add: d2 delete_follow_def same1)
  then show ?thesis
    using set_feed_qs [OF fi] set_feed_qs [OF fi1] set_feed_qs [OF fi2] ex1 ex2 same1 by auto
qed

text \<open>
  C27. The public pages need no login and find what exists: for every request, signed in or anonymous, the index, the page of any stored group, the profile of any stored user and the page of any stored post are rendered with status 200.
\<close>

theorem public_pages_render:
  assumes inv: "store_inv d" and g: "g \<in> set (groups d)" and a: "a \<in> set (users d)" and p: "p \<in> set (posts d)"
  shows "status_code (index d r) = 200 \<and> status_code (group_posts d r (slug g)) = 200 \<and>
         status_code (profile d r (username a)) = 200 \<and> status_code (post_detail d r (post_id p)) = 200"
  using lookup_found [OF inv] g a p
  by (simp add: status_code_def index_def group_posts_def profile_def post_detail_def Let_def)

text \<open>
  C28. A guest who opens a page that needs login, with the test client following redirects, is sent once to the login page, which carries the page's path as \<open>next\<close>, and nothing changes; that \<open>next\<close> resolves back to the page's route.
\<close>

theorem guest_follow_lands_on_login:
  assumes ok: "route_ok R" and lr: "login_route R"
  shows "client_get_follow w None (route_path R) [] =
           Inr (w, Render ''users/login.html'' (LoginCtx (route_path R)), [LoginUrl (route_path R)]) \<and>
         resolve (route_path R) = Some R"
proof -
  have d: "dispatch w (client_get None (route_path R) []) = (w, Redirect (LoginUrl (route_path R)))"
    using ok lr by (intro dispatch_login_route) (simp_all add: client_get_def)
  have lg: "resolve (route_path LoginR) = Some LoginR" by (intro resolve_route_path) (simp add: route_ok_def)
  have g: "get_location w None (LoginUrl (route_path R)) =
           (w, Render ''users/login.html'' (LoginCtx (route_path R)))"
    using lg by (simp add: get_location_def url_target_def dispatch_def client_get_def qd_get_def del: route_path.simps)
  show ?thesis
    using d g resolve_route_path [OF ok]
    by (simp add: client_get_follow_def handle_redirects.simps [of None "[]"]
        handle_redirects.simps [of None "[LoginUrl (route_path R)]"])
qed

text \<open>
  C29. The group page shows its group: for an existing slug it renders \<open>group_list.html\<close> with that group and the requested page of the group's posts, newest first, every one of them in the group; an unknown slug is a 404, and a slug stored twice raises \<open>MultipleObjectsReturned\<close>.
\<close>

theorem group_posts_serves_group:
  "case group_posts d r s of
     Render t (GroupCtx g pg n) \<Rightarrow>
       t = ''posts/group_list.html'' \<and> g \<in> set (groups d) \<and> slug g = s \<and> n = CHAR_IN_POST \<and>
       object_list pg = slice (group_posts_qs d (group_id g)) ((number pg - 1) * POST_ON_PAGE) (number pg * POST_ON_PAGE) \<and>
       (\<forall>q \<in> set (object_list pg). post_group q = Some (group_id g))
   | NotFound \<Rightarrow> (\<forall>g \<in> set (groups d). slug g \<noteq> s)
   | _ \<Rightarrow> 2 \<le> length (filter (\<lambda>g. slug g = s) (groups d))"
proof (cases "group_by_slug d s")
  case DoesNotExist
  then have "group_posts d r s = NotFound" by (simp add: group_posts_def)
  then show ?thesis using DoesNotExist by (simp add: group_by_slug_def orm_get_DoesNotExist)
next
  case MultipleObjectsReturned
  then have "2 \<le> length (filter (\<lambda>g. slug g = s) (groups d))"
    by (auto simp: group_by_slug_def orm_get_def split: list.splits)
  moreover have "group_posts d r s = ServerError ''MultipleObjectsReturned''"
    using MultipleObjectsReturned by (simp add: group_posts_def)
  ultimately show ?thesis by simp
next
  case (Found g)
  then have gs: "g \<in> set (groups d) \<and> slug g = s" unfolding group_by_slug_def by (blast dest: orm_get_Found_mem)
  let ?pg = "page_paginator r (group_posts_qs d (group_id g)) POST_ON_PAGE"
  have ol: "object_list ?pg = slice (group_posts_qs d (group_id g)) ((number ?pg - 1) * POST_ON_PAGE) (number ?pg * POST_ON_PAGE)"
    using object_list_get_page [OF POST_ON_PAGE_pos] by (simp add: page_paginator_def)
  have "set (object_list ?pg) \<subseteq> set (group_posts_qs d (group_id g))"
    unfolding ol by (rule set_slice_subset)
  then have "\<forall>q \<in> set (object_list ?pg). post_group q = Some (group_id g)"
    by (auto simp: group_posts_qs_def set_desc_by)
  moreover have "group_posts d r s = Render ''posts/group_list.html'' (GroupCtx g ?pg CHAR_IN_POST)"
    using Found by (simp add: group_posts_def)
  ultimately show ?thesis using gs ol by simp
qed

text \<open>
  C30. The author's valid edit changes the post in place: the response redirects to the post's page, the post keeps its key, author and date and takes the submitted text, group and image, and no other post changes or is added.
\<close>

theorem post_edit_author_updates:
  assumes inv: "store_inv d" and ru: "req_user r = Some u" and m: "req_method r = POST"
    and p: "p \<in> set (posts d)" and auth: "post_author p = user_id u"
    and f: "form_cleaned (post_form d r (post_image p)) = Some f"
  shows "snd (post_edit d r (post_id p)) = Redirect (PostDetailUrl (post_id p)) \<and>
         post_by_id (fst (post_edit d r (post_id p))) (post_id p) =
           Found (p\<lparr>post_text := pf_text f, post_group := pf_group f, post_image := pf_image f\<rparr>) \<and>
         length (posts (fst (post_edit d r (post_id p)))) = length (posts d) \<and>
         {q \<in> set (posts (fst (post_edit d r (post_id p)))). post_id q \<noteq> post_id p} =
           {q \<in> set (posts d). post_id q \<noteq> post_id p}"
proof -
  let ?p' = "p\<lparr>post_text := pf_text f, post_group := pf_group f, post_image := pf_image f\<rparr>"
  have e: "post_edit d r (post_id p) = (update_post d ?p', Redirect (PostDetailUrl (post_id p)))"
    using lookup_found(3) [OF inv p] ru m auth f by (simp add: post_edit_def)
  let ?ps = "map (\<lambda>q. if post_id q = post_id p then ?p' else q) (posts d)"
  have ids: "map post_id ?ps = map post_id (posts d)" by (simp add: map_eq_conv)
  have dist: "distinct (map post_id ?ps)" unfolding ids using inv by (simp add: store_inv_def)
  have mem: "?p' \<in> set ?ps" using p by force
  have "post_by_id (update_post d ?p') (post_id p) = Found ?p'"
    using orm_get_unique [OF dist mem] by (simp add: post_by_id_def update_post_def)
  moreover have "{q \<in> set ?ps. post_id q \<noteq> post_id p} = {q \<in> set (posts d). post_id q \<noteq> post_id p}"
    by auto
  ultimately show ?thesis by (simp add: e update_post_def)
qed

text \<open>
  C31. Under the schema migration 0003 leaves, the ORM's deletion of a group as the field's \<open>on_delete=CASCADE\<close> prescribes (deleting the group's posts one primary key at a time, each with its comments, then the group) is the store's \<open>delete_group\<close>, for every store whose post keys are unique.
\<close>

theorem orm_delete_group_refines:
  assumes inv: "store_inv d"
    and m: "apply_migration applied s migration_0003 = Inr (applied', s')"
  shows "orm_delete_group s' d g = Inr (delete_group d g)"
proof -
  have "s' (''post'', ''group'') = Some \<lparr>fk_to = ''posts.Group'', fk_null = True, fk_blank = True,
          fk_on_delete = CASCADE, fk_related_name = Some ''posts''\<rparr>"
    using m by (auto simp: apply_migration_def migration_0003_def apply_op_def split: if_splits)
  moreover have "distinct (map post_id (posts d))" using inv by (simp add: store_inv_def)
  ultimately show ?thesis
    by (simp add: orm_delete_group_def on_delete_posts_def fold_delete_post key_filter_eq delete_group_def Let_def)
qed

text \<open>
  C32. The profile's \<open>following\<close> flag follows the follow and unfollow requests: after a user's follow request for another user, that user's view of the author's profile says \<open>following\<close>; after the unfollow request it does not; an anonymous visitor never sees \<open>following\<close>.
\<close>

theorem profile_following_flag:
  assumes inv: "store_inv d" and fi: "follow_inv d"
    and u: "u \<in> set (users d)" and a: "a \<in> set (users d)" and ne: "user_id u \<noteq> user_id a"
    and ru: "req_user r = Some u" and rv: "req_user v = Some u" and rv0: "req_user v0 = None"
  shows "(\<exists>pg. profile (fst (profile_follow d r (username a))) v (username a) =
            Render ''posts/profile.html'' (ProfileCtx a pg CHAR_IN_POST True)) \<and>
         (\<exists>pg. profile (fst (profile_unfollow (fst (profile_follow d r (username a))) r (username a))) v (username a) =
            Render ''posts/profile.html'' (ProfileCtx a pg CHAR_IN_POST False)) \<and>
         (\<exists>pg. profile (fst (profile_follow d r (username a))) v0 (username a) =
            Render ''posts/profile.html'' (ProfileCtx a pg CHAR_IN_POST False))"
proof -
  let ?d1 = "fst (profile_follow d r (username a))"
  have ua: "user_by_name d (username a) = Found a" using lookup_found(1) [OF inv a] .
  have fi1: "follow_inv ?d1" using fi by (rule profile_follow_follow_inv)
  have ua1: "user_by_name ?d1 (username a) = Found a"
    using ua by (simp add: user_by_name_def profile_follow_found [OF ru ua] insert_follow_def)
  have ex1: "follow_exists ?d1 (user_id u) (user_id a)"
    using ne by (auto simp: profile_follow_found [OF ru ua] follow_exists_insert)
  let ?d2 = "fst (profile_unfollow ?d1 r (username a))"
  have d2: "?d2 = delete_follow ?d1 \<lparr>follow_user = user_id u, follow_author = user_id a\<rparr>"
    using profile_unfollow_found [OF ru ua1 fi1 ex1] by simp
  have ua2: "user_by_name ?d2 (username a) = Found a" using ua1 by (simp add: d2 user_by_name_def delete_follow_def)
  have ex2: "\<not> follow_exists ?d2 (user_id u) (user_id a)"
    using follow_exists_delete [OF fi1] by (simp add: d2)
  show ?thesis
    using ua1 ua2 ex1 ex2 rv rv0 by (simp add: profile_def)
qed

text \<open>
  C33. The test client's \<open>follow=True\<close> loop terminates on this site from any world and any response without raising \<open>RedirectCycleError\<close>: it ends at a response that is not a redirect after at most two redirects.
\<close>

theorem follow_redirects_terminates:
  "\<exists>w' resp' chain. handle_redirects u [] w resp = Inr (w', resp', chain) \<and>
     length chain \<le> 2 \<and> \<not> is_redirect resp'"
proof (cases "is_redirect resp")
  case False
  then show ?thesis
    by (cases resp) (auto simp: handle_redirects.simps)
next
  case True
  then obtain t where t: "resp = Redirect t" by (cases resp) (auto simp: is_redirect_def status_code_def)
  obtain w1 r1 where h1: "get_location w u t = (w1, r1)" by fastforce
  show ?thesis
  proof (cases "is_redirect r1")
    case False
    then show ?thesis using t h1
      by (cases r1) (auto simp: handle_redirects.simps [of u "[]"] handle_redirects.simps [of u "[t]"])
  next
    case True
    then obtain t' where t': "r1 = Redirect t'" by (cases r1) (auto simp: is_redirect_def status_code_def)
    have ft': "final_target t'" using hop_next [of w u t t'] h1 t' by simp
    have ne: "t' \<noteq> t"
    proof
      assume "t' = t"
      then have "final_target t" using ft' by simp
      then show False using hop_final [of t w u] h1 t' by simp
    qed
    obtain w2 r2 where h2: "get_location w1 u t' = (w2, r2)" by fastforce
    have "\<not> is_redirect r2" using hop_final [OF ft', of w1 u] h2 by simp
    then show ?thesis using t h1 t' h2 ne
      by (cases r2) (auto simp: handle_redirects.simps [of u "[]"] handle_redirects.simps [of u "[t]"]
          handle_redirects.simps [of u "[t, t']"])
  qed
qed

text \<open>
  C34. In every reachable world every response the site sends fits the route its path resolves to, also when it comes from the index cache: a path that resolves to no route is a 404, and a rendered page uses the template of its route's view (\<open>index.html\<close> for the index, \<open>follow.html\<close> for the feed, and so on) with the context that template reads.
\<close>

theorem dispatch_well_typed: "reachable w \<Longrightarrow> response_fits (resolve (req_path r)) (snd (dispatch w r))"
  using dispatch_keeps [OF response_fits_respected reachable_cache_holds [OF response_fits_respected]] by blast

text \<open>
  C35. In every reachable world, every listing page the site sends (index, feed, group, profile, cached or not) has a number between 1 and its number of pages, holds at most 10 posts, and holds exactly 10 unless it is the last page.
\<close>

theorem listing_pages_bounded: "reachable w \<Longrightarrow> listing_ok (snd (dispatch w r))"
  using dispatch_keeps [OF listing_ok_respected reachable_cache_holds [OF listing_ok_respected]] by blast

text \<open>
  C36. Staleness of the index ends: in every reachable world, once the clock has moved 20 seconds past the current time (a step the site can always take), a request for the index is rendered from the current database, whatever the cache held.
\<close>

theorem index_fresh_after_timeout:
  assumes reach: "reachable w" and m: "req_method r \<noteq> POST"
    and idx: "resolve (req_path r) = Some IndexR" and t: "clock w + 20 \<le> t"
  shows "app_step w (w\<lparr>clock := t\<rparr>) \<and> snd (dispatch (w\<lparr>clock := t\<rparr>) r) = index (wdb w) r"
proof -
  have "cache_bounded w" using reach by (rule reachable_cache_bounded)
  then have "\<And>e. wcache w (cache_key_of ''index_page'' r) = Some e \<Longrightarrow> ce_expires e \<le> clock w + 20"
    unfolding cache_bounded_def by blast
  then have "cache_get (wcache w) t (cache_key_of ''index_page'' r) = None"
    using t by (auto simp: cache_get_def split: option.splits)
  then have "snd (dispatch (w\<lparr>clock := t\<rparr>) r) = index (wdb w) r"
    using idx by (simp add: dispatch_index cached_index_miss [OF m])
  moreover have "app_step w (w\<lparr>clock := t\<rparr>)" using t by (intro app_step.tick) simp
  ultimately show ?thesis by simp
qed

section \<open>The repository's tests run on the model\<close>

text \<open>
  The test methods of \<open>tests/\<close>, as modelled in \<open>Scenarios\<close> and \<open>TestRuns\<close>,
  evaluated on the model: each gives what the test asserts. They check the model
  against the repository's own expectations; the theorems above are the general
  statements.
\<close>

text \<open>
  The four tests of \<open>FollowTests\<close> pass: a follow request adds one row, an unfollow request removes one, a new post of an author appears in the feed of a user only once the user follows the author, and a self follow leaves the count unchanged.
\<close>

theorem follow_tests_pass:
  "(case test_posts_follow of (c1, c2) \<Rightarrow> c1 + 1 = c2) \<and>
   (case test_posts_unfollow of (c1, c2) \<Rightarrow> c1 - 1 = c2) \<and>
   (case test_posts_follow_correct_appear of (before, after, post) \<Rightarrow> post \<notin> set before \<and> post \<in> set after) \<and>
   (case test_posts_follow_yourself of (c1, c2) \<Rightarrow> c1 = c2)"
proof (intro conjI)
  show "case test_posts_follow of (c1, c2) \<Rightarrow> c1 + 1 = c2"
    by (simp add: test_posts_follow_def world_of_def dispatch_def resolve_def route_of_def str_seg_def
        client_get_def fixture_defs on_db_def profile_follow_def follow_count_of_def user_by_name_def
        orm_get_def follow_exists_def follow_count_def insert_follow_def)
  show "case test_posts_unfollow of (c1, c2) \<Rightarrow> c1 - 1 = c2"
    by (simp add: test_posts_unfollow_def world_of_def dispatch_def resolve_def route_of_def str_seg_def
        client_get_def fixture_defs on_db_def profile_unfollow_def follow_count_of_def user_by_name_def
        orm_get_def follow_get_def follow_count_def insert_follow_def delete_follow_def)
  show "case test_posts_follow_correct_appear of (before, after, post) \<Rightarrow> post \<notin> set before \<and> post \<in> set after"
    by (simp add: test_posts_follow_correct_appear_def world_of_def dispatch_def resolve_def route_of_def
        client_get_def fixture_defs on_db_def follow_index_def page_objects_def insert_post_def
        feed_qs_def follow_count_def insert_follow_def join_rows_def desc_by_def page_paginator_def
        get_page_def validate_number_def page_def slice_def POST_ON_PAGE_def Let_def)
  show "case test_posts_follow_yourself of (c1, c2) \<Rightarrow> c1 = c2"
    by (simp add: test_posts_follow_yourself_def world_of_def dispatch_def resolve_def route_of_def str_seg_def
        client_get_def fixture_defs on_db_def profile_follow_def follow_count_of_def user_by_name_def
        orm_get_def follow_exists_def follow_count_def insert_follow_def)
qed

text \<open>
  The URL tests pass through the dispatcher: an unknown path is a 404 for a guest and for a user, a guest asking for \<open>/create/\<close> is sent to \<open>/auth/login/?next=/create/\<close> while the user gets the form, and each address of \<open>test_urls_uses_correct_template\<close> renders its template.
\<close>

theorem url_tests_pass:
  "test_404_error_return_for_unexisting_page = (NotFound, NotFound) \<and>
   (case test_create_post_url_exists of (g, a) \<Rightarrow>
      g = Redirect (LoginUrl ''/create/'') \<and> url_path (LoginUrl ''/create/'') = ''/auth/login/?next=/create/'' \<and>
      template_of a = Some ''posts/create_post.html'') \<and>
   test_urls_uses_correct_template =
     [Some ''posts/index.html'', Some ''posts/group_list.html'', Some ''posts/profile.html'',
      Some ''posts/post_detail.html'', Some ''posts/create_post.html'', Some ''posts/create_post.html'']"
proof (intro conjI)
  show "test_404_error_return_for_unexisting_page = (NotFound, NotFound)"
    by (simp add: test_404_error_return_for_unexisting_page_def world_of_def dispatch_def resolve_def
        route_of_def client_get_def)
  show "case test_create_post_url_exists of (g, a) \<Rightarrow>
      g = Redirect (LoginUrl ''/create/'') \<and> url_path (LoginUrl ''/create/'') = ''/auth/login/?next=/create/'' \<and>
      template_of a = Some ''posts/create_post.html''"
    by (simp add: test_create_post_url_exists_def world_of_def dispatch_def resolve_def route_of_def
        client_get_def url_path_def template_of_def post_create_def on_db_def full_path_def)
  show "test_urls_uses_correct_template =
     [Some ''posts/index.html'', Some ''posts/group_list.html'', Some ''posts/profile.html'',
      Some ''posts/post_detail.html'', Some ''posts/create_post.html'', Some ''posts/create_post.html'']"
    by (simp add: test_urls_uses_correct_template_def url_template_addresses_def world_of_def dispatch_def
        resolve_def route_of_def slug_seg_def str_seg_def int_seg_def is_digit_def
        digits_value_def digit_val_def client_get_def fixture_defs on_db_def template_of_def
        cached_index_def cache_page_def cache_get_def cache_clear_def cache_set_def status_ok_def index_def
        group_posts_def group_by_slug_def profile_def user_by_name_def post_detail_def post_by_id_def
        post_edit_def post_create_def orm_get_def Let_def)
qed

text \<open>
  \<open>test_index_correct_paginator_work\<close> passes: for the index, the group and the profile, the first page holds 10 of the 13 posts and \<open>?page=2\<close> the other 3, the index's two pages being cached under different keys.
\<close>

theorem test_index_correct_paginator_work_passes:
  "list_all (\<lambda>(got, expected). got = expected) test_index_correct_paginator_work \<and>
   length test_index_correct_paginator_work = 6"
  by code_simp

text \<open>
  The three tests of \<open>PostsFormsTests\<close> pass through the dispatcher: a valid post form creates one post with the submitted text, group, author and image and redirects to the author's profile; the author's valid edit changes the text without adding a post; a guest's comment is refused with a redirect to the login page and adds nothing, while the user's adds one comment, newest first on the post's page, with the submitted text, the post and the user.
\<close>

theorem forms_tests_pass:
  "(case test_posts_create_post of (c1, resp, followed, c2, found) \<Rightarrow>
      resp = Redirect (ProfileUrl ''test_user'') \<and> url_path (ProfileUrl ''test_user'') = ''/profile/test_user/'' \<and>
      template_of followed = Some ''posts/profile.html'' \<and> c2 = c1 + 1 \<and> found) \<and>
   (case test_posts_edit_post of (c1, c2, p) \<Rightarrow>
      c1 = c2 \<and> (case p of Found q \<Rightarrow> post_text q = TEST_POST_EDIT_TEXT | _ \<Rightarrow> False)) \<and>
   (case test_posts_comments_by_auth_client of (c0, g, c1, a, c2, followed) \<Rightarrow>
      g = Redirect (LoginUrl ''/posts/1/comment/'') \<and>
      url_path (LoginUrl ''/posts/1/comment/'') = ''/auth/login/?next=/posts/1/comment/'' \<and>
      c1 = c0 \<and> a = Redirect (PostDetailUrl 1) \<and> url_path (PostDetailUrl 1) = ''/posts/1/'' \<and> c2 = c0 + 1 \<and>
      comment_text (hd (detail_comments followed)) = TEST_COMMENT_TEXT \<and>
      comment_post (hd (detail_comments followed)) = post_id forms_tests_post \<and>
      comment_author (hd (detail_comments followed)) = user_id test_user)"
  by code_simp

text \<open>
  The remaining URL tests pass through the dispatcher and the test client: \<open>test_urls_exists\<close> gets status 200 on the index, the group, the profile and the post page both for the guest (following redirects, none of which occur) and for the user; \<open>test_post_edit_url_exists\<close> sends the guest to \<open>/auth/login/?next=/posts/1/edit/\<close>, whose page \<open>assertRedirects\<close> fetches with status 200, gives the author the edit page with status 200, and sends the other user to \<open>/posts/1/\<close>.
\<close>

theorem url_exists_tests_pass:
  "test_urls_exists = replicate 4 (Inr (200, 200)) \<and>
   test_post_edit_url_exists = (Redirect (LoginUrl ''/posts/1/edit/''), 200, 200, Redirect (PostDetailUrl 1)) \<and>
   url_path (LoginUrl ''/posts/1/edit/'') = ''/auth/login/?next=/posts/1/edit/'' \<and>
   url_path (PostDetailUrl 1) = ''/posts/1/''"
proof (intro conjI)
  show "test_urls_exists = replicate 4 (Inr (200, 200))" by code_simp
  show "test_post_edit_url_exists = (Redirect (LoginUrl ''/posts/1/edit/''), 200, 200, Redirect (PostDetailUrl 1))"
    by code_simp
  show "url_path (LoginUrl ''/posts/1/edit/'') = ''/auth/login/?next=/posts/1/edit/''" by (simp add: url_path_def)
  show "url_path (PostDetailUrl 1) = ''/posts/1/''" by code_simp
qed

text \<open>
  The context tests of \<open>PostsViewsTests\<close> pass: each address renders its template; the index, the first group, the profile and the detail page show the post with author \<open>test_user\<close>, the first group's title and an author post count equal to \<open>Post.objects.count()\<close>; the create and the edit page render a form whose \<open>text\<close> field is a \<open>CharField\<close> and whose \<open>group\<close> field is a \<open>ChoiceField\<close>; the post is listed on the index, the first group and the profile, and not on the second group.
\<close>

theorem views_context_tests_pass:
  "test_posts_urls_uses_correct_templates =
     [Some ''posts/index.html'', Some ''posts/group_list.html'', Some ''posts/profile.html'',
      Some ''posts/post_detail.html'', Some ''posts/create_post.html'', Some ''posts/create_post.html''] \<and>
   test_posts_main_pages_show_correct_context =
     (replicate 4 (Some views_tests_post, Some ''test_user'', Some (title test_group_1), Some 1), 1) \<and>
   test_posts_create_edit_pages_show_correct_context = replicate 4 True \<and>
   test_posts_correct_appear = [True, True, True] \<and>
   \<not> test_posts_correct_not_appear"
proof (intro conjI)
  show "test_posts_urls_uses_correct_templates =
     [Some ''posts/index.html'', Some ''posts/group_list.html'', Some ''posts/profile.html'',
      Some ''posts/post_detail.html'', Some ''posts/create_post.html'', Some ''posts/create_post.html'']"
    by code_simp
  show "test_posts_main_pages_show_correct_context =
     (replicate 4 (Some views_tests_post, Some ''test_user'', Some (title test_group_1), Some 1), 1)"
    by code_simp
  show "test_posts_create_edit_pages_show_correct_context = replicate 4 True" by code_simp
  show "test_posts_correct_appear = [True, True, True]" by code_simp
  show "\<not> test_posts_correct_not_appear" by code_simp
qed

text \<open>
  \<open>test_paginator_show_correct_context\<close> passes: each of the 20 posts on the first pages of the index and of the group has author \<open>test_user\<close>, the group's title, and the text \<open>f'Test post {post.id}'\<close>.
\<close>

theorem test_paginator_show_correct_context_passes:
  "list_all (\<lambda>((a, g, t), (a', g', t')). a = Some a' \<and> g = Some g' \<and> t = t') test_paginator_show_correct_context \<and>
   length test_paginator_show_correct_context = 20"
  by code_simp

section \<open>Witnesses on the test fixtures\<close>

lemma profile_follow_keeps_follow_inv_witness:
  "follow_inv follow_tests_db \<and>
   follow_inv (fst (profile_follow follow_tests_db
     (client_get (Some test_user) ''/profile/test_author/follow/'' []) ''test_author''))"
  using profile_follow_keeps_follow_inv [of follow_tests_db]
  by (simp add: follow_inv_def fixture_defs)

lemma profile_follow_count_witness:
  "follow_count (fst (profile_follow follow_tests_db
     (client_get (Some test_user) ''/profile/test_author/follow/'' []) ''test_author'')) 1 2 = 1 \<and>
   follow_count (fst (profile_follow follow_tests_db
     (client_get (Some test_author) ''/profile/test_author/follow/'' []) ''test_author'')) 2 2 = 0"
proof -
  have inv: "follow_inv follow_tests_db" by (simp add: follow_inv_def fixture_defs)
  have a: "user_by_name follow_tests_db ''test_author'' = Found test_author"
    by (simp add: user_by_name_def orm_get_def fixture_defs)
  have r1: "req_user (client_get (Some test_user) ''/profile/test_author/follow/'' []) = Some test_user"
    and r2: "req_user (client_get (Some test_author) ''/profile/test_author/follow/'' []) = Some test_author"
    by (simp_all add: client_get_def)
  show ?thesis
    using profile_follow_count [OF inv r1 a] profile_follow_count [OF inv r2 a]
    by (simp add: test_user_def test_author_def)
qed

lemma follow_index_shows_followed_witness:
  "follow_index (follow_tests_db\<lparr>posts := [forms_tests_post\<lparr>post_author := 2, post_group := None\<rparr>],
                   follows := [\<lparr>follow_user = 1, follow_author = 2\<rparr>]\<rparr>)
                (client_get (Some test_user) ''/follow/'' [])
   = (follow_tests_db\<lparr>posts := [forms_tests_post\<lparr>post_author := 2, post_group := None\<rparr>],
                   follows := [\<lparr>follow_user = 1, follow_author = 2\<rparr>]\<rparr>,
      Render ''posts/follow.html''
        (ListCtx (page_paginator (client_get (Some test_user) ''/follow/'' [])
                   [forms_tests_post\<lparr>post_author := 2, post_group := None\<rparr>] POST_ON_PAGE) CHAR_IN_POST))"
proof -
  let ?d = "follow_tests_db\<lparr>posts := [forms_tests_post\<lparr>post_author := 2, post_group := None\<rparr>],
                   follows := [\<lparr>follow_user = 1, follow_author = 2\<rparr>]\<rparr>"
  have inv: "follow_inv ?d" by (simp add: follow_inv_def fixture_defs)
  have r: "req_user (client_get (Some test_user) ''/follow/'' []) = Some test_user"
    by (simp add: client_get_def)
  show ?thesis
    using follow_index_shows_followed [OF inv r]
    by (simp add: fixture_defs follow_exists_def follow_count_def desc_by_def)
qed

lemma profile_unfollow_not_following_witness:
  "profile_unfollow follow_tests_db (client_get (Some test_user) ''/profile/test_author/unfollow/'' [])
     ''test_author'' = (follow_tests_db, ServerError ''Follow.DoesNotExist'')"
proof -
  have r: "req_user (client_get (Some test_user) ''/profile/test_author/unfollow/'' []) = Some test_user"
    by (simp add: client_get_def)
  have a: "user_by_name follow_tests_db ''test_author'' = Found test_author"
    by (simp add: user_by_name_def orm_get_def fixture_defs)
  have n: "\<not> follow_exists follow_tests_db (user_id test_user) (user_id test_author)"
    by (simp add: follow_exists_def follow_count_def fixture_defs)
  show ?thesis by (rule profile_unfollow_not_following [OF r a n])
qed

lemma profile_unfollow_following_witness:
  "snd (profile_unfollow (follow_tests_db\<lparr>follows := [\<lparr>follow_user = 1, follow_author = 2\<rparr>]\<rparr>)
        (client_get (Some test_user) ''/profile/test_author/unfollow/'' []) ''test_author'')
     = Redirect (ProfileUrl ''test_author'') \<and>
   follows (fst (profile_unfollow (follow_tests_db\<lparr>follows := [\<lparr>follow_user = 1, follow_author = 2\<rparr>]\<rparr>)
        (client_get (Some test_user) ''/profile/test_author/unfollow/'' []) ''test_author'')) = []"
proof -
  let ?d = "follow_tests_db\<lparr>follows := [\<lparr>follow_user = 1, follow_author = 2\<rparr>]\<rparr>"
  have inv: "follow_inv ?d" by (simp add: follow_inv_def fixture_defs)
  have r: "req_user (client_get (Some test_user) ''/profile/test_author/unfollow/'' []) = Some test_user"
    by (simp add: client_get_def)
  have a: "user_by_name ?d ''test_author'' = Found test_author"
    by (simp add: user_by_name_def orm_get_def fixture_defs)
  have e: "follow_exists ?d (user_id test_user) (user_id test_author)"
    by (simp add: follow_exists_def follow_count_def fixture_defs)
  show ?thesis
    using profile_unfollow_following [OF inv r a e] by (simp add: fixture_defs)
qed

lemma protected_views_redirect_anonymous_witness:
  "add_comment forms_tests_db 5 (client_post None ''/posts/1/comment/'' [(''text'', ''Test comment'')] []) 1
     = (forms_tests_db, Redirect (LoginUrl ''/posts/1/comment/'')) \<and>
   post_create forms_tests_db 5 (client_get None ''/create/'' [])
     = (forms_tests_db, Redirect (LoginUrl ''/create/''))"
proof -
  have r1: "req_user (client_post None ''/posts/1/comment/'' [(''text'', ''Test comment'')] []) = None"
    and r2: "req_user (client_get None ''/create/'' []) = None"
    by (simp_all add: fixture_defs)
  show ?thesis
    using protected_views_redirect_anonymous [OF r1, of forms_tests_db 5 1]
      protected_views_redirect_anonymous [OF r2, of forms_tests_db 5]
    by (simp add: client_get_def client_post_def full_path_def)
qed

lemma add_comment_creates_comment_witness:
  "comments (fst (add_comment forms_tests_db 5
      (client_post (Some test_user) ''/posts/1/comment/'' [(''text'', ''Test comment'')] []) 1))
   = [\<lparr>comment_id = 1, comment_post = 1, comment_author = 1, comment_text = ''Test comment'', created = 5\<rparr>]"
proof -
  let ?r = "client_post (Some test_user) ''/posts/1/comment/'' [(''text'', ''Test comment'')] []"
  have r: "req_user ?r = Some test_user" by (simp add: client_post_def)
  have p: "post_by_id forms_tests_db 1 = Found forms_tests_post"
    by (simp add: post_by_id_def orm_get_def fixture_defs)
  have t: "qd_get (req_POST ?r) ''text'' = Some ''Test comment''"
    by (simp add: client_post_def qd_get_def)
  have s: "py_strip ''Test comment'' \<noteq> []"
    by (simp add: py_strip_def py_is_space_def)
  have "py_strip ''Test comment'' = ''Test comment''"
    by (simp add: py_strip_def py_is_space_def)
  then show ?thesis
    using add_comment_creates_comment [OF r p t s, of 5] by (simp add: fixture_defs)
qed

lemma add_comment_invalid_dropped_witness:
  "add_comment forms_tests_db 5 (client_post (Some test_user) ''/posts/1/comment/'' [(''text'', ''   '')] []) 1
     = (forms_tests_db, Redirect (PostDetailUrl 1))"
proof -
  let ?r = "client_post (Some test_user) ''/posts/1/comment/'' [(''text'', ''   '')] []"
  have r: "req_user ?r = Some test_user" by (simp add: client_post_def)
  have p: "post_by_id forms_tests_db 1 = Found forms_tests_post"
    by (simp add: post_by_id_def orm_get_def fixture_defs)
  have f: "form_cleaned (comment_form ?r) = None"
    by (simp add: comment_form_def form_cleaned_def clean_char_def client_post_def qd_get_def
        py_strip_def py_is_space_def)
  show ?thesis by (rule add_comment_invalid_dropped [OF r p f])
qed

lemma post_edit_non_author_witness:
  "post_edit urls_tests_db (client_get (Some test_user_not_author) ''/posts/1/edit/'' []) 1
     = (urls_tests_db, Redirect (PostDetailUrl 1))"
proof -
  have r: "req_user (client_get (Some test_user_not_author) ''/posts/1/edit/'' []) = Some test_user_not_author"
    by (simp add: client_get_def)
  have p: "post_by_id urls_tests_db 1 = Found forms_tests_post"
    by (simp add: post_by_id_def orm_get_def fixture_defs)
  have n: "post_author forms_tests_post \<noteq> user_id test_user_not_author"
    by (simp add: fixture_defs)
  show ?thesis by (rule post_edit_non_author [OF r p n])
qed

lemma post_create_visible_witness:
  "snd (post_create forms_tests_db 5
      (client_post (Some test_user) ''/create/'' [(''text'', ''New post''), (''group'', ''1'')] []))
     = Redirect (ProfileUrl ''test_user'') \<and>
   (\<exists>p. p \<notin> set (posts forms_tests_db) \<and> post_text p = ''New post'' \<and>
        p \<in> set (all_posts (fst (post_create forms_tests_db 5
          (client_post (Some test_user) ''/create/'' [(''text'', ''New post''), (''group'', ''1'')] [])))) \<and>
        p \<in> set (group_posts_qs (fst (post_create forms_tests_db 5
          (client_post (Some test_user) ''/create/'' [(''text'', ''New post''), (''group'', ''1'')] []))) 1) \<and>
        p \<notin> set (group_posts_qs (fst (post_create forms_tests_db 5
          (client_post (Some test_user) ''/create/'' [(''text'', ''New post''), (''group'', ''1'')] []))) 2))"
proof -
  let ?r = "client_post (Some test_user) ''/create/'' [(''text'', ''New post''), (''group'', ''1'')] []"
  have r: "req_user ?r = Some test_user" and m: "req_method ?r = POST"
    by (simp_all add: client_post_def)
  have f: "form_cleaned (post_form forms_tests_db ?r None) =
             Some \<lparr>pf_text = ''New post'', pf_group = Some 1, pf_image = None\<rparr>"
    by (simp add: post_form_def form_cleaned_def clean_post_form_def clean_char_def clean_group_def
        clean_image_def client_post_def qd_get_def py_strip_def py_is_space_def parse_py_int_def
        parse_unsigned_def valid_digits_def is_digit_def digits_value_def digit_val_def gids_def
        fixture_defs)
  show ?thesis
    using post_create_visible [OF forms_tests_db_inv r m f, of 5] by (auto simp: test_user_def)
qed

lemma index_serves_requested_page_witness:
  "length (object_list (page_paginator (client_get (Some test_user) ''/?page=2'' [(''page'', ''2'')])
      (all_posts paginator_tests_db) POST_ON_PAGE)) = 3 \<and>
   length (object_list (page_paginator (client_get (Some test_user) ''/'' [])
      (all_posts paginator_tests_db) POST_ON_PAGE)) = 10"
  using index_serves_requested_page [of "client_get (Some test_user) ''/?page=2'' [(''page'', ''2'')]" paginator_tests_db]
    index_serves_requested_page [of "client_get (Some test_user) ''/'' []" paginator_tests_db]
  by (simp add: Let_def fixture_defs qd_get_def parse_py_int_def py_strip_def py_is_space_def
      parse_unsigned_def valid_digits_def is_digit_def digits_value_def digit_val_def
      num_pages_simp ceil_div_def POST_ON_PAGE_def)

lemma unknown_objects_not_found_witness:
  "group_posts views_tests_db (client_get None ''/group/missing/'' []) ''missing'' = NotFound \<and>
   profile views_tests_db (client_get None ''/profile/nobody/'' []) ''nobody'' = NotFound \<and>
   post_detail views_tests_db (client_get None ''/posts/7/'' []) 7 = NotFound \<and>
   add_comment views_tests_db 5 (client_post (Some test_user) ''/posts/7/comment/'' [] []) 7 = (views_tests_db, NotFound)"
proof -
  have s: "''missing'' \<notin> slug ` set (groups views_tests_db)"
    and n: "''nobody'' \<notin> username ` set (users views_tests_db)"
    and i: "(7::nat) \<notin> pids views_tests_db"
    by (simp_all add: fixture_defs pids_def)
  show ?thesis
    using unknown_objects_not_found [of "''missing''" views_tests_db "client_get None ''/group/missing/'' []"]
      unknown_objects_not_found [of _ views_tests_db "client_get None ''/profile/nobody/'' []" "''nobody''"]
      unknown_objects_not_found [of _ views_tests_db "client_get None ''/posts/7/'' []" _ 7]
      unknown_objects_not_found [of _ views_tests_db "client_post (Some test_user) ''/posts/7/comment/'' [] []" _ 7 5]
      s n i
    by (simp add: client_get_def client_post_def)
qed

lemma post_detail_is_edit_witness:
  "post_detail forms_tests_db (client_get (Some test_user) ''/posts/1/'' []) 1 =
     Render ''posts/post_detail.html'' (DetailCtx forms_tests_post True Unbound []) \<and>
   post_detail forms_tests_db (client_get None ''/posts/1/'' []) 1 =
     Render ''posts/post_detail.html'' (DetailCtx forms_tests_post False Unbound [])"
proof -
  have p: "post_by_id forms_tests_db 1 = Found forms_tests_post"
    by (simp add: post_by_id_def orm_get_def fixture_defs)
  show ?thesis
    using post_detail_is_edit [OF p, of "client_get (Some test_user) ''/posts/1/'' []"]
      post_detail_is_edit [OF p, of "client_get None ''/posts/1/'' []"]
    by (auto simp: fixture_defs comment_form_def post_comments_qs_def desc_by_def)
qed

lemma writing_views_keep_store_inv_witness:
  "store_inv (fst (post_create forms_tests_db 5
     (client_post (Some test_user) ''/create/'' [(''text'', ''New post'')] []))) \<and>
   store_inv (fst (profile_follow urls_tests_db
     (client_get (Some test_user) ''/profile/test_user_not_author/follow/'' []) ''test_user_not_author''))"
proof -
  have ok1: "req_ok forms_tests_db (client_post (Some test_user) ''/create/'' [(''text'', ''New post'')] [])"
    by (simp add: req_ok_def fixture_defs)
  have inv2: "store_inv urls_tests_db" by (simp add: store_inv_unfold fixture_defs)
  have ok2: "req_ok urls_tests_db (client_get (Some test_user) ''/profile/test_user_not_author/follow/'' [])"
    by (simp add: req_ok_def fixture_defs)
  show ?thesis
    using writing_views_keep_store_inv [OF forms_tests_db_inv ok1]
      writing_views_keep_store_inv [OF inv2 ok2] by blast
qed

lemma delete_group_cascade_witness:
  "posts (delete_group views_tests_db 1) = [] \<and> groups (delete_group views_tests_db 1) = [test_group_2] \<and>
   store_inv (delete_group views_tests_db 1)"
  using delete_group_cascade [OF views_tests_db_inv, of 1]
  by (simp add: delete_group_def fixture_defs)


lemma index_cache_expires_witness:
  "snd (cached_index (fst (cached_index cache_clear views_tests_db 0 (client_get (Some test_user) ''/'' [])))
     (delete_post views_tests_db 1) 20 (client_get (Some test_user) ''/'' []))
   = index (delete_post views_tests_db 1) (client_get (Some test_user) ''/'' [])"
proof -
  let ?r = "client_get (Some test_user) ''/'' []"
  obtain c1 resp1 where e: "cached_index cache_clear views_tests_db 0 ?r = (c1, resp1)" by fastforce
  have m: "req_method ?r \<noteq> POST" by (simp add: client_get_def)
  have t: "(0::nat) + 20 \<le> 20" by simp
  show ?thesis
    using index_cache_expires [OF m cache_get_clear e t, of "delete_post views_tests_db 1"] e by simp
qed

lemma index_cache_shared_witness:
  "cached_index (fst (cached_index cache_clear views_tests_db 0 (client_get (Some test_user) ''/'' [])))
     (delete_post views_tests_db 1) 5 (client_get None ''/'' [])
   = (fst (cached_index cache_clear views_tests_db 0 (client_get (Some test_user) ''/'' [])),
      index views_tests_db (client_get (Some test_user) ''/'' []))"
proof -
  let ?r = "client_get (Some test_user) ''/'' []" and ?r' = "client_get None ''/'' []"
  obtain c1 resp1 where e: "cached_index cache_clear views_tests_db 0 ?r = (c1, resp1)" by fastforce
  have m: "req_method ?r \<noteq> POST" and m': "req_method ?r' \<noteq> POST"
    and url: "req_path ?r' = req_path ?r" "req_GET ?r' = req_GET ?r" by (simp_all add: client_get_def)
  have t: "(0::nat) \<le> 5" "(5::nat) < 0 + 20" by simp_all
  show ?thesis
    using index_cache_shared [OF m m' cache_get_clear e url t, of "delete_post views_tests_db 1"] e by simp
qed

lemma test_posts_index_cache_passes_witness:
  "case test_posts_index_cache 0 1 5 6 of (r1, r2, r3) \<Rightarrow> r1 = r2 \<and> r2 \<noteq> r3"
proof -
  have "(1::nat) \<le> 5" and "(5::nat) < 1 + 20" by simp_all
  then show ?thesis by (rule test_posts_index_cache_passes)
qed

lemma reachable_world_inv_witness: "world_inv (world_of follow_tests_db 0)"
  by (rule reachable_world_inv [OF follow_tests_reachable])

lemma unfollow_duplicated_witness:
  "profile_unfollow (insert_follow (insert_follow follow_tests_db 1 2) 1 2)
     (client_get (Some test_user) ''/profile/test_author/unfollow/'' []) ''test_author''
   = (insert_follow (insert_follow follow_tests_db 1 2) 1 2, ServerError ''Follow.MultipleObjectsReturned'')"
proof -
  let ?d = "insert_follow (insert_follow follow_tests_db 1 2) 1 2"
  have c: "2 \<le> follow_count ?d (user_id test_user) (user_id test_author)"
    by (simp add: follow_count_def insert_follow_def fixture_defs)
  have r: "req_user (client_get (Some test_user) ''/profile/test_author/unfollow/'' []) = Some test_user"
    by (simp add: client_get_def)
  have a: "user_by_name ?d ''test_author'' = Found test_author"
    by (simp add: user_by_name_def orm_get_def insert_follow_def fixture_defs)
  show ?thesis by (rule unfollow_duplicated [OF c r a])
qed

lemma resolve_examples:
  "resolve ''/profile/test_author/unfollow/'' = Some (ProfileUnfollowR ''test_author'') \<and>
   resolve ''/group/test-slug/'' = Some (GroupListR ''test-slug'') \<and>
   resolve ''/posts/12/edit/'' = Some (PostEditR 12)"
proof -
  have "route_ok (ProfileUnfollowR ''test_author'')" and "route_ok (GroupListR ''test-slug'')"
    and "route_ok (PostEditR 12)"
    by (simp_all add: route_ok_def str_seg_def slug_seg_def)
  moreover have "route_path (PostEditR 12) = ''/posts/12/edit/''" by code_simp
  ultimately show ?thesis
    using resolve_route_path [of "ProfileUnfollowR ''test_author''"] resolve_route_path [of "GroupListR ''test-slug''"]
      resolve_route_path [of "PostEditR 12"]
    by simp
qed

lemma orm_delete_group_refines_witness:
  "orm_delete_group ((\<lambda>_. None)((''post'', ''group'') \<mapsto>
       \<lparr>fk_to = ''posts.Group'', fk_null = True, fk_blank = True, fk_on_delete = CASCADE,
        fk_related_name = Some ''posts''\<rparr>)) views_tests_db 1
   = Inr (delete_group views_tests_db 1)"
proof -
  let ?s0 = "(\<lambda>_. None)((''post'', ''group'') \<mapsto>
       \<lparr>fk_to = ''posts.Group'', fk_null = False, fk_blank = False, fk_on_delete = CASCADE,
        fk_related_name = None\<rparr>) :: schema"
  let ?applied = "[(''posts'', ''0001_initial''), (''posts'', ''0002_auto_20230110_0841'')]"
  have m: "apply_migration ?applied ?s0 migration_0003 =
      Inr (?applied @ [(''posts'', ''0003_auto_20230118_1654'')],
           (\<lambda>_. None)((''post'', ''group'') \<mapsto>
       \<lparr>fk_to = ''posts.Group'', fk_null = True, fk_blank = True, fk_on_delete = CASCADE,
        fk_related_name = Some ''posts''\<rparr>))"
    by (simp add: apply_migration_def migration_0003_def apply_op_def)
  show ?thesis by (rule orm_delete_group_refines [OF views_tests_db_inv m])
qed

lemma dispatch_well_typed_witness:
  "response_fits (resolve ''/profile/test_author/'') (snd (dispatch (world_of follow_tests_db 0) (client_get None ''/profile/test_author/'' [])))"
  using dispatch_well_typed [OF follow_tests_reachable, of "client_get None ''/profile/test_author/'' []"]
  by (simp add: client_get_def)

lemma listing_pages_bounded_witness:
  "listing_ok (snd (dispatch (world_of follow_tests_db 0) (client_get None ''/'' [(''page'', ''7'')])))"
  by (rule listing_pages_bounded [OF follow_tests_reachable])

lemma index_fresh_after_timeout_witness:
  "app_step (world_of follow_tests_db 0) ((world_of follow_tests_db 0)\<lparr>clock := 20\<rparr>) \<and>
   snd (dispatch ((world_of follow_tests_db 0)\<lparr>clock := 20\<rparr>) (client_get None ''/'' [])) =
     index follow_tests_db (client_get None ''/'' [])"
proof -
  have m: "req_method (client_get None ''/'' []) \<noteq> POST"
    and i: "resolve (req_path (client_get None ''/'' [])) = Some IndexR"
    and t: "clock (world_of follow_tests_db 0) + 20 \<le> 20"
    by (simp_all add: client_get_def world_of_def)
  show ?thesis
    using index_fresh_after_timeout [OF follow_tests_reachable m i t] by (simp add: world_of_def)
qed

lemma follow_unfollow_feed_witness:
  "set (feed_qs (fst (profile_follow (follow_tests_db\<lparr>posts := [\<lparr>post_id = 1, post_text = ''A post'', pub_date = 0,
        post_author = 2, post_group = None, post_image = None\<rparr>], next_pid := 2\<rparr>)
        (client_get (Some test_user) ''/profile/test_author/follow/'' []) ''test_author'')) 1) =
     {\<lparr>post_id = 1, post_text = ''A post'', pub_date = 0, post_author = 2, post_group = None, post_image = None\<rparr>} \<and>
   set (feed_qs (fst (profile_unfollow (fst (profile_follow (follow_tests_db\<lparr>posts := [\<lparr>post_id = 1,
        post_text = ''A post'', pub_date = 0, post_author = 2, post_group = None, post_image = None\<rparr>], next_pid := 2\<rparr>)
        (client_get (Some test_user) ''/profile/test_author/follow/'' []) ''test_author''))
        (client_get (Some test_user) ''/profile/test_author/follow/'' []) ''test_author'')) 1) = {}"
proof -
  let ?d = "follow_tests_db\<lparr>posts := [\<lparr>post_id = 1, post_text = ''A post'', pub_date = 0,
        post_author = 2, post_group = None, post_image = None\<rparr>], next_pid := 2\<rparr>"
  let ?r = "client_get (Some test_user) ''/profile/test_author/follow/'' []"
  have inv: "store_inv ?d" by (simp add: store_inv_unfold fixture_defs)
  have fi: "follow_inv ?d" by (simp add: follow_inv_def fixture_defs)
  have u: "test_user \<in> set (users ?d)" and a: "test_author \<in> set (users ?d)"
    and ne: "user_id test_user \<noteq> user_id test_author" and ru: "req_user ?r = Some test_user"
    by (simp_all add: fixture_defs)
  have e: "set (feed_qs ?d (user_id test_user)) = {}"
    by (simp add: feed_qs_def join_rows_def follow_count_def fixture_defs)
  have pa: "{p \<in> set (posts ?d). post_author p = user_id test_author} =
      {\<lparr>post_id = 1, post_text = ''A post'', pub_date = 0, post_author = 2, post_group = None, post_image = None\<rparr>}"
    by (auto simp: fixture_defs)
  have n: "username test_author = ''test_author''" "user_id test_user = 1" by (simp_all add: fixture_defs)
  show ?thesis
    using follow_unfollow_feed [OF inv fi u a ne ru, unfolded e pa, unfolded n] by simp
qed

lemma public_pages_render_witness:
  "status_code (index urls_tests_db (client_get None ''/'' [])) = 200 \<and>
   status_code (group_posts urls_tests_db (client_get None ''/'' []) ''test-slug'') = 200 \<and>
   status_code (profile urls_tests_db (client_get None ''/'' []) ''test_user'') = 200 \<and>
   status_code (post_detail urls_tests_db (client_get None ''/'' []) 1) = 200"
proof -
  have inv: "store_inv urls_tests_db" by (simp add: store_inv_unfold fixture_defs)
  have g: "test_group \<in> set (groups urls_tests_db)" and a: "test_user \<in> set (users urls_tests_db)"
    and p: "forms_tests_post \<in> set (posts urls_tests_db)" by (simp_all add: fixture_defs)
  show ?thesis
    using public_pages_render [OF inv g a p, of "client_get None ''/'' []"] by (simp add: fixture_defs)
qed

lemma guest_follow_lands_on_login_witness:
  "client_get_follow (world_of urls_tests_db 0) None ''/create/'' [] =
     Inr (world_of urls_tests_db 0, Render ''users/login.html'' (LoginCtx ''/create/''), [LoginUrl ''/create/'']) \<and>
   resolve ''/create/'' = Some PostCreateR"
proof -
  have "route_ok PostCreateR" "login_route PostCreateR" by (simp_all add: route_ok_def)
  then show ?thesis using guest_follow_lands_on_login [of PostCreateR "world_of urls_tests_db 0"] by simp
qed

lemma post_edit_author_updates_witness:
  "snd (post_edit forms_tests_db (client_post (Some test_user) ''/posts/1/edit/''
      [(''text'', TEST_POST_EDIT_TEXT), (''group'', ''1'')] []) 1) = Redirect (PostDetailUrl 1) \<and>
   post_by_id (fst (post_edit forms_tests_db (client_post (Some test_user) ''/posts/1/edit/''
      [(''text'', TEST_POST_EDIT_TEXT), (''group'', ''1'')] []) 1)) 1 =
     Found (forms_tests_post\<lparr>post_text := TEST_POST_EDIT_TEXT, post_group := Some 1, post_image := None\<rparr>)"
proof -
  let ?r = "client_post (Some test_user) ''/posts/1/edit/'' [(''text'', TEST_POST_EDIT_TEXT), (''group'', ''1'')] []"
  let ?f = "\<lparr>pf_text = TEST_POST_EDIT_TEXT, pf_group = Some 1, pf_image = None\<rparr>"
  have ru: "req_user ?r = Some test_user" and m: "req_method ?r = POST" by (simp_all add: fixture_defs)
  have p: "forms_tests_post \<in> set (posts forms_tests_db)"
    and auth: "post_author forms_tests_post = user_id test_user" by (simp_all add: fixture_defs)
  have f: "form_cleaned (post_form forms_tests_db ?r (post_image forms_tests_post)) = Some ?f" by code_simp
  have i: "post_id forms_tests_post = 1" by (simp add: fixture_defs)
  show ?thesis
    using post_edit_author_updates [OF forms_tests_db_inv ru m p auth f] unfolding i by simp
qed

lemma profile_following_flag_witness:
  "(\<exists>pg. profile (fst (profile_follow follow_tests_db (client_get (Some test_user) ''/profile/test_author/follow/'' [])
      ''test_author'')) (client_get (Some test_user) ''/profile/test_author/'' []) ''test_author'' =
      Render ''posts/profile.html'' (ProfileCtx test_author pg CHAR_IN_POST True)) \<and>
   (\<exists>pg. profile (fst (profile_follow follow_tests_db (client_get (Some test_user) ''/profile/test_author/follow/'' [])
      ''test_author'')) (client_get None ''/profile/test_author/'' []) ''test_author'' =
      Render ''posts/profile.html'' (ProfileCtx test_author pg CHAR_IN_POST False))"
proof -
  let ?r = "client_get (Some test_user) ''/profile/test_author/follow/'' []"
  have inv: "store_inv follow_tests_db" by (simp add: store_inv_unfold fixture_defs)
  have fi: "follow_inv follow_tests_db" by (simp add: follow_inv_def fixture_defs)
  have u: "test_user \<in> set (users follow_tests_db)" and a: "test_author \<in> set (users follow_tests_db)"
    and ne: "user_id test_user \<noteq> user_id test_author" and ru: "req_user ?r = Some test_user"
    and rv: "req_user (client_get (Some test_user) ''/profile/test_author/'' []) = Some test_user"
    and rv0: "req_user (client_get None ''/profile/test_author/'' []) = None"
    by (simp_all add: fixture_defs)
  have n: "username test_author = ''test_author''" by (simp add: fixture_defs)
  show ?thesis using profile_following_flag [OF inv fi u a ne ru rv rv0] unfolding n by blast
qed

lemma group_posts_serves_group_witness:
  "case group_posts views_tests_db (client_get None ''/group/test-slug-1/'' []) ''test-slug-1'' of
     Render t (GroupCtx g pg n) \<Rightarrow>
       t = ''posts/group_list.html'' \<and> g = test_group_1 \<and>
       list_all (\<lambda>q. post_group q = Some (group_id g)) (object_list pg)
   | _ \<Rightarrow> False"
proof -
  let ?r = "client_get None ''/group/test-slug-1/'' []"
  have e: "group_posts views_tests_db ?r ''test-slug-1'' =
      Render ''posts/group_list.html''
        (GroupCtx test_group_1 (page_paginator ?r (group_posts_qs views_tests_db 1) POST_ON_PAGE) CHAR_IN_POST)"
    by (simp add: group_posts_def group_by_slug_def orm_get_def fixture_defs)
  show ?thesis
    using group_posts_serves_group [where d = views_tests_db and r = ?r and s = "''test-slug-1''"] unfolding e
    by (simp add: list_all_iff fixture_defs)
qed

end
